theory Spec2Isabelle
  imports Main "HOL-Library.Word" "HOL-Library.Sublist" "HOL-Library.AList"
begin

unbundle bit_operations_syntax

section \<open>Python values used by the scripts\<close>

subsection \<open>Strings\<close>

text \<open>
  The scripts use three operations of Python's \<open>str\<close>: \<open>s.lstrip(chars)\<close>, which removes
  every leading character that belongs to \<open>chars\<close>; \<open>k in s\<close>, the test for a contiguous
  substring; and \<open>s.endswith(suf)\<close>.
\<close>

definition lstrip :: "string \<Rightarrow> string \<Rightarrow> string" where
  "lstrip chars s = dropWhile (\<lambda>c. c \<in> set chars) s"

fun str_contains :: "string \<Rightarrow> string \<Rightarrow> bool" where
  "str_contains k [] = (k = [])"
| "str_contains k (c # s) = (prefix k (c # s) \<or> str_contains k s)"

definition endswith :: "string \<Rightarrow> string \<Rightarrow> bool" where
  "endswith s suf = (length suf \<le> length s \<and> drop (length s - length suf) s = suf)"

subsection \<open>Values decoded from JSON\<close>

text \<open>
  \<open>response.json()\<close> and \<open>json.load\<close> return \<open>None\<close>, a \<open>bool\<close>, an \<open>int\<close>, a \<open>float\<close>
  (an IEEE double, kept here as its 64 bits), a \<open>str\<close>, a \<open>list\<close> or a \<open>dict\<close>. A \<open>dict\<close>
  keeps its keys in insertion order, so it is an association list; assigning to a key that
  is present replaces the value in place, assigning to a new key appends it
  (\<open>AList.update\<close>).
\<close>

type_synonym byte = "8 word"

datatype json =
    JNull
  | JBool bool
  | JInt int
  | JFloat "64 word"
  | JString string
  | JArray "json list"
  | JObject "(string \<times> json) list"

datatype pyerr = KeyError | TypeError | AttributeError | OSError

text \<open>Truth value of an object, as \<open>if not x\<close> tests it.\<close>

fun truthy :: "json \<Rightarrow> bool" where
  "truthy JNull = False"
| "truthy (JBool b) = b"
| "truthy (JInt i) = (i \<noteq> 0)"
| "truthy (JFloat w) = (push_bit 1 w \<noteq> 0)"
| "truthy (JString s) = (s \<noteq> [])"
| "truthy (JArray xs) = (xs \<noteq> [])"
| "truthy (JObject kvs) = (kvs \<noteq> [])"

text \<open>\<open>x[key]\<close> with a string key: only a \<open>dict\<close> accepts it, and raises KeyError when the
  key is missing.\<close>

fun subscript :: "json \<Rightarrow> string \<Rightarrow> pyerr + json" where
  "subscript (JObject kvs) key =
     (case map_of kvs key of None \<Rightarrow> Inl KeyError | Some v \<Rightarrow> Inr v)"
| "subscript _ key = Inl TypeError"

text \<open>\<open>x.get(key, default)\<close>: a method of \<open>dict\<close> only.\<close>

fun dict_get :: "json \<Rightarrow> string \<Rightarrow> json \<Rightarrow> pyerr + json" where
  "dict_get (JObject kvs) key dflt =
     Inr (case map_of kvs key of None \<Rightarrow> dflt | Some v \<Rightarrow> v)"
| "dict_get _ key dflt = Inl AttributeError"

text \<open>\<open>x[key] = v\<close> with a string key.\<close>

fun set_item :: "json \<Rightarrow> string \<Rightarrow> json \<Rightarrow> pyerr + json" where
  "set_item (JObject kvs) key v = Inr (JObject (AList.update key v kvs))"
| "set_item _ key v = Inl TypeError"

text \<open>\<open>for a in x\<close>: a list yields its elements, a dict its keys, a string its characters;
  nothing else is iterable.\<close>

fun iter_items :: "json \<Rightarrow> pyerr + json list" where
  "iter_items (JArray xs) = Inr xs"
| "iter_items (JObject kvs) = Inr (map (\<lambda>kv. JString (fst kv)) kvs)"
| "iter_items (JString s) = Inr (map (\<lambda>c. JString [c]) s)"
| "iter_items _ = Inl TypeError"

text \<open>\<open>key in x\<close> for a string \<open>key\<close>: substring of a string, element of a list, key of a
  dict; TypeError on anything else.\<close>

fun py_in :: "string \<Rightarrow> json \<Rightarrow> pyerr + bool" where
  "py_in key (JString s) = Inr (str_contains key s)"
| "py_in key (JArray xs) = Inr (JString key \<in> set xs)"
| "py_in key (JObject kvs) = Inr (key \<in> fst ` set kvs)"
| "py_in key _ = Inl TypeError"

fun py_endswith :: "json \<Rightarrow> string \<Rightarrow> pyerr + bool" where
  "py_endswith (JString s) suf = Inr (endswith s suf)"
| "py_endswith _ suf = Inl AttributeError"

fun py_lstrip :: "json \<Rightarrow> string \<Rightarrow> pyerr + string" where
  "py_lstrip (JString s) chars = Inr (lstrip chars s)"
| "py_lstrip _ chars = Inl AttributeError"

section \<open>hashlib.sha256\<close>

text \<open>
  Both scripts hash with \<open>hashlib.sha256\<close>. The hash object is modelled as the standard
  describes it (FIPS 180-4): a chaining value of eight 32-bit words, the bytes not yet
  compressed (fewer than 64 between calls) and the number of bytes taken so far.
  \<open>update\<close> compresses every complete 64-byte block; \<open>hexdigest\<close> pads a copy of the
  pending bytes and prints the chaining value in lower-case hexadecimal.
\<close>

type_synonym u32 = "32 word"

datatype hstate = HState u32 u32 u32 u32 u32 u32 u32 u32

definition rotr :: "nat \<Rightarrow> u32 \<Rightarrow> u32" where
  "rotr n x = drop_bit n x OR push_bit (32 - n) x"

definition Ch :: "u32 \<Rightarrow> u32 \<Rightarrow> u32 \<Rightarrow> u32" where
  "Ch x y z = (x AND y) XOR (NOT x AND z)"

definition Maj :: "u32 \<Rightarrow> u32 \<Rightarrow> u32 \<Rightarrow> u32" where
  "Maj x y z = (x AND y) XOR (x AND z) XOR (y AND z)"

definition Sigma0 :: "u32 \<Rightarrow> u32" where
  "Sigma0 x = rotr 2 x XOR rotr 13 x XOR rotr 22 x"

definition Sigma1 :: "u32 \<Rightarrow> u32" where
  "Sigma1 x = rotr 6 x XOR rotr 11 x XOR rotr 25 x"

definition sigma0 :: "u32 \<Rightarrow> u32" where
  "sigma0 x = rotr 7 x XOR rotr 18 x XOR drop_bit 3 x"

definition sigma1 :: "u32 \<Rightarrow> u32" where
  "sigma1 x = rotr 17 x XOR rotr 19 x XOR drop_bit 10 x"

text \<open>The sixty-four round constants (FIPS 180-4, section 4.2.2), eight rounds to a row.\<close>

definition K256_rounds_0 :: "u32 list" where
  "K256_rounds_0 =
     [0x428a2f98, 0x71374491, 0xb5c0fbcf, 0xe9b5dba5,
      0x3956c25b, 0x59f111f1, 0x923f82a4, 0xab1c5ed5]"

definition K256_rounds_1 :: "u32 list" where
  "K256_rounds_1 =
     [0xd807aa98, 0x12835b01, 0x243185be, 0x550c7dc3,
      0x72be5d74, 0x80deb1fe, 0x9bdc06a7, 0xc19bf174]"

definition K256_rounds_2 :: "u32 list" where
  "K256_rounds_2 =
     [0xe49b69c1, 0xefbe4786, 0x0fc19dc6, 0x240ca1cc,
      0x2de92c6f, 0x4a7484aa, 0x5cb0a9dc, 0x76f988da]"

definition K256_rounds_3 :: "u32 list" where
  "K256_rounds_3 =
     [0x983e5152, 0xa831c66d, 0xb00327c8, 0xbf597fc7,
      0xc6e00bf3, 0xd5a79147, 0x06ca6351, 0x14292967]"

definition K256_rounds_4 :: "u32 list" where
  "K256_rounds_4 =
     [0x27b70a85, 0x2e1b2138, 0x4d2c6dfc, 0x53380d13,
      0x650a7354, 0x766a0abb, 0x81c2c92e, 0x92722c85]"

definition K256_rounds_5 :: "u32 list" where
  "K256_rounds_5 =
     [0xa2bfe8a1, 0xa81a664b, 0xc24b8b70, 0xc76c51a3,
      0xd192e819, 0xd6990624, 0xf40e3585, 0x106aa070]"

definition K256_rounds_6 :: "u32 list" where
  "K256_rounds_6 =
     [0x19a4c116, 0x1e376c08, 0x2748774c, 0x34b0bcb5,
      0x391c0cb3, 0x4ed8aa4a, 0x5b9cca4f, 0x682e6ff3]"

definition K256_rounds_7 :: "u32 list" where
  "K256_rounds_7 =
     [0x748f82ee, 0x78a5636f, 0x84c87814, 0x8cc70208,
      0x90befffa, 0xa4506ceb, 0xbef9a3f7, 0xc67178f2]"

definition K256 :: "u32 list" where
  "K256 = K256_rounds_0 @ K256_rounds_1 @ K256_rounds_2 @ K256_rounds_3
          @ K256_rounds_4 @ K256_rounds_5 @ K256_rounds_6 @ K256_rounds_7"

definition H0 :: hstate where
  "H0 = HState 0x6a09e667 0xbb67ae85 0x3c6ef372 0xa54ff53a
               0x510e527f 0x9b05688c 0x1f83d9ab 0x5be0cd19"

definition be32 :: "byte list \<Rightarrow> u32" where
  "be32 bs = foldl (\<lambda>acc b. push_bit 8 acc OR ucast b) 0 bs"

fun words_of :: "byte list \<Rightarrow> u32 list" where
  "words_of (a # b # c # d # rest) = be32 [a, b, c, d] # words_of rest"
| "words_of _ = []"

text \<open>The message schedule, newest word first: \<open>w ! 1\<close> is \<open>W(t-2)\<close>, \<open>w ! 15\<close> is
  \<open>W(t-16)\<close>.\<close>

fun schedule :: "nat \<Rightarrow> u32 list \<Rightarrow> u32 list" where
  "schedule 0 w = w"
| "schedule (Suc n) w =
     schedule n ((sigma1 (w ! 1) + w ! 6 + sigma0 (w ! 14) + w ! 15) # w)"

fun round_step :: "hstate \<Rightarrow> u32 \<times> u32 \<Rightarrow> hstate" where
  "round_step (HState a b c d e f g h) (k, w) =
     (let t1 = h + Sigma1 e + Ch e f g + k + w;
          t2 = Sigma0 a + Maj a b c
      in HState (t1 + t2) a b c (d + t1) e f g)"

fun hadd :: "hstate \<Rightarrow> hstate \<Rightarrow> hstate" where
  "hadd (HState a b c d e f g h) (HState a' b' c' d' e' f' g' h') =
     HState (a + a') (b + b') (c + c') (d + d') (e + e') (f + f') (g + g') (h + h')"

definition compress :: "hstate \<Rightarrow> byte list \<Rightarrow> hstate" where
  "compress st block =
     hadd st (foldl round_step st (zip K256 (rev (schedule 48 (rev (words_of block))))))"

definition length_bytes :: "nat \<Rightarrow> byte list" where
  "length_bytes len =
     (let bits = (of_nat (8 * len) :: 64 word)
      in map (\<lambda>i. ucast (drop_bit (8 * (7 - i)) bits)) [0..<8])"

definition padding :: "nat \<Rightarrow> byte list" where
  "padding len = 0x80 # replicate ((119 - len mod 64) mod 64) 0 @ length_bytes len"

function absorb :: "hstate \<Rightarrow> byte list \<Rightarrow> hstate \<times> byte list" where
  "absorb st bs =
     (if 64 \<le> length bs then absorb (compress st (take 64 bs)) (drop 64 bs) else (st, bs))"
  by pat_completeness auto
termination
  by (relation "measure (\<lambda>(st, bs). length bs)") auto

declare absorb.simps [simp del]

definition hexdigits :: string where
  "hexdigits = ''0123456789abcdef''"

definition hex_digit :: "nat \<Rightarrow> char" where
  "hex_digit n = hexdigits ! n"

definition hex_byte :: "byte \<Rightarrow> string" where
  "hex_byte b = [hex_digit (unat b div 16), hex_digit (unat b mod 16)]"

definition word_bytes :: "u32 \<Rightarrow> byte list" where
  "word_bytes w = [ucast (drop_bit 24 w), ucast (drop_bit 16 w), ucast (drop_bit 8 w), ucast w]"

fun state_bytes :: "hstate \<Rightarrow> byte list" where
  "state_bytes (HState a b c d e f g h) = concat (map word_bytes [a, b, c, d, e, f, g, h])"

record hasher =
  chain :: hstate
  pending :: "byte list"
  total :: nat

text \<open>\<open>hashlib.sha256()\<close>\<close>

definition sha256_new :: hasher where
  "sha256_new = \<lparr>chain = H0, pending = [], total = 0\<rparr>"

text \<open>\<open>h.update(data)\<close>\<close>

definition sha256_update :: "hasher \<Rightarrow> byte list \<Rightarrow> hasher" where
  "sha256_update hs data =
     (let (st, rest) = absorb (chain hs) (pending hs @ data)
      in \<lparr>chain = st, pending = rest, total = total hs + length data\<rparr>)"

text \<open>\<open>hashlib.sha256(data)\<close>: a new object that has taken \<open>data\<close>.\<close>

definition sha256 :: "byte list \<Rightarrow> hasher" where
  "sha256 data = sha256_update sha256_new data"

definition sha256_digest :: "hasher \<Rightarrow> byte list" where
  "sha256_digest hs = state_bytes (fst (absorb (chain hs) (pending hs @ padding (total hs))))"

text \<open>\<open>h.hexdigest()\<close>\<close>

definition hexdigest :: "hasher \<Rightarrow> string" where
  "hexdigest hs = concat (map hex_byte (sha256_digest hs))"

text \<open>
  The digest as the standard defines it, with no hash object: pad the whole message, cut it
  into 64-byte blocks and fold the compression function over them from \<open>H0\<close>.
\<close>

function blocks :: "byte list \<Rightarrow> byte list list" where
  "blocks bs = (if 64 \<le> length bs then take 64 bs # blocks (drop 64 bs) else [])"
  by pat_completeness auto
termination
  by (relation "measure length") auto

declare blocks.simps [simp del]

definition sha256_spec :: "byte list \<Rightarrow> string" where
  "sha256_spec msg =
     concat (map hex_byte (state_bytes (foldl compress H0 (blocks (msg @ padding (length msg))))))"

section \<open>hashes.py: the Hash Reporter\<close>

definition TAG :: string where
  "TAG = ''next-experimental''"

definition VERSION :: string where
  "VERSION = ''0.10.0''"

definition links :: "string list" where
  "links =
    [''https://github.com/Mustafif/MufiZ/releases/download/'' @ TAG @ ''/mufiz_'' @ VERSION
       @ ''_x86_64-windows.zip'',
     ''https://github.com/Mustafif/MufiZ/releases/download/'' @ TAG @ ''/mufiz_'' @ VERSION
       @ ''_x86-windows-gnu.zip'',
     ''https://github.com/Mustafif/MufiZ/releases/download/'' @ TAG @ ''/mufiz_'' @ VERSION
       @ ''_aarch64-windows.zip'']"

text \<open>
  \<open>json.dumps(output)\<close> with its defaults: one line, items separated by a comma and a
  space, keys from values by a colon and a space, strings between double quotes with the
  quote, the backslash and every character outside \<open>' '..'~'\<close> escaped. \<open>output\<close> is a
  dict of dicts of strings.
\<close>

definition escape_char :: "char \<Rightarrow> string" where
  "escape_char c =
     (if c = CHR 0x22 then [CHR 0x5C, CHR 0x22]
      else if c = CHR 0x5C then [CHR 0x5C, CHR 0x5C]
      else if c = CHR 0x0A then [CHR 0x5C, CHR ''n'']
      else if c = CHR 0x0D then [CHR 0x5C, CHR ''r'']
      else if c = CHR 0x09 then [CHR 0x5C, CHR ''t'']
      else if c = CHR 0x08 then [CHR 0x5C, CHR ''b'']
      else if c = CHR 0x0C then [CHR 0x5C, CHR ''f'']
      else if of_char c < (32::nat) \<or> (126::nat) < of_char c
        then [CHR 0x5C, CHR ''u'', CHR ''0'', CHR ''0'',
              hex_digit (of_char c div 16), hex_digit (of_char c mod 16)]
      else [c])"

definition dumps_str :: "string \<Rightarrow> string" where
  "dumps_str s = [CHR 0x22] @ concat (map escape_char s) @ [CHR 0x22]"

fun join :: "string \<Rightarrow> string list \<Rightarrow> string" where
  "join sep [] = []"
| "join sep [x] = x"
| "join sep (x # y # ys) = x @ sep @ join sep (y # ys)"

definition dumps_dict :: "('v \<Rightarrow> string) \<Rightarrow> (string \<times> 'v) list \<Rightarrow> string" where
  "dumps_dict dumps_value d =
     ''{'' @ join '', '' (map (\<lambda>kv. dumps_str (fst kv) @ '': '' @ dumps_value (snd kv)) d) @ ''}''"

type_synonym report = "(string \<times> (string \<times> string) list) list"

definition json_dumps :: "report \<Rightarrow> string" where
  "json_dumps output = dumps_dict (dumps_dict dumps_str) output"

text \<open>
  The loop of lines 16 to 24 over \<open>enumerate(links)\<close>. \<open>requests.get\<close> either returns a
  response, whose \<open>content\<close> is the whole body (the status is not looked at), or raises; the
  script catches nothing, so an exception ends it before anything is printed.
\<close>

fun report_loop :: "(string \<Rightarrow> byte list option) \<Rightarrow> (nat \<times> string) list \<Rightarrow> report
    \<Rightarrow> report option" where
  "report_loop requests_get [] output = Some output"
| "report_loop requests_get ((i, link) # rest) output =
     (case requests_get link of
        None \<Rightarrow> None
      | Some content \<Rightarrow>
          (let hash = hexdigest (sha256 content) in
           report_loop requests_get rest
             (if i = 0 then AList.update ''64bit'' [(''url'', link), (''hash'', hash)] output
              else if i = 1 then AList.update ''32bit'' [(''url'', link), (''hash'', hash)] output
              else if i = 2 then AList.update ''arm64'' [(''url'', link), (''hash'', hash)] output
              else output)))"

text \<open>What the script prints: \<open>None\<close> when a request raised.\<close>

definition hashes_main :: "(string \<Rightarrow> byte list option) \<Rightarrow> string option" where
  "hashes_main requests_get =
     map_option json_dumps (report_loop requests_get (enumerate 0 links) [])"

section \<open>update\_mufiz.py: the Manifest Updater\<close>

definition GITHUB_REPO :: string where
  "GITHUB_REPO = ''Mufi-Lang/MufiZ''"

definition ARCH_MAPPINGS :: "(string \<times> string) list" where
  "ARCH_MAPPINGS =
     [(''x86_64-windows'', ''64bit''),
      (''x86-windows-gnu'', ''32bit''),
      (''aarch64-windows'', ''arm64'')]"

subsection \<open>The world outside the process\<close>

text \<open>
  The manifest file at \<open>MANIFEST_PATH\<close> is absent, or present with a text, or present but
  not readable as text (a directory, no permission, bytes that are not UTF-8), in which case
  \<open>open\<close> or \<open>read\<close> raises an error that \<open>load_manifest\<close> does not catch.
\<close>

datatype file_state = Absent | Unreadable | Content string

text \<open>
  What the script cannot decide is a parameter: the answer of the releases API
  (\<open>None\<close> for any \<open>RequestException\<close>, a bad status included), the chunks that
  \<open>iter_content\<close> yields for a download URL (\<open>None\<close> when the request or the stream raises
  a \<open>RequestException\<close>), the outcome of writing the file (\<open>Some d\<close> when \<open>open\<close> or
  \<open>json.dump\<close> raises, leaving \<open>d\<close> on disk), and the two functions of the \<open>json\<close> module:
  \<open>json.load\<close> (\<open>None\<close> for \<open>JSONDecodeError\<close>) and \<open>json.dump\<close> with \<open>indent=4\<close>.
\<close>

record world =
  api_response :: "json option"
  asset_chunks :: "json \<Rightarrow> byte list list option"
  write_fault :: "file_state option"
  json_load :: "string \<Rightarrow> json option"
  json_dump :: "json \<Rightarrow> string"

text \<open>One constructor for each \<open>print\<close> of the script, with the values it formats.\<close>

datatype msg =
    ErrorFetchingRelease
  | Downloading json
  | ErrorDownloading json
  | ErrorLoadingManifest
  | ErrorSavingManifest
  | FetchingRelease
  | LatestVersion string
  | LoadingManifest
  | CurrentVersion json
  | UpToDate
  | UpdatingFromTo json string
  | WarningExpected3 nat
  | FoundAssets "string list"
  | Processing string
  | Hashed string string
  | FailedToProcess string
  | DryRunMode
  | WouldUpdate
  | JsonIndent2 json
  | DryRunCompleted string
  | SavingManifest
  | SuccessfullyUpdated string
  | FailedToSave
  | ManifestNotFound
  | PleaseRunFromRoot
  | RunningDryRun
  | DryRunSuccess
  | UpdateSuccess
  | UpdateFailed

text \<open>
  The effects of a run: the lines printed, the URLs requested, the manifest file, and how
  many times the file was opened for writing.
\<close>

record sys =
  stdout :: "msg list"
  requested :: "json list"
  disk :: file_state
  writes :: nat

definition say :: "msg \<Rightarrow> sys \<Rightarrow> sys" where
  "say m s = s\<lparr>stdout := stdout s @ [m]\<rparr>"

definition http_get :: "json \<Rightarrow> sys \<Rightarrow> sys" where
  "http_get url s = s\<lparr>requested := requested s @ [url]\<rparr>"

subsection \<open>The methods of MufiZUpdater\<close>

definition latest_release_url :: string where
  "latest_release_url = ''https://api.github.com/repos/'' @ GITHUB_REPO @ ''/releases/latest''"

definition get_latest_release :: "world \<Rightarrow> sys \<Rightarrow> json option \<times> sys" where
  "get_latest_release w s =
     (let s1 = http_get (JString latest_release_url) s in
      case api_response w of
        Some release \<Rightarrow> (Some release, s1)
      | None \<Rightarrow> (None, say ErrorFetchingRelease s1))"

text \<open>Lines 52 to 54: a new hash object takes each chunk in turn.\<close>

fun hash_chunks :: "hasher \<Rightarrow> byte list list \<Rightarrow> hasher" where
  "hash_chunks sha256_hash [] = sha256_hash"
| "hash_chunks sha256_hash (chunk # rest) = hash_chunks (sha256_update sha256_hash chunk) rest"

definition download_and_hash :: "world \<Rightarrow> json \<Rightarrow> sys \<Rightarrow> string option \<times> sys" where
  "download_and_hash w url s =
     (let s1 = http_get url (say (Downloading url) s) in
      case asset_chunks w url of
        Some chunks \<Rightarrow> (Some (hexdigest (hash_chunks sha256_new chunks)), s1)
      | None \<Rightarrow> (None, say (ErrorDownloading url) s1))"

definition load_manifest :: "world \<Rightarrow> sys \<Rightarrow> (pyerr + json option) \<times> sys" where
  "load_manifest w s =
     (case disk s of
        Absent \<Rightarrow> (Inr None, say ErrorLoadingManifest s)
      | Unreadable \<Rightarrow> (Inl OSError, s)
      | Content text \<Rightarrow>
          (case json_load w text of
             None \<Rightarrow> (Inr None, say ErrorLoadingManifest s)
           | Some manifest \<Rightarrow> (Inr (Some manifest), s)))"

definition save_manifest :: "world \<Rightarrow> json \<Rightarrow> sys \<Rightarrow> bool \<times> sys" where
  "save_manifest w manifest s =
     (let s1 = s\<lparr>writes := writes s + 1\<rparr> in
      case write_fault w of
        None \<Rightarrow> (True, s1\<lparr>disk := Content (json_dump w manifest)\<rparr>)
      | Some d \<Rightarrow> (False, say ErrorSavingManifest (s1\<lparr>disk := d\<rparr>)))"

text \<open>Lines 89 to 92: the table is tried in order; the first key that is in the name of
  an asset whose name ends with \<open>.zip\<close> gives the label and ends the search.\<close>

fun match_arch :: "(string \<times> string) list \<Rightarrow> json \<Rightarrow> pyerr + string option" where
  "match_arch [] asset_name = Inr None"
| "match_arch ((arch_key, scoop_arch) # rest) asset_name =
     (case py_in arch_key asset_name of
        Inl e \<Rightarrow> Inl e
      | Inr False \<Rightarrow> match_arch rest asset_name
      | Inr True \<Rightarrow>
          (case py_endswith asset_name ''.zip'' of
             Inl e \<Rightarrow> Inl e
           | Inr False \<Rightarrow> match_arch rest asset_name
           | Inr True \<Rightarrow> Inr (Some scoop_arch)))"

text \<open>Lines 85 to 92, one turn of the loop over the assets: the label and the URL that the
  asset stores, if it stores one.\<close>

definition resolve_asset :: "json \<Rightarrow> pyerr + (string \<times> json) option" where
  "resolve_asset asset =
     (case subscript asset ''name'' of
        Inl e \<Rightarrow> Inl e
      | Inr asset_name \<Rightarrow>
          (case subscript asset ''browser_download_url'' of
             Inl e \<Rightarrow> Inl e
           | Inr download_url \<Rightarrow>
               (case match_arch ARCH_MAPPINGS asset_name of
                  Inl e \<Rightarrow> Inl e
                | Inr None \<Rightarrow> Inr None
                | Inr (Some scoop_arch) \<Rightarrow> Inr (Some (scoop_arch, download_url)))))"

text \<open>Lines 84 to 92: the loop over the assets; \<open>urls[scoop_arch] = download_url\<close>.\<close>

fun scan_assets :: "json list \<Rightarrow> (string \<times> json) list \<Rightarrow> pyerr + (string \<times> json) list" where
  "scan_assets [] urls = Inr urls"
| "scan_assets (asset # rest) urls =
     (case resolve_asset asset of
        Inl e \<Rightarrow> Inl e
      | Inr None \<Rightarrow> scan_assets rest urls
      | Inr (Some (scoop_arch, download_url)) \<Rightarrow>
          scan_assets rest (AList.update scoop_arch download_url urls))"

text \<open>The URLs of the assets of a list that store under a given label, in the order of the
  list.\<close>

definition urls_for :: "string \<Rightarrow> json list \<Rightarrow> json list" where
  "urls_for label assets =
     concat (map (\<lambda>asset. case resolve_asset asset of
                    Inr (Some (scoop_arch, download_url)) \<Rightarrow>
                      if scoop_arch = label then [download_url] else []
                  | _ \<Rightarrow> []) assets)"

definition find_asset_urls :: "json \<Rightarrow> string \<Rightarrow> pyerr + (string \<times> json) list" where
  "find_asset_urls release version =
     (case dict_get release ''assets'' (JArray []) of
        Inl e \<Rightarrow> Inl e
      | Inr assets \<Rightarrow>
          (case iter_items assets of
             Inl e \<Rightarrow> Inl e
           | Inr items \<Rightarrow> scan_assets items []))"

text \<open>The labels that the assets of a list store under, in the order of the list, and
  the distinct elements of a list in the order of their first occurrence: a dict keeps a
  key at the position where it was first inserted.\<close>

definition resolved_labels :: "json list \<Rightarrow> string list" where
  "resolved_labels assets =
     concat (map (\<lambda>asset. case resolve_asset asset of
                    Inr (Some (scoop_arch, download_url)) \<Rightarrow> [scoop_arch]
                  | _ \<Rightarrow> []) assets)"

fun first_occurrences :: "'a list \<Rightarrow> 'a list" where
  "first_occurrences [] = []"
| "first_occurrences (x # xs) = x # filter (\<lambda>y. y \<noteq> x) (first_occurrences xs)"

text \<open>Lines 127 to 136: the loop over \<open>asset_urls.items()\<close>; \<open>None\<close> is the \<open>return False\<close>
  of line 136.\<close>

fun hash_assets :: "world \<Rightarrow> (string \<times> json) list \<Rightarrow> (string \<times> json) list \<Rightarrow> sys
    \<Rightarrow> (string \<times> json) list option \<times> sys" where
  "hash_assets w [] updated_archs s = (Some updated_archs, s)"
| "hash_assets w ((arch, url) # rest) updated_archs s =
     (case download_and_hash w url (say (Processing arch) s) of
        (Some hash_value, s1) \<Rightarrow>
          if hash_value \<noteq> [] then
            hash_assets w rest
              (AList.update arch (JObject [(''url'', url), (''hash'', JString hash_value)])
                 updated_archs)
              (say (Hashed arch hash_value) s1)
          else (None, say (FailedToProcess arch) s1)
      | (None, s1) \<Rightarrow> (None, say (FailedToProcess arch) s1))"

text \<open>What the loop builds when every download succeeds and the labels are distinct: one
  entry for each resolved label, in the order of \<open>asset_urls\<close>, with the URL and the digest
  of the downloaded bytes.\<close>

definition hashed_archs :: "world \<Rightarrow> (string \<times> json) list \<Rightarrow> (string \<times> json) list" where
  "hashed_archs w asset_urls =
     map (\<lambda>item. (fst item,
            JObject [(''url'', snd item),
                     (''hash'', JString (case asset_chunks w (snd item) of
                                           Some chunks \<Rightarrow> hexdigest (sha256 (concat chunks))
                                         | None \<Rightarrow> []))]))
       asset_urls"

text \<open>Lines 138 to 160.\<close>

definition commit :: "world \<Rightarrow> bool \<Rightarrow> json \<Rightarrow> string \<Rightarrow> (string \<times> json) list \<Rightarrow> sys
    \<Rightarrow> (pyerr + bool) \<times> sys" where
  "commit w dry_run manifest version updated_archs s =
     (case set_item manifest ''version'' (JString version) of
        Inl e \<Rightarrow> (Inl e, s)
      | Inr m1 \<Rightarrow>
          (case set_item m1 ''architecture'' (JObject updated_archs) of
             Inl e \<Rightarrow> (Inl e, s)
           | Inr m2 \<Rightarrow>
               if dry_run then
                 (Inr True,
                  say (DryRunCompleted version)
                    (say (JsonIndent2 (JObject [(''version'', JString version),
                                                (''architecture'', JObject updated_archs)]))
                       (say WouldUpdate (say DryRunMode s))))
               else
                 (case save_manifest w m2 (say SavingManifest s) of
                    (True, s1) \<Rightarrow> (Inr True, say (SuccessfullyUpdated version) s1)
                  | (False, s1) \<Rightarrow> (Inr False, say FailedToSave s1))))"

text \<open>Lines 118 to 160.\<close>

definition apply_update :: "world \<Rightarrow> bool \<Rightarrow> json \<Rightarrow> json \<Rightarrow> string \<Rightarrow> json \<Rightarrow> sys
    \<Rightarrow> (pyerr + bool) \<times> sys" where
  "apply_update w dry_run release manifest version current_version s =
     (let s1 = say (UpdatingFromTo current_version version) s in
      case find_asset_urls release version of
        Inl e \<Rightarrow> (Inl e, s1)
      | Inr asset_urls \<Rightarrow>
          (let s2 = (if length asset_urls \<noteq> 3
                     then say (FoundAssets (map fst asset_urls))
                            (say (WarningExpected3 (length asset_urls)) s1)
                     else s1) in
           case hash_assets w asset_urls [] s2 of
             (None, s3) \<Rightarrow> (Inr False, s3)
           | (Some updated_archs, s3) \<Rightarrow> commit w dry_run manifest version updated_archs s3))"

text \<open>Lines 98 to 116, then the rest.\<close>

definition update_manifest :: "world \<Rightarrow> bool \<Rightarrow> sys \<Rightarrow> (pyerr + bool) \<times> sys" where
  "update_manifest w dry_run s =
     (case get_latest_release w (say FetchingRelease s) of
        (None, s1) \<Rightarrow> (Inr False, s1)
      | (Some release, s1) \<Rightarrow>
          if \<not> truthy release then (Inr False, s1)
          else
            (case subscript release ''tag_name'' of
               Inl e \<Rightarrow> (Inl e, s1)
             | Inr tag_name \<Rightarrow>
                 (case py_lstrip tag_name ''v'' of
                    Inl e \<Rightarrow> (Inl e, s1)
                  | Inr version \<Rightarrow>
                      (case load_manifest w (say LoadingManifest (say (LatestVersion version) s1)) of
                         (Inl e, s2) \<Rightarrow> (Inl e, s2)
                       | (Inr None, s2) \<Rightarrow> (Inr False, s2)
                       | (Inr (Some manifest), s2) \<Rightarrow>
                           if \<not> truthy manifest then (Inr False, s2)
                           else
                             (case dict_get manifest ''version'' (JString ''unknown'') of
                                Inl e \<Rightarrow> (Inl e, s2)
                              | Inr current_version \<Rightarrow>
                                  (let s3 = say (CurrentVersion current_version) s2 in
                                   if JString version = current_version
                                   then (Inr True, say UpToDate s3)
                                   else apply_update w dry_run release manifest version
                                          current_version s3))))))"

subsection \<open>main\<close>

text \<open>The process ends with an exit status, or with an exception that nothing caught
  (the interpreter prints the traceback and the status is 1).\<close>

datatype outcome = Exit nat | Uncaught pyerr

fun status :: "outcome \<Rightarrow> nat" where
  "status (Exit n) = n"
| "status (Uncaught e) = 1"

definition main :: "world \<Rightarrow> string list \<Rightarrow> sys \<Rightarrow> outcome \<times> sys" where
  "main w argv s =
     (let dry_run = (''--dry-run'' \<in> set argv \<or> ''-n'' \<in> set argv) in
      if disk s = Absent then (Exit 1, say PleaseRunFromRoot (say ManifestNotFound s))
      else
        (case update_manifest w dry_run (if dry_run then say RunningDryRun s else s) of
           (Inl e, s1) \<Rightarrow> (Uncaught e, s1)
         | (Inr True, s1) \<Rightarrow> (Exit 0, say (if dry_run then DryRunSuccess else UpdateSuccess) s1)
         | (Inr False, s1) \<Rightarrow> (Exit 1, say UpdateFailed s1)))"

section \<open>Example inputs\<close>

text \<open>A release with five assets: two of them for \<open>64bit\<close>, one for \<open>arm64\<close>, one for
  the 32-bit build that is not a zip file, and one that names no architecture.\<close>

definition example_assets :: "json list" where
  "example_assets =
     [JObject [(''name'', JString ''mufiz_0.10.0_x86_64-windows.zip''),
               (''size'', JInt 4096),
               (''browser_download_url'', JString ''https://example.org/first.zip'')],
      JObject [(''name'', JString ''mufiz_0.10.0_aarch64-windows.zip''),
               (''browser_download_url'', JString ''https://example.org/arm.zip'')],
      JObject [(''name'', JString ''mufiz_0.10.0_x86_64-windows-debug.zip''),
               (''browser_download_url'', JString ''https://example.org/second.zip'')],
      JObject [(''name'', JString ''mufiz_0.10.0_x86-windows-gnu.tar.gz''),
               (''browser_download_url'', JString ''https://example.org/x86.tar.gz'')],
      JObject [(''name'', JString ''checksums.txt''),
               (''browser_download_url'', JString ''https://example.org/checksums.txt'')]]"

definition example_release :: json where
  "example_release = JObject [(''tag_name'', JString ''v0.10.0''), (''assets'', JArray example_assets)]"

text \<open>Five manifest files, named by their text: \<open>old\<close> is at version 0.9.0, \<open>same\<close> at
  version 0.10.0, \<open>noversion\<close> has no \<open>version\<close> key, \<open>{}\<close> is the empty JSON object
  and \<open>[1]\<close> a JSON array.\<close>

definition example_manifest :: json where
  "example_manifest =
     JObject [(''version'', JString ''0.9.0''),
              (''homepage'', JString ''https://example.org''),
              (''architecture'',
               JObject [(''32bit'', JObject [(''url'', JString ''https://example.org/old.zip''),
                                            (''hash'', JString ''00'')])])]"

definition example_load :: "string \<Rightarrow> json option" where
  "example_load text =
     (if text = ''old'' then Some example_manifest
      else if text = ''same'' then Some (JObject [(''version'', JString ''0.10.0'')])
      else if text = ''noversion'' then Some (JObject [(''homepage'', JString ''https://example.org'')])
      else if text = ''{}'' then Some (JObject [])
      else if text = ''[1]'' then Some (JArray [JInt 1])
      else None)"

text \<open>A world in which every request and the write succeed.\<close>

definition example_world :: world where
  "example_world =
     \<lparr>api_response = Some example_release,
      asset_chunks = (\<lambda>url. Some [[1, 2], [3]]),
      write_fault = None,
      json_load = example_load,
      json_dump = (\<lambda>manifest. ''new'')\<rparr>"

definition example_start :: "string \<Rightarrow> sys" where
  "example_start text = \<lparr>stdout = [], requested = [], disk = Content text, writes = 0\<rparr>"

section \<open>Facts about the string operations\<close>

lemma str_contains_sublist: "str_contains k s = sublist k s"
  by (induction s) (auto simp: sublist_Cons_right)

lemma endswith_suffix: "endswith s suf = suffix suf s"
proof
  assume "endswith s suf"
  then have "s = take (length s - length suf) s @ suf"
    by (metis append_take_drop_id endswith_def)
  then show "suffix suf s"
    by (metis suffixI)
next
  assume "suffix suf s"
  then obtain p where "s = p @ suf"
    by (auto simp: suffix_def)
  then show "endswith s suf"
    by (simp add: endswith_def)
qed

lemma lstrip_v: "lstrip ''v'' s = dropWhile (\<lambda>c. c = CHR ''v'') s"
  by (simp add: lstrip_def)

lemma dropWhile_v_id: "\<not> prefix ''v'' s \<Longrightarrow> dropWhile (\<lambda>c. c = CHR ''v'') s = s"
  by (cases s) auto

lemma dropWhile_v_replicate:
  "\<not> prefix ''v'' rest \<Longrightarrow>
     dropWhile (\<lambda>c. c = CHR ''v'') (replicate n (CHR ''v'') @ rest) = rest"
  by (induction n) (simp_all add: dropWhile_v_id)

section \<open>The version derived from the release tag\<close>

text \<open>
  Claim C2, as the specification words it: the derived version is the tag with one leading
  \<open>v\<close> removed when the tag starts with \<open>v\<close>, and the tag unchanged otherwise. Line 103
  calls \<open>lstrip("v")\<close>, which removes every leading \<open>v\<close>: on the tag \<open>vv1.0\<close> the version
  is \<open>1.0\<close>, not \<open>v1.0\<close>.
\<close>

theorem version_one_v_removed_counterexample:
  "py_lstrip (JString ''vv1.0'') ''v'' = Inr ''1.0''
   \<and> py_lstrip (JString ''vv1.0'') ''v'' \<noteq> Inr (tl ''vv1.0'')"
  by (simp add: lstrip_def)

text \<open>
  Claim C2, amended: for every release tag string the derived version is the tag with all
  of its leading \<open>v\<close> characters removed. So a tag that does not start with \<open>v\<close> is
  unchanged, and a tag made of \<open>n\<close> characters \<open>v\<close> followed by a rest that does not start
  with \<open>v\<close> gives that rest (\<open>n = 1\<close> is the ordinary tag \<open>v0.10.0\<close>).
\<close>

theorem version_strips_every_leading_v:
  "py_lstrip (JString tag) ''v'' = Inr (dropWhile (\<lambda>c. c = CHR ''v'') tag)
   \<and> (\<not> prefix ''v'' tag \<longrightarrow> py_lstrip (JString tag) ''v'' = Inr tag)
   \<and> (\<not> prefix ''v'' rest \<longrightarrow>
        py_lstrip (JString (replicate n (CHR ''v'') @ rest)) ''v'' = Inr rest)"
  by (simp add: lstrip_v dropWhile_v_id dropWhile_v_replicate)

theorem version_strips_every_leading_v_witness:
  "py_lstrip (JString ''v0.10.0'') ''v'' = Inr ''0.10.0''
   \<and> py_lstrip (JString ''0.10.0'') ''v'' = Inr ''0.10.0''
   \<and> py_lstrip (JString ''vvv2'') ''v'' = Inr ''2''"
  using version_strips_every_leading_v [of "''0.10.0''" "''0.10.0''" 1]
    version_strips_every_leading_v [of "''x''" "''2''" 3]
  by (simp add: numeral_3_eq_3)

section \<open>A missing manifest file\<close>

text \<open>
  Claim C9: when the manifest file does not exist at the fixed path, the process exits
  with status 1 before any network request is made. \<open>main\<close> tests \<open>os.path.exists\<close>
  before it builds the updater: it prints its two lines and exits; nothing is requested
  and nothing is written.
\<close>

theorem missing_manifest_exits_before_network:
  "disk s = Absent \<Longrightarrow>
     main w argv s = (Exit 1, say PleaseRunFromRoot (say ManifestNotFound s))
     \<and> status (fst (main w argv s)) = 1
     \<and> requested (snd (main w argv s)) = requested s
     \<and> disk (snd (main w argv s)) = Absent
     \<and> writes (snd (main w argv s)) = writes s"
  by (simp add: main_def say_def)

theorem missing_manifest_exits_before_network_witness:
  "status (fst (main \<lparr>api_response = None, asset_chunks = (\<lambda>url. None), write_fault = None,
                        json_load = (\<lambda>text. None), json_dump = (\<lambda>j. [])\<rparr>
                  [''update_mufiz.py'']
                  \<lparr>stdout = [], requested = [], disk = Absent, writes = 0\<rparr>)) = 1
   \<and> requested (snd (main \<lparr>api_response = None, asset_chunks = (\<lambda>url. None),
                            write_fault = None, json_load = (\<lambda>text. None),
                            json_dump = (\<lambda>j. [])\<rparr>
                  [''update_mufiz.py'']
                  \<lparr>stdout = [], requested = [], disk = Absent, writes = 0\<rparr>)) = []"
  using missing_manifest_exits_before_network
    [of "\<lparr>stdout = [], requested = [], disk = Absent, writes = 0\<rparr>"
        "\<lparr>api_response = None, asset_chunks = (\<lambda>url. None), write_fault = None,
          json_load = (\<lambda>text. None), json_dump = (\<lambda>j. [])\<rparr>"
        "[''update_mufiz.py'']"]
  by (simp add: say_def)

section \<open>Facts about the hash object\<close>

lemma absorb_append:
  "absorb st (xs @ ys) = (case absorb st xs of (st', r) \<Rightarrow> absorb st' (r @ ys))"
proof (induction st xs rule: absorb.induct)
  case (1 st bs)
  show ?case
  proof (cases "64 \<le> length bs")
    case True
    then have "absorb st (bs @ ys) = absorb (compress st (take 64 bs)) (drop 64 bs @ ys)"
      by (subst absorb.simps) simp
    also have "\<dots> = (case absorb (compress st (take 64 bs)) (drop 64 bs) of
                        (st', r) \<Rightarrow> absorb st' (r @ ys))"
      using 1 True by simp
    also have "absorb (compress st (take 64 bs)) (drop 64 bs) = absorb st bs"
      using True by (subst (2) absorb.simps) simp
    finally show ?thesis .
  next
    case False
    then have "absorb st bs = (st, bs)"
      by (subst absorb.simps) simp
    then show ?thesis by simp
  qed
qed

lemma absorb_blocks: "fst (absorb st bs) = foldl compress st (blocks bs)"
proof (induction st bs rule: absorb.induct)
  case (1 st bs)
  show ?case
  proof (cases "64 \<le> length bs")
    case True
    with 1 show ?thesis
      by (subst absorb.simps, subst blocks.simps) simp
  next
    case False
    then show ?thesis
      by (subst absorb.simps, subst blocks.simps) simp
  qed
qed

lemma absorb_pending: "length (snd (absorb st bs)) < 64"
proof (induction st bs rule: absorb.induct)
  case (1 st bs)
  then show ?case
    by (subst absorb.simps) simp
qed

lemma sha256_update_append:
  "sha256_update (sha256_update hs a) b = sha256_update hs (a @ b)"
proof -
  obtain st r where sr: "absorb (chain hs) (pending hs @ a) = (st, r)"
    by (cases "absorb (chain hs) (pending hs @ a)")
  have "absorb (chain hs) ((pending hs @ a) @ b) = absorb st (r @ b)"
    by (simp only: absorb_append [of "chain hs" "pending hs @ a" b] sr prod.case)
  with sr show ?thesis
    by (simp add: sha256_update_def split: prod.splits)
qed

lemma sha256_update_new_Nil: "sha256_update sha256_new [] = sha256_new"
  by (simp add: sha256_update_def sha256_new_def absorb.simps)

lemma hash_chunks_update:
  "hash_chunks (sha256_update hs a) chunks = sha256_update hs (a @ concat chunks)"
  by (induction chunks arbitrary: a) (simp_all add: sha256_update_append)

lemma hash_chunks_new: "hash_chunks sha256_new chunks = sha256 (concat chunks)"
  using hash_chunks_update [of sha256_new "[]" chunks]
  by (simp add: sha256_update_new_Nil sha256_def)

lemma hexdigest_sha256: "hexdigest (sha256 msg) = sha256_spec msg"
proof -
  obtain st r where sr: "absorb H0 msg = (st, r)"
    by (cases "absorb H0 msg")
  have "absorb H0 (msg @ padding (length msg)) = absorb st (r @ padding (length msg))"
    by (simp only: absorb_append [of H0 msg] sr prod.case)
  then have "fst (absorb H0 (msg @ padding (length msg)))
             = fst (absorb st (r @ padding (length msg)))"
    by (rule arg_cong)
  then have "foldl compress st (blocks (r @ padding (length msg)))
             = foldl compress H0 (blocks (msg @ padding (length msg)))"
    by (simp only: absorb_blocks)
  with sr show ?thesis
    by (simp add: hexdigest_def sha256_digest_def sha256_def sha256_update_def
        sha256_new_def sha256_spec_def absorb_blocks)
qed

lemma pad_arith:
  fixes n :: nat
  shows "(n + (9 + (119 - n mod 64) mod 64)) mod 64 = 0"
proof -
  define r where "r = n mod 64"
  define x where "x = (119 - r) mod 64"
  have r: "r < 64" unfolding r_def by (rule mod_less_divisor) simp
  have "(n + (9 + x)) mod 64 = (r + (9 + x)) mod 64"
    unfolding r_def by (rule mod_add_left_eq [symmetric])
  also have "\<dots> = 0"
  proof (cases "r \<le> 55")
    case True
    then have "119 - r = 64 + (55 - r)" by linarith
    then have "x = (64 + (55 - r)) mod 64" unfolding x_def by (rule arg_cong)
    also have "\<dots> = (55 - r) mod 64" by (rule mod_add_self1)
    also have "\<dots> = 55 - r" by (rule mod_less) linarith
    finally have "r + (9 + x) = 64" using True by linarith
    then show ?thesis by (simp only: mod_self)
  next
    case False
    have "x = 119 - r" unfolding x_def using False by (intro mod_less) linarith
    with False r have "r + (9 + x) = 64 + 64" by linarith
    then show ?thesis by (simp only: mod_add_self1 mod_self)
  qed
  finally show ?thesis by (simp only: r_def x_def)
qed

lemma length_padding: "length (padding n) = 9 + (119 - n mod 64) mod 64"
  by (simp add: padding_def length_bytes_def)

lemma padded_length: "length (msg @ padding (length msg)) mod 64 = 0"
  by (simp only: length_append length_padding pad_arith)

lemma length_state_bytes: "length (state_bytes st) = 32"
  by (cases st) (simp add: word_bytes_def)

lemma length_hex_bytes: "length (concat (map hex_byte bs)) = 2 * length bs"
  by (induction bs) (simp_all add: hex_byte_def)

lemma length_hexdigest: "length (hexdigest hs) = 64"
  by (simp add: hexdigest_def sha256_digest_def length_hex_bytes length_state_bytes)

lemma hex_digit_range: "n < 16 \<Longrightarrow> hex_digit n \<in> set hexdigits"
  unfolding hex_digit_def by (rule nth_mem) (simp add: hexdigits_def)

lemma hex_byte_chars: "set (hex_byte b) \<subseteq> set hexdigits"
proof -
  have "unat b < 256"
    using unsigned_less [of b, where ?'a = nat] by simp
  then have "unat b div 16 < 16" "unat b mod 16 < 16"
    by simp_all
  then have "hex_digit (unat b div 16) \<in> set hexdigits"
    "hex_digit (unat b mod 16) \<in> set hexdigits"
    by (simp_all only: hex_digit_range)
  then show ?thesis
    unfolding hex_byte_def by simp
qed

lemma hex_bytes_chars: "set (concat (map hex_byte bs)) \<subseteq> set hexdigits"
proof (induction bs)
  case Nil
  show ?case by simp
next
  case (Cons b bs)
  with hex_byte_chars [of b] show ?case
    by (simp del: set_simps)
qed

lemma hexdigest_chars: "set (hexdigest hs) \<subseteq> set hexdigits"
  unfolding hexdigest_def by (rule hex_bytes_chars)

section \<open>SHA-256 test vectors\<close>

text \<open>
  The model of the hash is checked against two test vectors of the standard: the message
  \<open>abc\<close>, one block after padding, and the 56-byte message
  \<open>abcdbcdecdefdefgefghfghighijhijkijkljklmklmnlmnomnopnopq\<close>, two blocks after padding.
  Each block is evaluated in steps: its sixteen words, the message schedule eight words
  at a time, the sixty-four rounds eight at a time, and the addition to the chaining value.
\<close>

lemmas K256_unfold =
  K256_def K256_rounds_0_def K256_rounds_1_def K256_rounds_2_def K256_rounds_3_def
  K256_rounds_4_def K256_rounds_5_def K256_rounds_6_def K256_rounds_7_def

lemma schedule_numeral:
  "schedule (numeral k) w =
     schedule (pred_numeral k) ((sigma1 (w ! 1) + w ! 6 + sigma0 (w ! 14) + w ! 15) # w)"
  by (simp add: numeral_eq_Suc)

lemma schedule_Suc_0:
  "schedule (Suc 0) w = (sigma1 (w ! 1) + w ! 6 + sigma0 (w ! 14) + w ! 15) # w"
  by simp

lemma schedule_add: "schedule (m + n) w = schedule n (schedule m w)"
  by (induction m arbitrary: w) simp_all

lemma replicate_52: "replicate 52 (0::byte) =
     [
      0, 0, 0, 0, 0, 0, 0, 0, 0, 0, 0, 0, 0, 0, 0, 0, 0, 0, 0, 0, 0, 0, 0, 0, 0, 0, 0, 0,
      0, 0, 0, 0, 0, 0, 0, 0, 0, 0, 0, 0, 0, 0, 0, 0, 0, 0, 0, 0, 0, 0, 0, 0]"
  by (simp add: numeral_eq_Suc)

lemma replicate_63: "replicate 63 (0::byte) =
     [
      0, 0, 0, 0, 0, 0, 0, 0, 0, 0, 0, 0, 0, 0, 0, 0, 0, 0, 0, 0, 0, 0, 0, 0, 0, 0, 0, 0,
      0, 0, 0, 0, 0, 0, 0, 0, 0, 0, 0, 0, 0, 0, 0, 0, 0, 0, 0, 0, 0, 0, 0, 0, 0, 0, 0, 0,
      0, 0, 0, 0, 0, 0, 0]"
  by (simp add: numeral_eq_Suc)

lemma sha256_abc_padding:
  "padding 3 = ([
      128, 0, 0, 0, 0, 0, 0, 0, 0, 0, 0, 0, 0, 0, 0, 0, 0, 0, 0, 0, 0, 0, 0, 0, 0, 0, 0, 0,
      0, 0, 0, 0, 0, 0, 0, 0, 0, 0, 0, 0, 0, 0, 0, 0, 0, 0, 0, 0, 0, 0, 0, 0, 0, 0, 0, 0,
      0, 0, 0, 0, 24] :: byte list)"
  by (simp add: padding_def length_bytes_def upt_conv_Cons replicate_52)

lemma sha256_abc_block0_words:
  "words_of ([
      97, 98, 99, 128, 0, 0, 0, 0, 0, 0, 0, 0, 0, 0, 0, 0, 0, 0, 0, 0, 0, 0, 0, 0, 0, 0, 0,
      0, 0, 0, 0, 0, 0, 0, 0, 0, 0, 0, 0, 0, 0, 0, 0, 0, 0, 0, 0, 0, 0, 0, 0, 0, 0, 0, 0,
      0, 0, 0, 0, 0, 0, 0, 0, 24] :: byte list) =
     [
      1633837952, 0, 0, 0, 0, 0, 0, 0, 0, 0, 0, 0, 0, 0, 0, 24]"
  by (simp add: be32_def)

lemma sha256_abc_block0_schedule0:
  "schedule 8 [
      24, 0, 0, 0, 0, 0, 0, 0, 0, 0, 0, 0, 0, 0, 0, 1633837952] =
     [
      3806512014, 316456923, 25426944, 1050508152, 1610613702, 2108187653, 983040,
      1633837952, 24, 0, 0, 0, 0, 0, 0, 0, 0, 0, 0, 0, 0, 0, 0, 1633837952]"
  by (simp add: schedule_numeral schedule_Suc_0 sigma0_def sigma1_def rotr_def
      del: schedule.simps)

lemma sha256_abc_block0_schedule1:
  "schedule 8 [
      3806512014, 316456923, 25426944, 1050508152, 1610613702, 2108187653, 983040,
      1633837952, 24, 0, 0, 0, 0, 0, 0, 0, 0, 0, 0, 0, 0, 0, 0, 1633837952] =
     [
      3552024379, 1881225380, 3968280267, 2636160359, 845560923, 3854317833, 3073800610,
      3357629466, 3806512014, 316456923, 25426944, 1050508152, 1610613702, 2108187653,
      983040, 1633837952, 24, 0, 0, 0, 0, 0, 0, 0, 0, 0, 0, 0, 0, 0, 0, 1633837952]"
  by (simp add: schedule_numeral schedule_Suc_0 sigma0_def sigma1_def rotr_def
      del: schedule.simps)

lemma sha256_abc_block0_schedule2:
  "schedule 8 [
      3552024379, 1881225380, 3968280267, 2636160359, 845560923, 3854317833, 3073800610,
      3357629466, 3806512014, 316456923, 25426944, 1050508152, 1610613702, 2108187653,
      983040, 1633837952, 24, 0, 0, 0, 0, 0, 0, 0, 0, 0, 0, 0, 0, 0, 0, 1633837952] =
     [
      610538786, 2483675966, 1924104970, 176896406, 4043988066, 2952069057, 996719219,
      2482346367, 3552024379, 1881225380, 3968280267, 2636160359, 845560923, 3854317833,
      3073800610, 3357629466, 3806512014, 316456923, 25426944, 1050508152, 1610613702,
      2108187653, 983040, 1633837952, 24, 0, 0, 0, 0, 0, 0, 0, 0, 0, 0, 0, 0, 0, 0,
      1633837952]"
  by (simp add: schedule_numeral schedule_Suc_0 sigma0_def sigma1_def rotr_def
      del: schedule.simps)

lemma sha256_abc_block0_schedule3:
  "schedule 8 [
      610538786, 2483675966, 1924104970, 176896406, 4043988066, 2952069057, 996719219,
      2482346367, 3552024379, 1881225380, 3968280267, 2636160359, 845560923, 3854317833,
      3073800610, 3357629466, 3806512014, 316456923, 25426944, 1050508152, 1610613702,
      2108187653, 983040, 1633837952, 24, 0, 0, 0, 0, 0, 0, 0, 0, 0, 0, 0, 0, 0, 0,
      1633837952] =
     [
      106709978, 2049510749, 2215296807, 206005234, 657669027, 1042573945, 4037431130,
      2672279444, 610538786, 2483675966, 1924104970, 176896406, 4043988066, 2952069057,
      996719219, 2482346367, 3552024379, 1881225380, 3968280267, 2636160359, 845560923,
      3854317833, 3073800610, 3357629466, 3806512014, 316456923, 25426944, 1050508152,
      1610613702, 2108187653, 983040, 1633837952, 24, 0, 0, 0, 0, 0, 0, 0, 0, 0, 0, 0, 0,
      0, 0, 1633837952]"
  by (simp add: schedule_numeral schedule_Suc_0 sigma0_def sigma1_def rotr_def
      del: schedule.simps)

lemma sha256_abc_block0_schedule4:
  "schedule 8 [
      106709978, 2049510749, 2215296807, 206005234, 657669027, 1042573945, 4037431130,
      2672279444, 610538786, 2483675966, 1924104970, 176896406, 4043988066, 2952069057,
      996719219, 2482346367, 3552024379, 1881225380, 3968280267, 2636160359, 845560923,
      3854317833, 3073800610, 3357629466, 3806512014, 316456923, 25426944, 1050508152,
      1610613702, 2108187653, 983040, 1633837952, 24, 0, 0, 0, 0, 0, 0, 0, 0, 0, 0, 0, 0,
      0, 0, 1633837952] =
     [
      2987358873, 344409900, 3256115900, 2226839261, 2845390439, 3118885940, 3430291419,
      4215179723, 106709978, 2049510749, 2215296807, 206005234, 657669027, 1042573945,
      4037431130, 2672279444, 610538786, 2483675966, 1924104970, 176896406, 4043988066,
      2952069057, 996719219, 2482346367, 3552024379, 1881225380, 3968280267, 2636160359,
      845560923, 3854317833, 3073800610, 3357629466, 3806512014, 316456923, 25426944,
      1050508152, 1610613702, 2108187653, 983040, 1633837952, 24, 0, 0, 0, 0, 0, 0, 0, 0,
      0, 0, 0, 0, 0, 0, 1633837952]"
  by (simp add: schedule_numeral schedule_Suc_0 sigma0_def sigma1_def rotr_def
      del: schedule.simps)

lemma sha256_abc_block0_schedule5:
  "schedule 8 [
      2987358873, 344409900, 3256115900, 2226839261, 2845390439, 3118885940, 3430291419,
      4215179723, 106709978, 2049510749, 2215296807, 206005234, 657669027, 1042573945,
      4037431130, 2672279444, 610538786, 2483675966, 1924104970, 176896406, 4043988066,
      2952069057, 996719219, 2482346367, 3552024379, 1881225380, 3968280267, 2636160359,
      845560923, 3854317833, 3073800610, 3357629466, 3806512014, 316456923, 25426944,
      1050508152, 1610613702, 2108187653, 983040, 1633837952, 24, 0, 0, 0, 0, 0, 0, 0, 0,
      0, 0, 0, 0, 0, 0, 1633837952] =
     [
      313650667, 4004225740, 1720397816, 2755645205, 2025622859, 2682456414, 3957764664,
      4015503821, 2987358873, 344409900, 3256115900, 2226839261, 2845390439, 3118885940,
      3430291419, 4215179723, 106709978, 2049510749, 2215296807, 206005234, 657669027,
      1042573945, 4037431130, 2672279444, 610538786, 2483675966, 1924104970, 176896406,
      4043988066, 2952069057, 996719219, 2482346367, 3552024379, 1881225380, 3968280267,
      2636160359, 845560923, 3854317833, 3073800610, 3357629466, 3806512014, 316456923,
      25426944, 1050508152, 1610613702, 2108187653, 983040, 1633837952, 24, 0, 0, 0, 0, 0,
      0, 0, 0, 0, 0, 0, 0, 0, 0, 1633837952]"
  by (simp add: schedule_numeral schedule_Suc_0 sigma0_def sigma1_def rotr_def
      del: schedule.simps)

lemma sha256_abc_block0_schedule:
  "rev (schedule 48 (rev [
      1633837952, 0, 0, 0, 0, 0, 0, 0, 0, 0, 0, 0, 0, 0, 0, 24])) =
     [
      1633837952, 0, 0, 0, 0, 0, 0, 0, 0, 0, 0, 0, 0, 0, 0, 24, 1633837952, 983040,
      2108187653, 1610613702, 1050508152, 25426944, 316456923, 3806512014, 3357629466,
      3073800610, 3854317833, 845560923, 2636160359, 3968280267, 1881225380, 3552024379,
      2482346367, 996719219, 2952069057, 4043988066, 176896406, 1924104970, 2483675966,
      610538786, 2672279444, 4037431130, 1042573945, 657669027, 206005234, 2215296807,
      2049510749, 106709978, 4215179723, 3430291419, 3118885940, 2845390439, 2226839261,
      3256115900, 344409900, 2987358873, 4015503821, 3957764664, 2682456414, 2025622859,
      2755645205, 1720397816, 4004225740, 313650667]"
proof -
  have "schedule 48 w = schedule 8 (schedule 8 (schedule 8 (schedule 8 (schedule 8 (schedule 8 w)))))"
    for w
    using schedule_add [of 8 40 w] schedule_add [of 8 32 "schedule 8 w"]
      schedule_add [of 8 24 "schedule 8 (schedule 8 w)"]
      schedule_add [of 8 16 "schedule 8 (schedule 8 (schedule 8 w))"]
      schedule_add [of 8 8 "schedule 8 (schedule 8 (schedule 8 (schedule 8 w)))"]
    by simp
  then show ?thesis
    by (simp add: sha256_abc_block0_schedule0 sha256_abc_block0_schedule1 sha256_abc_block0_schedule2 sha256_abc_block0_schedule3 sha256_abc_block0_schedule4 sha256_abc_block0_schedule5 del: schedule.simps)
qed

lemma sha256_abc_block0_rounds0:
  "foldl round_step (HState 0x6a09e667 0xbb67ae85 0x3c6ef372 0xa54ff53a 0x510e527f 0x9b05688c 0x1f83d9ab 0x5be0cd19)
     (zip K256_rounds_0 [
      1633837952, 0, 0, 0, 0, 0, 0, 0]) =
   HState 0x85a07b5f 0xe5030380 0x2b4209f5 0x04409a6a 0x0c657a79 0x9b27a401 0x714260ad 0x43ada245"
  by (simp add: K256_rounds_0_def Sigma0_def Sigma1_def Ch_def Maj_def rotr_def Let_def)

lemma sha256_abc_block0_rounds1:
  "foldl round_step (HState 0x85a07b5f 0xe5030380 0x2b4209f5 0x04409a6a 0x0c657a79 0x9b27a401 0x714260ad 0x43ada245)
     (zip K256_rounds_1 [
      0, 0, 0, 0, 0, 0, 0, 24]) =
   HState 0xb0fa238e 0xc0645fde 0xd932eb16 0x87912990 0x07590dcd 0x0b92f20c 0x745a48de 0x1e578218"
  by (simp add: K256_rounds_1_def Sigma0_def Sigma1_def Ch_def Maj_def rotr_def Let_def)

lemma sha256_abc_block0_rounds2:
  "foldl round_step (HState 0xb0fa238e 0xc0645fde 0xd932eb16 0x87912990 0x07590dcd 0x0b92f20c 0x745a48de 0x1e578218)
     (zip K256_rounds_2 [
      1633837952, 983040, 2108187653, 1610613702, 1050508152, 25426944, 316456923,
      3806512014]) =
   HState 0xc5d53d8d 0xa7a3623f 0xc2606d6d 0x9dc68b63 0xaa47c347 0x49f5114a 0xe1257970 0x8ada8930"
  by (simp add: K256_rounds_2_def Sigma0_def Sigma1_def Ch_def Maj_def rotr_def Let_def)

lemma sha256_abc_block0_rounds3:
  "foldl round_step (HState 0xc5d53d8d 0xa7a3623f 0xc2606d6d 0x9dc68b63 0xaa47c347 0x49f5114a 0xe1257970 0x8ada8930)
     (zip K256_rounds_3 [
      3357629466, 3073800610, 3854317833, 845560923, 2636160359, 3968280267, 1881225380,
      3552024379]) =
   HState 0x73b33bf5 0xea992a22 0xa0060b30 0x363482c9 0xba591112 0x0109ab3a 0xade79437 0x6112a3b7"
  by (simp add: K256_rounds_3_def Sigma0_def Sigma1_def Ch_def Maj_def rotr_def Let_def)

lemma sha256_abc_block0_rounds4:
  "foldl round_step (HState 0x73b33bf5 0xea992a22 0xa0060b30 0x363482c9 0xba591112 0x0109ab3a 0xade79437 0x6112a3b7)
     (zip K256_rounds_4 [
      2482346367, 996719219, 2952069057, 4043988066, 176896406, 1924104970, 2483675966,
      610538786]) =
   HState 0x79ea687a 0x6dc57a8a 0x34df1604 0x41a65cb1 0x1efbc0a0 0xf0781bc8 0xa507a53d 0x0772a26b"
  by (simp add: K256_rounds_4_def Sigma0_def Sigma1_def Ch_def Maj_def rotr_def Let_def)

lemma sha256_abc_block0_rounds5:
  "foldl round_step (HState 0x79ea687a 0x6dc57a8a 0x34df1604 0x41a65cb1 0x1efbc0a0 0xf0781bc8 0xa507a53d 0x0772a26b)
     (zip K256_rounds_5 [
      2672279444, 4037431130, 1042573945, 657669027, 206005234, 2215296807, 2049510749,
      106709978]) =
   HState 0x4172328d 0xa14c14b0 0x72ab4b91 0x26628815 0xfecf0bc6 0xd57b94a9 0xb7755da1 0xa80f11f0"
  by (simp add: K256_rounds_5_def Sigma0_def Sigma1_def Ch_def Maj_def rotr_def Let_def)

lemma sha256_abc_block0_rounds6:
  "foldl round_step (HState 0x4172328d 0xa14c14b0 0x72ab4b91 0x26628815 0xfecf0bc6 0xd57b94a9 0xb7755da1 0xa80f11f0)
     (zip K256_rounds_6 [
      4215179723, 3430291419, 3118885940, 2845390439, 2226839261, 3256115900, 344409900,
      2987358873]) =
   HState 0x38cc9913 0x3ec45cdb 0xf5702fdb 0x101fd28f 0x54cb266b 0xe50e1b4f 0x9f4787c3 0x529e7d00"
  by (simp add: K256_rounds_6_def Sigma0_def Sigma1_def Ch_def Maj_def rotr_def Let_def)

lemma sha256_abc_block0_rounds7:
  "foldl round_step (HState 0x38cc9913 0x3ec45cdb 0xf5702fdb 0x101fd28f 0x54cb266b 0xe50e1b4f 0x9f4787c3 0x529e7d00)
     (zip K256_rounds_7 [
      4015503821, 3957764664, 2682456414, 2025622859, 2755645205, 1720397816, 4004225740,
      313650667]) =
   HState 0x506e3058 0xd39a2165 0x04d24d6c 0xb85e2ce9 0x5ef50f24 0xfb121210 0x948d25b6 0x961f4894"
  by (simp add: K256_rounds_7_def Sigma0_def Sigma1_def Ch_def Maj_def rotr_def Let_def)

lemma sha256_abc_block0_compress:
  "compress (HState 0x6a09e667 0xbb67ae85 0x3c6ef372 0xa54ff53a 0x510e527f 0x9b05688c 0x1f83d9ab 0x5be0cd19) ([
      97, 98, 99, 128, 0, 0, 0, 0, 0, 0, 0, 0, 0, 0, 0, 0, 0, 0, 0, 0, 0, 0, 0, 0, 0, 0, 0,
      0, 0, 0, 0, 0, 0, 0, 0, 0, 0, 0, 0, 0, 0, 0, 0, 0, 0, 0, 0, 0, 0, 0, 0, 0, 0, 0, 0,
      0, 0, 0, 0, 0, 0, 0, 0, 24] :: byte list) =
     HState 0xba7816bf 0x8f01cfea 0x414140de 0x5dae2223 0xb00361a3 0x96177a9c 0xb410ff61 0xf20015ad"
proof -
  have z: "zip K256 [
        1633837952, 0, 0, 0, 0, 0, 0, 0, 0, 0, 0, 0, 0, 0, 0, 24, 1633837952, 983040,
        2108187653, 1610613702, 1050508152, 25426944, 316456923, 3806512014, 3357629466,
        3073800610, 3854317833, 845560923, 2636160359, 3968280267, 1881225380, 3552024379,
        2482346367, 996719219, 2952069057, 4043988066, 176896406, 1924104970, 2483675966,
        610538786, 2672279444, 4037431130, 1042573945, 657669027, 206005234, 2215296807,
        2049510749, 106709978, 4215179723, 3430291419, 3118885940, 2845390439, 2226839261,
        3256115900, 344409900, 2987358873, 4015503821, 3957764664, 2682456414, 2025622859,
        2755645205, 1720397816, 4004225740, 313650667] =
    zip K256_rounds_0 [
        1633837952, 0, 0, 0, 0, 0, 0, 0] @ zip K256_rounds_1 [
        0, 0, 0, 0, 0, 0, 0, 24] @ zip K256_rounds_2 [
        1633837952, 983040, 2108187653, 1610613702, 1050508152, 25426944, 316456923,
        3806512014] @ zip K256_rounds_3 [
        3357629466, 3073800610, 3854317833, 845560923, 2636160359, 3968280267, 1881225380,
        3552024379] @ zip K256_rounds_4 [
        2482346367, 996719219, 2952069057, 4043988066, 176896406, 1924104970, 2483675966,
        610538786] @ zip K256_rounds_5 [
        2672279444, 4037431130, 1042573945, 657669027, 206005234, 2215296807, 2049510749,
        106709978] @ zip K256_rounds_6 [
        4215179723, 3430291419, 3118885940, 2845390439, 2226839261, 3256115900, 344409900,
        2987358873] @ zip K256_rounds_7 [
        4015503821, 3957764664, 2682456414, 2025622859, 2755645205, 1720397816, 4004225740,
        313650667]"
    by (simp add: K256_unfold)
  have "foldl round_step (HState 0x6a09e667 0xbb67ae85 0x3c6ef372 0xa54ff53a 0x510e527f 0x9b05688c 0x1f83d9ab 0x5be0cd19) (zip K256 [
        1633837952, 0, 0, 0, 0, 0, 0, 0, 0, 0, 0, 0, 0, 0, 0, 24, 1633837952, 983040,
        2108187653, 1610613702, 1050508152, 25426944, 316456923, 3806512014, 3357629466,
        3073800610, 3854317833, 845560923, 2636160359, 3968280267, 1881225380, 3552024379,
        2482346367, 996719219, 2952069057, 4043988066, 176896406, 1924104970, 2483675966,
        610538786, 2672279444, 4037431130, 1042573945, 657669027, 206005234, 2215296807,
        2049510749, 106709978, 4215179723, 3430291419, 3118885940, 2845390439, 2226839261,
        3256115900, 344409900, 2987358873, 4015503821, 3957764664, 2682456414, 2025622859,
        2755645205, 1720397816, 4004225740, 313650667]) =
     HState 0x506e3058 0xd39a2165 0x04d24d6c 0xb85e2ce9 0x5ef50f24 0xfb121210 0x948d25b6 0x961f4894"
    unfolding z foldl_append
    by (simp only: sha256_abc_block0_rounds0 sha256_abc_block0_rounds1 sha256_abc_block0_rounds2 sha256_abc_block0_rounds3 sha256_abc_block0_rounds4 sha256_abc_block0_rounds5 sha256_abc_block0_rounds6 sha256_abc_block0_rounds7)
  then show ?thesis
    unfolding compress_def sha256_abc_block0_words sha256_abc_block0_schedule
    by simp
qed

lemma sha256_abc:
  "hexdigest (sha256 [
        97, 98, 99]) =
     ''ba7816bf8f01cfea414140de5dae2223b00361a396177a9cb410ff61f20015ad''"
proof -
  have u: "sha256 [
        97, 98, 99] =
      \<lparr>chain = H0, pending = [
        97, 98, 99], total = 3\<rparr>"
    by (simp add: sha256_def sha256_update_def sha256_new_def
        absorb.simps [of H0 "[
        97, 98, 99]"])
  have p: "[
        97, 98, 99] @ padding 3 = ([
        97, 98, 99, 128, 0, 0, 0, 0, 0, 0, 0, 0, 0, 0, 0, 0, 0, 0, 0, 0, 0, 0, 0, 0, 0, 0,
        0, 0, 0, 0, 0, 0, 0, 0, 0, 0, 0, 0, 0, 0, 0, 0, 0, 0, 0, 0, 0, 0, 0, 0, 0, 0, 0, 0,
        0, 0, 0, 0, 0, 0, 0, 0, 0, 24] :: byte list)"
    by (simp add: sha256_abc_padding)
  have d: "absorb (HState 0x6a09e667 0xbb67ae85 0x3c6ef372 0xa54ff53a 0x510e527f 0x9b05688c 0x1f83d9ab 0x5be0cd19)
      ([
        97, 98, 99, 128, 0, 0, 0, 0, 0, 0, 0, 0, 0, 0, 0, 0, 0, 0, 0, 0, 0, 0, 0, 0, 0, 0,
        0, 0, 0, 0, 0, 0, 0, 0, 0, 0, 0, 0, 0, 0, 0, 0, 0, 0, 0, 0, 0, 0, 0, 0, 0, 0, 0, 0,
        0, 0, 0, 0, 0, 0, 0, 0, 0, 24] :: byte list) =
      (HState 0xba7816bf 0x8f01cfea 0x414140de 0x5dae2223 0xb00361a3 0x96177a9c 0xb410ff61 0xf20015ad, [])"
    by (simp add: absorb.simps [of "HState 0x6a09e667 0xbb67ae85 0x3c6ef372 0xa54ff53a 0x510e527f 0x9b05688c 0x1f83d9ab 0x5be0cd19" "[
        97, 98, 99, 128, 0, 0, 0, 0, 0, 0, 0, 0, 0, 0, 0, 0, 0, 0, 0, 0, 0, 0, 0, 0, 0, 0,
        0, 0, 0, 0, 0, 0, 0, 0, 0, 0, 0, 0, 0, 0, 0, 0, 0, 0, 0, 0, 0, 0, 0, 0, 0, 0, 0, 0,
        0, 0, 0, 0, 0, 0, 0, 0, 0, 24]"]
        absorb.simps [of "HState 0xba7816bf 0x8f01cfea 0x414140de 0x5dae2223 0xb00361a3 0x96177a9c 0xb410ff61 0xf20015ad" "[]"]
        sha256_abc_block0_compress)
  have e: "sha256_digest (sha256 [
        97, 98, 99]) =
      state_bytes (fst (absorb H0 ([
        97, 98, 99] @ padding 3)))"
    unfolding sha256_digest_def u by (simp del: append.simps)
  have "sha256_digest (sha256 [
        97, 98, 99]) =
      state_bytes (HState 0xba7816bf 0x8f01cfea 0x414140de 0x5dae2223 0xb00361a3 0x96177a9c 0xb410ff61 0xf20015ad)"
    unfolding e p H0_def d by simp
  then show ?thesis
    unfolding hexdigest_def
    by (simp add: word_bytes_def hex_byte_def hex_digit_def hexdigits_def)
qed

lemma sha256_two_blocks_padding:
  "padding 56 = ([
      128, 0, 0, 0, 0, 0, 0, 0, 0, 0, 0, 0, 0, 0, 0, 0, 0, 0, 0, 0, 0, 0, 0, 0, 0, 0, 0, 0,
      0, 0, 0, 0, 0, 0, 0, 0, 0, 0, 0, 0, 0, 0, 0, 0, 0, 0, 0, 0, 0, 0, 0, 0, 0, 0, 0, 0,
      0, 0, 0, 0, 0, 0, 0, 0, 0, 0, 0, 0, 0, 0, 1, 192] :: byte list)"
  by (simp add: padding_def length_bytes_def upt_conv_Cons replicate_63)

lemma sha256_two_blocks_block0_words:
  "words_of ([
      97, 98, 99, 100, 98, 99, 100, 101, 99, 100, 101, 102, 100, 101, 102, 103, 101, 102,
      103, 104, 102, 103, 104, 105, 103, 104, 105, 106, 104, 105, 106, 107, 105, 106, 107,
      108, 106, 107, 108, 109, 107, 108, 109, 110, 108, 109, 110, 111, 109, 110, 111, 112,
      110, 111, 112, 113, 128, 0, 0, 0, 0, 0, 0, 0] :: byte list) =
     [
      1633837924, 1650680933, 1667523942, 1684366951, 1701209960, 1718052969, 1734895978,
      1751738987, 1768581996, 1785425005, 1802268014, 1819111023, 1835954032, 1852797041,
      2147483648, 0]"
  by (simp add: be32_def)

lemma sha256_two_blocks_block0_schedule0:
  "schedule 8 [
      0, 2147483648, 1852797041, 1835954032, 1819111023, 1802268014, 1785425005,
      1768581996, 1751738987, 1734895978, 1718052969, 1701209960, 1684366951, 1667523942,
      1650680933, 1633837924] =
     [
      2994776011, 2652241974, 3628590942, 2460557828, 3124946755, 1994996642, 2814619282,
      3951039149, 0, 2147483648, 1852797041, 1835954032, 1819111023, 1802268014,
      1785425005, 1768581996, 1751738987, 1734895978, 1718052969, 1701209960, 1684366951,
      1667523942, 1650680933, 1633837924]"
  by (simp add: schedule_numeral schedule_Suc_0 sigma0_def sigma1_def rotr_def
      del: schedule.simps)

lemma sha256_two_blocks_block0_schedule1:
  "schedule 8 [
      2994776011, 2652241974, 3628590942, 2460557828, 3124946755, 1994996642, 2814619282,
      3951039149, 0, 2147483648, 1852797041, 1835954032, 1819111023, 1802268014,
      1785425005, 1768581996, 1751738987, 1734895978, 1718052969, 1701209960, 1684366951,
      1667523942, 1650680933, 1633837924] =
     [
      3998860489, 720483034, 4115443864, 1791803628, 3914979741, 2526859336, 4083517172,
      3723171094, 2994776011, 2652241974, 3628590942, 2460557828, 3124946755, 1994996642,
      2814619282, 3951039149, 0, 2147483648, 1852797041, 1835954032, 1819111023,
      1802268014, 1785425005, 1768581996, 1751738987, 1734895978, 1718052969, 1701209960,
      1684366951, 1667523942, 1650680933, 1633837924]"
  by (simp add: schedule_numeral schedule_Suc_0 sigma0_def sigma1_def rotr_def
      del: schedule.simps)

lemma sha256_two_blocks_block0_schedule2:
  "schedule 8 [
      3998860489, 720483034, 4115443864, 1791803628, 3914979741, 2526859336, 4083517172,
      3723171094, 2994776011, 2652241974, 3628590942, 2460557828, 3124946755, 1994996642,
      2814619282, 3951039149, 0, 2147483648, 1852797041, 1835954032, 1819111023,
      1802268014, 1785425005, 1768581996, 1751738987, 1734895978, 1718052969, 1701209960,
      1684366951, 1667523942, 1650680933, 1633837924] =
     [
      2537811576, 905935492, 559366661, 1863844298, 3281505646, 3605092697, 503268393,
      2822103402, 3998860489, 720483034, 4115443864, 1791803628, 3914979741, 2526859336,
      4083517172, 3723171094, 2994776011, 2652241974, 3628590942, 2460557828, 3124946755,
      1994996642, 2814619282, 3951039149, 0, 2147483648, 1852797041, 1835954032,
      1819111023, 1802268014, 1785425005, 1768581996, 1751738987, 1734895978, 1718052969,
      1701209960, 1684366951, 1667523942, 1650680933, 1633837924]"
  by (simp add: schedule_numeral schedule_Suc_0 sigma0_def sigma1_def rotr_def
      del: schedule.simps)

lemma sha256_two_blocks_block0_schedule3:
  "schedule 8 [
      2537811576, 905935492, 559366661, 1863844298, 3281505646, 3605092697, 503268393,
      2822103402, 3998860489, 720483034, 4115443864, 1791803628, 3914979741, 2526859336,
      4083517172, 3723171094, 2994776011, 2652241974, 3628590942, 2460557828, 3124946755,
      1994996642, 2814619282, 3951039149, 0, 2147483648, 1852797041, 1835954032,
      1819111023, 1802268014, 1785425005, 1768581996, 1751738987, 1734895978, 1718052969,
      1701209960, 1684366951, 1667523942, 1650680933, 1633837924] =
     [
      1868941719, 2118769763, 261420131, 1911633104, 70081519, 2626269012, 218755085,
      3829498855, 2537811576, 905935492, 559366661, 1863844298, 3281505646, 3605092697,
      503268393, 2822103402, 3998860489, 720483034, 4115443864, 1791803628, 3914979741,
      2526859336, 4083517172, 3723171094, 2994776011, 2652241974, 3628590942, 2460557828,
      3124946755, 1994996642, 2814619282, 3951039149, 0, 2147483648, 1852797041,
      1835954032, 1819111023, 1802268014, 1785425005, 1768581996, 1751738987, 1734895978,
      1718052969, 1701209960, 1684366951, 1667523942, 1650680933, 1633837924]"
  by (simp add: schedule_numeral schedule_Suc_0 sigma0_def sigma1_def rotr_def
      del: schedule.simps)

lemma sha256_two_blocks_block0_schedule4:
  "schedule 8 [
      1868941719, 2118769763, 261420131, 1911633104, 70081519, 2626269012, 218755085,
      3829498855, 2537811576, 905935492, 559366661, 1863844298, 3281505646, 3605092697,
      503268393, 2822103402, 3998860489, 720483034, 4115443864, 1791803628, 3914979741,
      2526859336, 4083517172, 3723171094, 2994776011, 2652241974, 3628590942, 2460557828,
      3124946755, 1994996642, 2814619282, 3951039149, 0, 2147483648, 1852797041,
      1835954032, 1819111023, 1802268014, 1785425005, 1768581996, 1751738987, 1734895978,
      1718052969, 1701209960, 1684366951, 1667523942, 1650680933, 1633837924] =
     [
      4142358812, 2027968605, 3586894366, 2123600585, 3121765433, 1345344745, 395514570,
      191915395, 1868941719, 2118769763, 261420131, 1911633104, 70081519, 2626269012,
      218755085, 3829498855, 2537811576, 905935492, 559366661, 1863844298, 3281505646,
      3605092697, 503268393, 2822103402, 3998860489, 720483034, 4115443864, 1791803628,
      3914979741, 2526859336, 4083517172, 3723171094, 2994776011, 2652241974, 3628590942,
      2460557828, 3124946755, 1994996642, 2814619282, 3951039149, 0, 2147483648,
      1852797041, 1835954032, 1819111023, 1802268014, 1785425005, 1768581996, 1751738987,
      1734895978, 1718052969, 1701209960, 1684366951, 1667523942, 1650680933, 1633837924]"
  by (simp add: schedule_numeral schedule_Suc_0 sigma0_def sigma1_def rotr_def
      del: schedule.simps)

lemma sha256_two_blocks_block0_schedule5:
  "schedule 8 [
      4142358812, 2027968605, 3586894366, 2123600585, 3121765433, 1345344745, 395514570,
      191915395, 1868941719, 2118769763, 261420131, 1911633104, 70081519, 2626269012,
      218755085, 3829498855, 2537811576, 905935492, 559366661, 1863844298, 3281505646,
      3605092697, 503268393, 2822103402, 3998860489, 720483034, 4115443864, 1791803628,
      3914979741, 2526859336, 4083517172, 3723171094, 2994776011, 2652241974, 3628590942,
      2460557828, 3124946755, 1994996642, 2814619282, 3951039149, 0, 2147483648,
      1852797041, 1835954032, 1819111023, 1802268014, 1785425005, 1768581996, 1751738987,
      1734895978, 1718052969, 1701209960, 1684366951, 1667523942, 1650680933, 1633837924] =
     [
      1789266489, 2849992546, 440258711, 1073851889, 2356030570, 4251869823, 2336727811,
      2328375502, 4142358812, 2027968605, 3586894366, 2123600585, 3121765433, 1345344745,
      395514570, 191915395, 1868941719, 2118769763, 261420131, 1911633104, 70081519,
      2626269012, 218755085, 3829498855, 2537811576, 905935492, 559366661, 1863844298,
      3281505646, 3605092697, 503268393, 2822103402, 3998860489, 720483034, 4115443864,
      1791803628, 3914979741, 2526859336, 4083517172, 3723171094, 2994776011, 2652241974,
      3628590942, 2460557828, 3124946755, 1994996642, 2814619282, 3951039149, 0,
      2147483648, 1852797041, 1835954032, 1819111023, 1802268014, 1785425005, 1768581996,
      1751738987, 1734895978, 1718052969, 1701209960, 1684366951, 1667523942, 1650680933,
      1633837924]"
  by (simp add: schedule_numeral schedule_Suc_0 sigma0_def sigma1_def rotr_def
      del: schedule.simps)

lemma sha256_two_blocks_block0_schedule:
  "rev (schedule 48 (rev [
      1633837924, 1650680933, 1667523942, 1684366951, 1701209960, 1718052969, 1734895978,
      1751738987, 1768581996, 1785425005, 1802268014, 1819111023, 1835954032, 1852797041,
      2147483648, 0])) =
     [
      1633837924, 1650680933, 1667523942, 1684366951, 1701209960, 1718052969, 1734895978,
      1751738987, 1768581996, 1785425005, 1802268014, 1819111023, 1835954032, 1852797041,
      2147483648, 0, 3951039149, 2814619282, 1994996642, 3124946755, 2460557828,
      3628590942, 2652241974, 2994776011, 3723171094, 4083517172, 2526859336, 3914979741,
      1791803628, 4115443864, 720483034, 3998860489, 2822103402, 503268393, 3605092697,
      3281505646, 1863844298, 559366661, 905935492, 2537811576, 3829498855, 218755085,
      2626269012, 70081519, 1911633104, 261420131, 2118769763, 1868941719, 191915395,
      395514570, 1345344745, 3121765433, 2123600585, 3586894366, 2027968605, 4142358812,
      2328375502, 2336727811, 4251869823, 2356030570, 1073851889, 440258711, 2849992546,
      1789266489]"
proof -
  have "schedule 48 w = schedule 8 (schedule 8 (schedule 8 (schedule 8 (schedule 8 (schedule 8 w)))))"
    for w
    using schedule_add [of 8 40 w] schedule_add [of 8 32 "schedule 8 w"]
      schedule_add [of 8 24 "schedule 8 (schedule 8 w)"]
      schedule_add [of 8 16 "schedule 8 (schedule 8 (schedule 8 w))"]
      schedule_add [of 8 8 "schedule 8 (schedule 8 (schedule 8 (schedule 8 w)))"]
    by simp
  then show ?thesis
    by (simp add: sha256_two_blocks_block0_schedule0 sha256_two_blocks_block0_schedule1 sha256_two_blocks_block0_schedule2 sha256_two_blocks_block0_schedule3 sha256_two_blocks_block0_schedule4 sha256_two_blocks_block0_schedule5 del: schedule.simps)
qed

lemma sha256_two_blocks_block0_rounds0:
  "foldl round_step (HState 0x6a09e667 0xbb67ae85 0x3c6ef372 0xa54ff53a 0x510e527f 0x9b05688c 0x1f83d9ab 0x5be0cd19)
     (zip K256_rounds_0 [
      1633837924, 1650680933, 1667523942, 1684366951, 1701209960, 1718052969, 1734895978,
      1751738987]) =
   HState 0xd237e6db 0x485835b7 0x55c8ef48 0xf921c212 0xa401d211 0x39a5b2ca 0x7ff91c94 0x05c4f88a"
  by (simp add: K256_rounds_0_def Sigma0_def Sigma1_def Ch_def Maj_def rotr_def Let_def)

lemma sha256_two_blocks_block0_rounds1:
  "foldl round_step (HState 0xd237e6db 0x485835b7 0x55c8ef48 0xf921c212 0xa401d211 0x39a5b2ca 0x7ff91c94 0x05c4f88a)
     (zip K256_rounds_1 [
      1768581996, 1785425005, 1802268014, 1819111023, 1835954032, 1852797041, 2147483648, 0]) =
   HState 0xc3486194 0xdd16cbb3 0xd68e6457 0x101a4861 0x1496a54f 0x9162aded 0x9243f8af 0x839a0fc9"
  by (simp add: K256_rounds_1_def Sigma0_def Sigma1_def Ch_def Maj_def rotr_def Let_def)

lemma sha256_two_blocks_block0_rounds2:
  "foldl round_step (HState 0xc3486194 0xdd16cbb3 0xd68e6457 0x101a4861 0x1496a54f 0x9162aded 0x9243f8af 0x839a0fc9)
     (zip K256_rounds_2 [
      3951039149, 2814619282, 1994996642, 3124946755, 2460557828, 3628590942, 2652241974,
      2994776011]) =
   HState 0x59fce6b9 0xae2e2d4f 0x1b2b66b8 0xd70ac17d 0xa2c7d51d 0xf074fc95 0xd560b028 0x7cc6b262"
  by (simp add: K256_rounds_2_def Sigma0_def Sigma1_def Ch_def Maj_def rotr_def Let_def)

lemma sha256_two_blocks_block0_rounds3:
  "foldl round_step (HState 0x59fce6b9 0xae2e2d4f 0x1b2b66b8 0xd70ac17d 0xa2c7d51d 0xf074fc95 0xd560b028 0x7cc6b262)
     (zip K256_rounds_3 [
      3723171094, 4083517172, 2526859336, 3914979741, 1791803628, 4115443864, 720483034,
      3998860489]) =
   HState 0x5581ab07 0xeb43f3ed 0xdf7151a0 0x74bcf468 0xdf980085 0x0635d880 0x7629c961 0x72abaecd"
  by (simp add: K256_rounds_3_def Sigma0_def Sigma1_def Ch_def Maj_def rotr_def Let_def)

lemma sha256_two_blocks_block0_rounds4:
  "foldl round_step (HState 0x5581ab07 0xeb43f3ed 0xdf7151a0 0x74bcf468 0xdf980085 0x0635d880 0x7629c961 0x72abaecd)
     (zip K256_rounds_4 [
      2822103402, 503268393, 3605092697, 3281505646, 1863844298, 559366661, 905935492,
      2537811576]) =
   HState 0x7e4d30b8 0x91ac9d5d 0xa985b4be 0x2c55d3a6 0x9f5b9b6d 0x68d8d590 0xf72bf353 0xb067c1af"
  by (simp add: K256_rounds_4_def Sigma0_def Sigma1_def Ch_def Maj_def rotr_def Let_def)

lemma sha256_two_blocks_block0_rounds5:
  "foldl round_step (HState 0x7e4d30b8 0x91ac9d5d 0xa985b4be 0x2c55d3a6 0x9f5b9b6d 0x68d8d590 0xf72bf353 0xb067c1af)
     (zip K256_rounds_5 [
      3829498855, 218755085, 2626269012, 70081519, 1911633104, 261420131, 2118769763,
      1868941719]) =
   HState 0x13d82741 0x165be9cd 0x18f0d19d 0xde71e2f2 0xa7802a4d 0xa483f080 0x6b88472c 0xff61c636"
  by (simp add: K256_rounds_5_def Sigma0_def Sigma1_def Ch_def Maj_def rotr_def Let_def)

lemma sha256_two_blocks_block0_rounds6:
  "foldl round_step (HState 0x13d82741 0x165be9cd 0x18f0d19d 0xde71e2f2 0xa7802a4d 0xa483f080 0x6b88472c 0xff61c636)
     (zip K256_rounds_6 [
      191915395, 395514570, 1345344745, 3121765433, 2123600585, 3586894366, 2027968605,
      4142358812]) =
   HState 0x9e57c4a0 0xf907b313 0x1d6de87a 0xb8d55619 0xeec13548 0x61a41711 0x3443bed4 0x1c806a61"
  by (simp add: K256_rounds_6_def Sigma0_def Sigma1_def Ch_def Maj_def rotr_def Let_def)

lemma sha256_two_blocks_block0_rounds7:
  "foldl round_step (HState 0x9e57c4a0 0xf907b313 0x1d6de87a 0xb8d55619 0xeec13548 0x61a41711 0x3443bed4 0x1c806a61)
     (zip K256_rounds_7 [
      2328375502, 2336727811, 4251869823, 2356030570, 1073851889, 440258711, 2849992546,
      1789266489]) =
   HState 0x1bdc6f6f 0x86126910 0xf6f443f8 0xbcfce922 0x25d2430a 0x2fc08f85 0xacc75916 0x962d8621"
  by (simp add: K256_rounds_7_def Sigma0_def Sigma1_def Ch_def Maj_def rotr_def Let_def)

lemma sha256_two_blocks_block0_compress:
  "compress (HState 0x6a09e667 0xbb67ae85 0x3c6ef372 0xa54ff53a 0x510e527f 0x9b05688c 0x1f83d9ab 0x5be0cd19) ([
      97, 98, 99, 100, 98, 99, 100, 101, 99, 100, 101, 102, 100, 101, 102, 103, 101, 102,
      103, 104, 102, 103, 104, 105, 103, 104, 105, 106, 104, 105, 106, 107, 105, 106, 107,
      108, 106, 107, 108, 109, 107, 108, 109, 110, 108, 109, 110, 111, 109, 110, 111, 112,
      110, 111, 112, 113, 128, 0, 0, 0, 0, 0, 0, 0] :: byte list) =
     HState 0x85e655d6 0x417a1795 0x3363376a 0x624cde5c 0x76e09589 0xcac5f811 0xcc4b32c1 0xf20e533a"
proof -
  have z: "zip K256 [
        1633837924, 1650680933, 1667523942, 1684366951, 1701209960, 1718052969, 1734895978,
        1751738987, 1768581996, 1785425005, 1802268014, 1819111023, 1835954032, 1852797041,
        2147483648, 0, 3951039149, 2814619282, 1994996642, 3124946755, 2460557828,
        3628590942, 2652241974, 2994776011, 3723171094, 4083517172, 2526859336, 3914979741,
        1791803628, 4115443864, 720483034, 3998860489, 2822103402, 503268393, 3605092697,
        3281505646, 1863844298, 559366661, 905935492, 2537811576, 3829498855, 218755085,
        2626269012, 70081519, 1911633104, 261420131, 2118769763, 1868941719, 191915395,
        395514570, 1345344745, 3121765433, 2123600585, 3586894366, 2027968605, 4142358812,
        2328375502, 2336727811, 4251869823, 2356030570, 1073851889, 440258711, 2849992546,
        1789266489] =
    zip K256_rounds_0 [
        1633837924, 1650680933, 1667523942, 1684366951, 1701209960, 1718052969, 1734895978,
        1751738987] @ zip K256_rounds_1 [
        1768581996, 1785425005, 1802268014, 1819111023, 1835954032, 1852797041, 2147483648,
        0] @ zip K256_rounds_2 [
        3951039149, 2814619282, 1994996642, 3124946755, 2460557828, 3628590942, 2652241974,
        2994776011] @ zip K256_rounds_3 [
        3723171094, 4083517172, 2526859336, 3914979741, 1791803628, 4115443864, 720483034,
        3998860489] @ zip K256_rounds_4 [
        2822103402, 503268393, 3605092697, 3281505646, 1863844298, 559366661, 905935492,
        2537811576] @ zip K256_rounds_5 [
        3829498855, 218755085, 2626269012, 70081519, 1911633104, 261420131, 2118769763,
        1868941719] @ zip K256_rounds_6 [
        191915395, 395514570, 1345344745, 3121765433, 2123600585, 3586894366, 2027968605,
        4142358812] @ zip K256_rounds_7 [
        2328375502, 2336727811, 4251869823, 2356030570, 1073851889, 440258711, 2849992546,
        1789266489]"
    by (simp add: K256_unfold)
  have "foldl round_step (HState 0x6a09e667 0xbb67ae85 0x3c6ef372 0xa54ff53a 0x510e527f 0x9b05688c 0x1f83d9ab 0x5be0cd19) (zip K256 [
        1633837924, 1650680933, 1667523942, 1684366951, 1701209960, 1718052969, 1734895978,
        1751738987, 1768581996, 1785425005, 1802268014, 1819111023, 1835954032, 1852797041,
        2147483648, 0, 3951039149, 2814619282, 1994996642, 3124946755, 2460557828,
        3628590942, 2652241974, 2994776011, 3723171094, 4083517172, 2526859336, 3914979741,
        1791803628, 4115443864, 720483034, 3998860489, 2822103402, 503268393, 3605092697,
        3281505646, 1863844298, 559366661, 905935492, 2537811576, 3829498855, 218755085,
        2626269012, 70081519, 1911633104, 261420131, 2118769763, 1868941719, 191915395,
        395514570, 1345344745, 3121765433, 2123600585, 3586894366, 2027968605, 4142358812,
        2328375502, 2336727811, 4251869823, 2356030570, 1073851889, 440258711, 2849992546,
        1789266489]) =
     HState 0x1bdc6f6f 0x86126910 0xf6f443f8 0xbcfce922 0x25d2430a 0x2fc08f85 0xacc75916 0x962d8621"
    unfolding z foldl_append
    by (simp only: sha256_two_blocks_block0_rounds0 sha256_two_blocks_block0_rounds1 sha256_two_blocks_block0_rounds2 sha256_two_blocks_block0_rounds3 sha256_two_blocks_block0_rounds4 sha256_two_blocks_block0_rounds5 sha256_two_blocks_block0_rounds6 sha256_two_blocks_block0_rounds7)
  then show ?thesis
    unfolding compress_def sha256_two_blocks_block0_words sha256_two_blocks_block0_schedule
    by simp
qed

lemma sha256_two_blocks_block1_words:
  "words_of ([
      0, 0, 0, 0, 0, 0, 0, 0, 0, 0, 0, 0, 0, 0, 0, 0, 0, 0, 0, 0, 0, 0, 0, 0, 0, 0, 0, 0,
      0, 0, 0, 0, 0, 0, 0, 0, 0, 0, 0, 0, 0, 0, 0, 0, 0, 0, 0, 0, 0, 0, 0, 0, 0, 0, 0, 0,
      0, 0, 0, 0, 0, 0, 1, 192] :: byte list) =
     [
      0, 0, 0, 0, 0, 0, 0, 0, 0, 0, 0, 0, 0, 0, 0, 448]"
  by (simp add: be32_def)

lemma sha256_two_blocks_block1_schedule0:
  "schedule 8 [
      448, 0, 0, 0, 0, 0, 0, 0, 0, 0, 0, 0, 0, 0, 0, 0] =
     [
      469782556, 448, 502620173, 0, 13943, 0, 14155776, 0, 448, 0, 0, 0, 0, 0, 0, 0, 0, 0,
      0, 0, 0, 0, 0, 0]"
  by (simp add: schedule_numeral schedule_Suc_0 sigma0_def sigma1_def rotr_def
      del: schedule.simps)

lemma sha256_two_blocks_block1_schedule1:
  "schedule 8 [
      469782556, 448, 502620173, 0, 13943, 0, 14155776, 0, 448, 0, 0, 0, 0, 0, 0, 0, 0, 0,
      0, 0, 0, 0, 0, 0] =
     [
      253339849, 1282750922, 151697171, 1674805301, 393222119, 41829, 571116948, 28311552,
      469782556, 448, 502620173, 0, 13943, 0, 14155776, 0, 448, 0, 0, 0, 0, 0, 0, 0, 0, 0,
      0, 0, 0, 0, 0, 0]"
  by (simp add: schedule_numeral schedule_Suc_0 sigma0_def sigma1_def rotr_def
      del: schedule.simps)

lemma sha256_two_blocks_block1_schedule2:
  "schedule 8 [
      253339849, 1282750922, 151697171, 1674805301, 393222119, 41829, 571116948, 28311552,
      469782556, 448, 502620173, 0, 13943, 0, 14155776, 0, 448, 0, 0, 0, 0, 0, 0, 0, 0, 0,
      0, 0, 0, 0, 0, 0] =
     [
      3976663423, 2020172421, 2774061449, 4163189838, 3316936525, 3380328177, 3797353322,
      1576317124, 253339849, 1282750922, 151697171, 1674805301, 393222119, 41829,
      571116948, 28311552, 469782556, 448, 502620173, 0, 13943, 0, 14155776, 0, 448, 0, 0,
      0, 0, 0, 0, 0, 0, 0, 0, 0, 0, 0, 0, 0]"
  by (simp add: schedule_numeral schedule_Suc_0 sigma0_def sigma1_def rotr_def
      del: schedule.simps)

lemma sha256_two_blocks_block1_schedule3:
  "schedule 8 [
      3976663423, 2020172421, 2774061449, 4163189838, 3316936525, 3380328177, 3797353322,
      1576317124, 253339849, 1282750922, 151697171, 1674805301, 393222119, 41829,
      571116948, 28311552, 469782556, 448, 502620173, 0, 13943, 0, 14155776, 0, 448, 0, 0,
      0, 0, 0, 0, 0, 0, 0, 0, 0, 0, 0, 0, 0] =
     [
      2596701352, 821826205, 1712633185, 2658453874, 3307044164, 1448087714, 957015190,
      275994870, 3976663423, 2020172421, 2774061449, 4163189838, 3316936525, 3380328177,
      3797353322, 1576317124, 253339849, 1282750922, 151697171, 1674805301, 393222119,
      41829, 571116948, 28311552, 469782556, 448, 502620173, 0, 13943, 0, 14155776, 0, 448,
      0, 0, 0, 0, 0, 0, 0, 0, 0, 0, 0, 0, 0, 0, 0]"
  by (simp add: schedule_numeral schedule_Suc_0 sigma0_def sigma1_def rotr_def
      del: schedule.simps)

lemma sha256_two_blocks_block1_schedule4:
  "schedule 8 [
      2596701352, 821826205, 1712633185, 2658453874, 3307044164, 1448087714, 957015190,
      275994870, 3976663423, 2020172421, 2774061449, 4163189838, 3316936525, 3380328177,
      3797353322, 1576317124, 253339849, 1282750922, 151697171, 1674805301, 393222119,
      41829, 571116948, 28311552, 469782556, 448, 502620173, 0, 13943, 0, 14155776, 0, 448,
      0, 0, 0, 0, 0, 0, 0, 0, 0, 0, 0, 0, 0, 0, 0] =
     [
      2111974812, 124913566, 3760382523, 1090919095, 2534651358, 2666246732, 3801151379,
      728075709, 2596701352, 821826205, 1712633185, 2658453874, 3307044164, 1448087714,
      957015190, 275994870, 3976663423, 2020172421, 2774061449, 4163189838, 3316936525,
      3380328177, 3797353322, 1576317124, 253339849, 1282750922, 151697171, 1674805301,
      393222119, 41829, 571116948, 28311552, 469782556, 448, 502620173, 0, 13943, 0,
      14155776, 0, 448, 0, 0, 0, 0, 0, 0, 0, 0, 0, 0, 0, 0, 0, 0, 0]"
  by (simp add: schedule_numeral schedule_Suc_0 sigma0_def sigma1_def rotr_def
      del: schedule.simps)

lemma sha256_two_blocks_block1_schedule5:
  "schedule 8 [
      2111974812, 124913566, 3760382523, 1090919095, 2534651358, 2666246732, 3801151379,
      728075709, 2596701352, 821826205, 1712633185, 2658453874, 3307044164, 1448087714,
      957015190, 275994870, 3976663423, 2020172421, 2774061449, 4163189838, 3316936525,
      3380328177, 3797353322, 1576317124, 253339849, 1282750922, 151697171, 1674805301,
      393222119, 41829, 571116948, 28311552, 469782556, 448, 502620173, 0, 13943, 0,
      14155776, 0, 448, 0, 0, 0, 0, 0, 0, 0, 0, 0, 0, 0, 0, 0, 0, 0] =
     [
      3103886162, 3928959610, 2185205730, 3410979526, 167996573, 3644702171, 1973917769,
      3367516024, 2111974812, 124913566, 3760382523, 1090919095, 2534651358, 2666246732,
      3801151379, 728075709, 2596701352, 821826205, 1712633185, 2658453874, 3307044164,
      1448087714, 957015190, 275994870, 3976663423, 2020172421, 2774061449, 4163189838,
      3316936525, 3380328177, 3797353322, 1576317124, 253339849, 1282750922, 151697171,
      1674805301, 393222119, 41829, 571116948, 28311552, 469782556, 448, 502620173, 0,
      13943, 0, 14155776, 0, 448, 0, 0, 0, 0, 0, 0, 0, 0, 0, 0, 0, 0, 0, 0, 0]"
  by (simp add: schedule_numeral schedule_Suc_0 sigma0_def sigma1_def rotr_def
      del: schedule.simps)

lemma sha256_two_blocks_block1_schedule:
  "rev (schedule 48 (rev [
      0, 0, 0, 0, 0, 0, 0, 0, 0, 0, 0, 0, 0, 0, 0, 448])) =
     [
      0, 0, 0, 0, 0, 0, 0, 0, 0, 0, 0, 0, 0, 0, 0, 448, 0, 14155776, 0, 13943, 0,
      502620173, 448, 469782556, 28311552, 571116948, 41829, 393222119, 1674805301,
      151697171, 1282750922, 253339849, 1576317124, 3797353322, 3380328177, 3316936525,
      4163189838, 2774061449, 2020172421, 3976663423, 275994870, 957015190, 1448087714,
      3307044164, 2658453874, 1712633185, 821826205, 2596701352, 728075709, 3801151379,
      2666246732, 2534651358, 1090919095, 3760382523, 124913566, 2111974812, 3367516024,
      1973917769, 3644702171, 167996573, 3410979526, 2185205730, 3928959610, 3103886162]"
proof -
  have "schedule 48 w = schedule 8 (schedule 8 (schedule 8 (schedule 8 (schedule 8 (schedule 8 w)))))"
    for w
    using schedule_add [of 8 40 w] schedule_add [of 8 32 "schedule 8 w"]
      schedule_add [of 8 24 "schedule 8 (schedule 8 w)"]
      schedule_add [of 8 16 "schedule 8 (schedule 8 (schedule 8 w))"]
      schedule_add [of 8 8 "schedule 8 (schedule 8 (schedule 8 (schedule 8 w)))"]
    by simp
  then show ?thesis
    by (simp add: sha256_two_blocks_block1_schedule0 sha256_two_blocks_block1_schedule1 sha256_two_blocks_block1_schedule2 sha256_two_blocks_block1_schedule3 sha256_two_blocks_block1_schedule4 sha256_two_blocks_block1_schedule5 del: schedule.simps)
qed

lemma sha256_two_blocks_block1_rounds0:
  "foldl round_step (HState 0x85e655d6 0x417a1795 0x3363376a 0x624cde5c 0x76e09589 0xcac5f811 0xcc4b32c1 0xf20e533a)
     (zip K256_rounds_0 [
      0, 0, 0, 0, 0, 0, 0, 0]) =
   HState 0xbf9a93a0 0x89bba3f1 0x3eeb6c06 0x185a5d79 0x059abdd1 0x0a34df03 0xfe20cda6 0x8dff3001"
  by (simp add: K256_rounds_0_def Sigma0_def Sigma1_def Ch_def Maj_def rotr_def Let_def)

lemma sha256_two_blocks_block1_rounds1:
  "foldl round_step (HState 0xbf9a93a0 0x89bba3f1 0x3eeb6c06 0x185a5d79 0x059abdd1 0x0a34df03 0xfe20cda6 0x8dff3001)
     (zip K256_rounds_1 [
      0, 0, 0, 0, 0, 0, 0, 448]) =
   HState 0x16a8cc79 0x0cea5cbc 0xd74080fa 0x35ee996d 0x0fcb1f6f 0x60356548 0x68aa893f 0x5c24e2a2"
  by (simp add: K256_rounds_1_def Sigma0_def Sigma1_def Ch_def Maj_def rotr_def Let_def)

lemma sha256_two_blocks_block1_rounds2:
  "foldl round_step (HState 0x16a8cc79 0x0cea5cbc 0xd74080fa 0x35ee996d 0x0fcb1f6f 0x60356548 0x68aa893f 0x5c24e2a2)
     (zip K256_rounds_2 [
      0, 14155776, 0, 13943, 0, 502620173, 448, 469782556]) =
   HState 0xa4195b91 0xf13ae55b 0xd44dc81a 0x20aad899 0xeddbd6ed 0x966aa287 0x5bace62d 0xcc4769f2"
  by (simp add: K256_rounds_2_def Sigma0_def Sigma1_def Ch_def Maj_def rotr_def Let_def)

lemma sha256_two_blocks_block1_rounds3:
  "foldl round_step (HState 0xa4195b91 0xf13ae55b 0xd44dc81a 0x20aad899 0xeddbd6ed 0x966aa287 0x5bace62d 0xcc4769f2)
     (zip K256_rounds_3 [
      28311552, 571116948, 41829, 393222119, 1674805301, 151697171, 1282750922, 253339849]) =
   HState 0xb0eab1c5 0x02ef3a5f 0x1cfa5eb0 0xd958b529 0xf6d93952 0x5da10665 0x6c49db9f 0xc2fa99b1"
  by (simp add: K256_rounds_3_def Sigma0_def Sigma1_def Ch_def Maj_def rotr_def Let_def)

lemma sha256_two_blocks_block1_rounds4:
  "foldl round_step (HState 0xb0eab1c5 0x02ef3a5f 0x1cfa5eb0 0xd958b529 0xf6d93952 0x5da10665 0x6c49db9f 0xc2fa99b1)
     (zip K256_rounds_4 [
      1576317124, 3797353322, 3380328177, 3316936525, 4163189838, 2774061449, 2020172421,
      3976663423]) =
   HState 0x221b8a5a 0xadca7a96 0xd949682b 0x2f11c939 0x0b82c5eb 0xc6cce4ff 0x32d99008 0xfed4ce1d"
  by (simp add: K256_rounds_4_def Sigma0_def Sigma1_def Ch_def Maj_def rotr_def Let_def)

lemma sha256_two_blocks_block1_rounds5:
  "foldl round_step (HState 0x221b8a5a 0xadca7a96 0xd949682b 0x2f11c939 0x0b82c5eb 0xc6cce4ff 0x32d99008 0xfed4ce1d)
     (zip K256_rounds_5 [
      275994870, 957015190, 1448087714, 3307044164, 2658453874, 1712633185, 821826205,
      2596701352]) =
   HState 0xd7354d5b 0x0b3303a7 0x104a7db4 0x0f154e11 0xaad55b6b 0xbbe1c39a 0x5348e8f6 0x6f9517cb"
  by (simp add: K256_rounds_5_def Sigma0_def Sigma1_def Ch_def Maj_def rotr_def Let_def)

lemma sha256_two_blocks_block1_rounds6:
  "foldl round_step (HState 0xd7354d5b 0x0b3303a7 0x104a7db4 0x0f154e11 0xaad55b6b 0xbbe1c39a 0x5348e8f6 0x6f9517cb)
     (zip K256_rounds_6 [
      728075709, 3801151379, 2666246732, 2534651358, 1090919095, 3760382523, 124913566,
      2111974812]) =
   HState 0x92952710 0xd9f0c115 0xec02560a 0x4eca6fa0 0x226806d6 0x624150c4 0x7151df8e 0x989ed071"
  by (simp add: K256_rounds_6_def Sigma0_def Sigma1_def Ch_def Maj_def rotr_def Let_def)

lemma sha256_two_blocks_block1_rounds7:
  "foldl round_step (HState 0x92952710 0xd9f0c115 0xec02560a 0x4eca6fa0 0x226806d6 0x624150c4 0x7151df8e 0x989ed071)
     (zip K256_rounds_7 [
      3367516024, 1973917769, 3644702171, 167996573, 3410979526, 2185205730, 3928959610,
      3103886162]) =
   HState 0x9ea7148b 0x908c2123 0xb25cef29 0xa9f181dd 0x2c5c4ed0 0x9a392956 0x2aa1bb13 0x27ccb387"
  by (simp add: K256_rounds_7_def Sigma0_def Sigma1_def Ch_def Maj_def rotr_def Let_def)

lemma sha256_two_blocks_block1_compress:
  "compress (HState 0x85e655d6 0x417a1795 0x3363376a 0x624cde5c 0x76e09589 0xcac5f811 0xcc4b32c1 0xf20e533a) ([
      0, 0, 0, 0, 0, 0, 0, 0, 0, 0, 0, 0, 0, 0, 0, 0, 0, 0, 0, 0, 0, 0, 0, 0, 0, 0, 0, 0,
      0, 0, 0, 0, 0, 0, 0, 0, 0, 0, 0, 0, 0, 0, 0, 0, 0, 0, 0, 0, 0, 0, 0, 0, 0, 0, 0, 0,
      0, 0, 0, 0, 0, 0, 1, 192] :: byte list) =
     HState 0x248d6a61 0xd20638b8 0xe5c02693 0x0c3e6039 0xa33ce459 0x64ff2167 0xf6ecedd4 0x19db06c1"
proof -
  have z: "zip K256 [
        0, 0, 0, 0, 0, 0, 0, 0, 0, 0, 0, 0, 0, 0, 0, 448, 0, 14155776, 0, 13943, 0,
        502620173, 448, 469782556, 28311552, 571116948, 41829, 393222119, 1674805301,
        151697171, 1282750922, 253339849, 1576317124, 3797353322, 3380328177, 3316936525,
        4163189838, 2774061449, 2020172421, 3976663423, 275994870, 957015190, 1448087714,
        3307044164, 2658453874, 1712633185, 821826205, 2596701352, 728075709, 3801151379,
        2666246732, 2534651358, 1090919095, 3760382523, 124913566, 2111974812, 3367516024,
        1973917769, 3644702171, 167996573, 3410979526, 2185205730, 3928959610, 3103886162] =
    zip K256_rounds_0 [
        0, 0, 0, 0, 0, 0, 0, 0] @ zip K256_rounds_1 [
        0, 0, 0, 0, 0, 0, 0, 448] @ zip K256_rounds_2 [
        0, 14155776, 0, 13943, 0, 502620173, 448, 469782556] @ zip K256_rounds_3 [
        28311552, 571116948, 41829, 393222119, 1674805301, 151697171, 1282750922, 253339849] @ zip K256_rounds_4 [
        1576317124, 3797353322, 3380328177, 3316936525, 4163189838, 2774061449, 2020172421,
        3976663423] @ zip K256_rounds_5 [
        275994870, 957015190, 1448087714, 3307044164, 2658453874, 1712633185, 821826205,
        2596701352] @ zip K256_rounds_6 [
        728075709, 3801151379, 2666246732, 2534651358, 1090919095, 3760382523, 124913566,
        2111974812] @ zip K256_rounds_7 [
        3367516024, 1973917769, 3644702171, 167996573, 3410979526, 2185205730, 3928959610,
        3103886162]"
    by (simp add: K256_unfold)
  have "foldl round_step (HState 0x85e655d6 0x417a1795 0x3363376a 0x624cde5c 0x76e09589 0xcac5f811 0xcc4b32c1 0xf20e533a) (zip K256 [
        0, 0, 0, 0, 0, 0, 0, 0, 0, 0, 0, 0, 0, 0, 0, 448, 0, 14155776, 0, 13943, 0,
        502620173, 448, 469782556, 28311552, 571116948, 41829, 393222119, 1674805301,
        151697171, 1282750922, 253339849, 1576317124, 3797353322, 3380328177, 3316936525,
        4163189838, 2774061449, 2020172421, 3976663423, 275994870, 957015190, 1448087714,
        3307044164, 2658453874, 1712633185, 821826205, 2596701352, 728075709, 3801151379,
        2666246732, 2534651358, 1090919095, 3760382523, 124913566, 2111974812, 3367516024,
        1973917769, 3644702171, 167996573, 3410979526, 2185205730, 3928959610, 3103886162]) =
     HState 0x9ea7148b 0x908c2123 0xb25cef29 0xa9f181dd 0x2c5c4ed0 0x9a392956 0x2aa1bb13 0x27ccb387"
    unfolding z foldl_append
    by (simp only: sha256_two_blocks_block1_rounds0 sha256_two_blocks_block1_rounds1 sha256_two_blocks_block1_rounds2 sha256_two_blocks_block1_rounds3 sha256_two_blocks_block1_rounds4 sha256_two_blocks_block1_rounds5 sha256_two_blocks_block1_rounds6 sha256_two_blocks_block1_rounds7)
  then show ?thesis
    unfolding compress_def sha256_two_blocks_block1_words sha256_two_blocks_block1_schedule
    by simp
qed

lemma sha256_two_blocks:
  "hexdigest (sha256 [
        97, 98, 99, 100, 98, 99, 100, 101, 99, 100, 101, 102, 100, 101, 102, 103, 101, 102,
        103, 104, 102, 103, 104, 105, 103, 104, 105, 106, 104, 105, 106, 107, 105, 106,
        107, 108, 106, 107, 108, 109, 107, 108, 109, 110, 108, 109, 110, 111, 109, 110,
        111, 112, 110, 111, 112, 113]) =
     ''248d6a61d20638b8e5c026930c3e6039a33ce45964ff2167f6ecedd419db06c1''"
proof -
  have u: "sha256 [
        97, 98, 99, 100, 98, 99, 100, 101, 99, 100, 101, 102, 100, 101, 102, 103, 101, 102,
        103, 104, 102, 103, 104, 105, 103, 104, 105, 106, 104, 105, 106, 107, 105, 106,
        107, 108, 106, 107, 108, 109, 107, 108, 109, 110, 108, 109, 110, 111, 109, 110,
        111, 112, 110, 111, 112, 113] =
      \<lparr>chain = H0, pending = [
        97, 98, 99, 100, 98, 99, 100, 101, 99, 100, 101, 102, 100, 101, 102, 103, 101, 102,
        103, 104, 102, 103, 104, 105, 103, 104, 105, 106, 104, 105, 106, 107, 105, 106,
        107, 108, 106, 107, 108, 109, 107, 108, 109, 110, 108, 109, 110, 111, 109, 110,
        111, 112, 110, 111, 112, 113], total = 56\<rparr>"
    by (simp add: sha256_def sha256_update_def sha256_new_def
        absorb.simps [of H0 "[
        97, 98, 99, 100, 98, 99, 100, 101, 99, 100, 101, 102, 100, 101, 102, 103, 101, 102,
        103, 104, 102, 103, 104, 105, 103, 104, 105, 106, 104, 105, 106, 107, 105, 106,
        107, 108, 106, 107, 108, 109, 107, 108, 109, 110, 108, 109, 110, 111, 109, 110,
        111, 112, 110, 111, 112, 113]"])
  have p: "[
        97, 98, 99, 100, 98, 99, 100, 101, 99, 100, 101, 102, 100, 101, 102, 103, 101, 102,
        103, 104, 102, 103, 104, 105, 103, 104, 105, 106, 104, 105, 106, 107, 105, 106,
        107, 108, 106, 107, 108, 109, 107, 108, 109, 110, 108, 109, 110, 111, 109, 110,
        111, 112, 110, 111, 112, 113] @ padding 56 = ([
        97, 98, 99, 100, 98, 99, 100, 101, 99, 100, 101, 102, 100, 101, 102, 103, 101, 102,
        103, 104, 102, 103, 104, 105, 103, 104, 105, 106, 104, 105, 106, 107, 105, 106,
        107, 108, 106, 107, 108, 109, 107, 108, 109, 110, 108, 109, 110, 111, 109, 110,
        111, 112, 110, 111, 112, 113, 128, 0, 0, 0, 0, 0, 0, 0, 0, 0, 0, 0, 0, 0, 0, 0, 0,
        0, 0, 0, 0, 0, 0, 0, 0, 0, 0, 0, 0, 0, 0, 0, 0, 0, 0, 0, 0, 0, 0, 0, 0, 0, 0, 0, 0,
        0, 0, 0, 0, 0, 0, 0, 0, 0, 0, 0, 0, 0, 0, 0, 0, 0, 0, 0, 0, 0, 0, 0, 0, 0, 1, 192] :: byte list)"
    by (simp add: sha256_two_blocks_padding)
  have d: "absorb (HState 0x6a09e667 0xbb67ae85 0x3c6ef372 0xa54ff53a 0x510e527f 0x9b05688c 0x1f83d9ab 0x5be0cd19)
      ([
        97, 98, 99, 100, 98, 99, 100, 101, 99, 100, 101, 102, 100, 101, 102, 103, 101, 102,
        103, 104, 102, 103, 104, 105, 103, 104, 105, 106, 104, 105, 106, 107, 105, 106,
        107, 108, 106, 107, 108, 109, 107, 108, 109, 110, 108, 109, 110, 111, 109, 110,
        111, 112, 110, 111, 112, 113, 128, 0, 0, 0, 0, 0, 0, 0, 0, 0, 0, 0, 0, 0, 0, 0, 0,
        0, 0, 0, 0, 0, 0, 0, 0, 0, 0, 0, 0, 0, 0, 0, 0, 0, 0, 0, 0, 0, 0, 0, 0, 0, 0, 0, 0,
        0, 0, 0, 0, 0, 0, 0, 0, 0, 0, 0, 0, 0, 0, 0, 0, 0, 0, 0, 0, 0, 0, 0, 0, 0, 1, 192] :: byte list) =
      (HState 0x248d6a61 0xd20638b8 0xe5c02693 0x0c3e6039 0xa33ce459 0x64ff2167 0xf6ecedd4 0x19db06c1, [])"
    by (simp add: absorb.simps [of "HState 0x6a09e667 0xbb67ae85 0x3c6ef372 0xa54ff53a 0x510e527f 0x9b05688c 0x1f83d9ab 0x5be0cd19" "[
        97, 98, 99, 100, 98, 99, 100, 101, 99, 100, 101, 102, 100, 101, 102, 103, 101, 102,
        103, 104, 102, 103, 104, 105, 103, 104, 105, 106, 104, 105, 106, 107, 105, 106,
        107, 108, 106, 107, 108, 109, 107, 108, 109, 110, 108, 109, 110, 111, 109, 110,
        111, 112, 110, 111, 112, 113, 128, 0, 0, 0, 0, 0, 0, 0, 0, 0, 0, 0, 0, 0, 0, 0, 0,
        0, 0, 0, 0, 0, 0, 0, 0, 0, 0, 0, 0, 0, 0, 0, 0, 0, 0, 0, 0, 0, 0, 0, 0, 0, 0, 0, 0,
        0, 0, 0, 0, 0, 0, 0, 0, 0, 0, 0, 0, 0, 0, 0, 0, 0, 0, 0, 0, 0, 0, 0, 0, 0, 1, 192]"]
        absorb.simps [of "HState 0x85e655d6 0x417a1795 0x3363376a 0x624cde5c 0x76e09589 0xcac5f811 0xcc4b32c1 0xf20e533a" "[
        0, 0, 0, 0, 0, 0, 0, 0, 0, 0, 0, 0, 0, 0, 0, 0, 0, 0, 0, 0, 0, 0, 0, 0, 0, 0, 0, 0,
        0, 0, 0, 0, 0, 0, 0, 0, 0, 0, 0, 0, 0, 0, 0, 0, 0, 0, 0, 0, 0, 0, 0, 0, 0, 0, 0, 0,
        0, 0, 0, 0, 0, 0, 1, 192]"]
        absorb.simps [of "HState 0x248d6a61 0xd20638b8 0xe5c02693 0x0c3e6039 0xa33ce459 0x64ff2167 0xf6ecedd4 0x19db06c1" "[]"]
        sha256_two_blocks_block0_compress sha256_two_blocks_block1_compress)
  have e: "sha256_digest (sha256 [
        97, 98, 99, 100, 98, 99, 100, 101, 99, 100, 101, 102, 100, 101, 102, 103, 101, 102,
        103, 104, 102, 103, 104, 105, 103, 104, 105, 106, 104, 105, 106, 107, 105, 106,
        107, 108, 106, 107, 108, 109, 107, 108, 109, 110, 108, 109, 110, 111, 109, 110,
        111, 112, 110, 111, 112, 113]) =
      state_bytes (fst (absorb H0 ([
        97, 98, 99, 100, 98, 99, 100, 101, 99, 100, 101, 102, 100, 101, 102, 103, 101, 102,
        103, 104, 102, 103, 104, 105, 103, 104, 105, 106, 104, 105, 106, 107, 105, 106,
        107, 108, 106, 107, 108, 109, 107, 108, 109, 110, 108, 109, 110, 111, 109, 110,
        111, 112, 110, 111, 112, 113] @ padding 56)))"
    unfolding sha256_digest_def u by (simp del: append.simps)
  have "sha256_digest (sha256 [
        97, 98, 99, 100, 98, 99, 100, 101, 99, 100, 101, 102, 100, 101, 102, 103, 101, 102,
        103, 104, 102, 103, 104, 105, 103, 104, 105, 106, 104, 105, 106, 107, 105, 106,
        107, 108, 106, 107, 108, 109, 107, 108, 109, 110, 108, 109, 110, 111, 109, 110,
        111, 112, 110, 111, 112, 113]) =
      state_bytes (HState 0x248d6a61 0xd20638b8 0xe5c02693 0x0c3e6039 0xa33ce459 0x64ff2167 0xf6ecedd4 0x19db06c1)"
    unfolding e p H0_def d by simp
  then show ?thesis
    unfolding hexdigest_def
    by (simp add: word_bytes_def hex_byte_def hex_digit_def hexdigits_def)
qed

section \<open>Streaming and whole-body hashing\<close>

text \<open>
  Claim C8: for every byte sequence split into any sequence of chunks, the incremental
  hashing of \<open>download_and_hash\<close> (a new hash object that takes the chunks one by one,
  lines 52 to 56) yields the same hex digest as the one-shot \<open>hashlib.sha256(content)\<close> of
  the Hash Reporter over the concatenation of the chunks. Both are the SHA-256 of the
  standard, \<open>sha256_spec\<close>, on the whole content.
\<close>

theorem streamed_digest_is_whole_body_digest:
  "hexdigest (hash_chunks sha256_new chunks) = hexdigest (sha256 (concat chunks))
   \<and> hexdigest (hash_chunks sha256_new chunks) = sha256_spec (concat chunks)
   \<and> (asset_chunks w url = Some chunks \<longrightarrow>
        fst (download_and_hash w url s) = Some (hexdigest (sha256 (concat chunks))))"
  by (simp add: hash_chunks_new hexdigest_sha256 download_and_hash_def)

theorem streamed_digest_is_whole_body_digest_witness:
  "fst (download_and_hash example_world (JString ''https://example.org/first.zip'')
          (example_start ''old''))
     = Some (hexdigest (sha256 [1, 2, 3]))"
  using streamed_digest_is_whole_body_digest
    [of "[[1, 2], [3]]" example_world "JString ''https://example.org/first.zip''"
        "example_start ''old''"]
  by (simp add: example_world_def)

section \<open>Resolving the assets of a release\<close>

lemma match_arch_string:
  "match_arch ARCH_MAPPINGS (JString name) =
     Inr (if endswith name ''.zip'' then
            (if str_contains ''x86_64-windows'' name then Some ''64bit''
             else if str_contains ''x86-windows-gnu'' name then Some ''32bit''
             else if str_contains ''aarch64-windows'' name then Some ''arm64''
             else None)
          else None)"
  by (simp add: ARCH_MAPPINGS_def)

lemma resolve_asset_string:
  assumes "subscript asset ''name'' = Inr (JString name)"
    and "subscript asset ''browser_download_url'' = Inr url"
  shows "resolve_asset asset =
     Inr (if endswith name ''.zip'' then
            (if str_contains ''x86_64-windows'' name then Some (''64bit'', url)
             else if str_contains ''x86-windows-gnu'' name then Some (''32bit'', url)
             else if str_contains ''aarch64-windows'' name then Some (''arm64'', url)
             else None)
          else None)"
  using assms by (simp add: resolve_asset_def match_arch_string)

lemma urls_for_Cons:
  "urls_for label (a # rest) =
     (case resolve_asset a of
        Inr (Some (l, u)) \<Rightarrow> if l = label then [u] else []
      | _ \<Rightarrow> []) @ urls_for label rest"
  by (simp add: urls_for_def)

lemma scan_assets_map_of:
  assumes "\<forall>a\<in>set assets. \<exists>r. resolve_asset a = Inr r"
  shows "\<exists>urls. scan_assets assets acc = Inr urls
           \<and> (distinct (map fst acc) \<longrightarrow> distinct (map fst urls))
           \<and> (\<forall>label. map_of urls label =
                 (if urls_for label assets = [] then map_of acc label
                  else Some (last (urls_for label assets))))"
  using assms
proof (induction assets arbitrary: acc)
  case Nil
  then show ?case by (simp add: urls_for_def)
next
  case (Cons a rest)
  then obtain r where r: "resolve_asset a = Inr r" by auto
  from Cons.prems have rest: "\<forall>a\<in>set rest. \<exists>r. resolve_asset a = Inr r" by simp
  show ?case
  proof (cases r)
    case None
    from Cons.IH [OF rest, of acc] obtain urls where
      u: "scan_assets rest acc = Inr urls"
         "distinct (map fst acc) \<longrightarrow> distinct (map fst urls)"
         "\<forall>label. map_of urls label =
            (if urls_for label rest = [] then map_of acc label
             else Some (last (urls_for label rest)))"
      by blast
    show ?thesis
      using r None u by (auto simp: urls_for_Cons)
  next
    case (Some p)
    obtain l u where p: "p = (l, u)" by (cases p)
    from Cons.IH [OF rest, of "AList.update l u acc"] obtain urls where
      u: "scan_assets rest (AList.update l u acc) = Inr urls"
         "distinct (map fst (AList.update l u acc)) \<longrightarrow> distinct (map fst urls)"
         "\<forall>label. map_of urls label =
            (if urls_for label rest = [] then map_of (AList.update l u acc) label
             else Some (last (urls_for label rest)))"
      by blast
    show ?thesis
      using r Some p u by (auto simp: urls_for_Cons distinct_update update_conv')
  qed
qed

lemma example_assets_resolve:
  "map resolve_asset example_assets =
     [Inr (Some (''64bit'', JString ''https://example.org/first.zip'')),
      Inr (Some (''arm64'', JString ''https://example.org/arm.zip'')),
      Inr (Some (''64bit'', JString ''https://example.org/second.zip'')),
      Inr None, Inr None]"
  by (simp add: example_assets_def resolve_asset_def ARCH_MAPPINGS_def endswith_def)

lemma example_find_asset_urls:
  "find_asset_urls example_release version =
     Inr [(''64bit'', JString ''https://example.org/second.zip''),
          (''arm64'', JString ''https://example.org/arm.zip'')]"
  using example_assets_resolve
  by (simp add: find_asset_urls_def example_release_def example_assets_def)

lemma example_urls_for:
  "urls_for ''64bit'' example_assets =
     [JString ''https://example.org/first.zip'', JString ''https://example.org/second.zip'']"
  "urls_for ''arm64'' example_assets = [JString ''https://example.org/arm.zip'']"
  "urls_for ''32bit'' example_assets = []"
  by (simp_all add: urls_for_def example_assets_def resolve_asset_def ARCH_MAPPINGS_def
      endswith_def)

lemma resolved_labels_Cons:
  "resolved_labels (a # rest) =
     (case resolve_asset a of Inr (Some (l, u)) \<Rightarrow> [l] | _ \<Rightarrow> []) @ resolved_labels rest"
  by (simp add: resolved_labels_def)

lemma filter_filter_absorb:
  "l \<in> A \<Longrightarrow> filter (\<lambda>x. x \<noteq> l \<and> x \<notin> A) xs = filter (\<lambda>x. x \<notin> A) xs"
  by (induction xs) auto

lemma keys_update: "fst ` set (AList.update l u acc) = insert l (fst ` set acc)"
  by (induction acc) auto

lemma scan_assets_keys:
  "scan_assets assets acc = Inr urls \<Longrightarrow>
     map fst urls =
       map fst acc @ filter (\<lambda>l. l \<notin> fst ` set acc) (first_occurrences (resolved_labels assets))"
proof (induction assets arbitrary: acc)
  case Nil
  then show ?case by (simp add: resolved_labels_def)
next
  case (Cons a rest)
  show ?case
  proof (cases "resolve_asset a")
    case (Inl e)
    with Cons.prems show ?thesis by simp
  next
    case (Inr r)
    show ?thesis
    proof (cases r)
      case None
      with Inr Cons.prems have "scan_assets rest acc = Inr urls" by simp
      from Cons.IH [OF this] Inr None show ?thesis
        by (simp add: resolved_labels_Cons)
    next
      case (Some p)
      obtain l u where p: "p = (l, u)" by (cases p)
      with Inr Some Cons.prems have sc: "scan_assets rest (AList.update l u acc) = Inr urls"
        by simp
      have rl: "resolved_labels (a # rest) = l # resolved_labels rest"
        using Inr Some p by (simp add: resolved_labels_Cons)
      show ?thesis
      proof (cases "l \<in> fst ` set acc")
        case True
        then have k: "map fst (AList.update l u acc) = map fst acc"
          "fst ` set (AList.update l u acc) = fst ` set acc"
          by (auto simp: update_keys keys_update)
        from Cons.IH [OF sc] k True show ?thesis
          by (simp add: rl filter_filter_absorb)
      next
        case False
        then have k: "map fst (AList.update l u acc) = map fst acc @ [l]"
          by (simp add: update_keys)
        have k2: "fst ` set (AList.update l u acc) = insert l (fst ` set acc)"
          by (rule keys_update)
        have "filter (\<lambda>x. x \<notin> insert l (fst ` set acc)) xs
              = filter (\<lambda>x. x \<notin> fst ` set acc) (filter (\<lambda>y. y \<noteq> l) xs)" for xs
          by (induction xs) auto
        with Cons.IH [OF sc] k k2 False show ?thesis
          by (simp add: rl)
      qed
    qed
  qed
qed

lemma distinct_alist_eq:
  "distinct (map fst xs) \<Longrightarrow> xs = map (\<lambda>k. (k, the (map_of xs k))) (map fst xs)"
proof (induction xs)
  case Nil
  show ?case by simp
next
  case (Cons x xs)
  obtain k v where x: "x = (k, v)" by (cases x)
  from Cons.prems x have nk: "k \<notin> fst ` set xs" by auto
  have "map (\<lambda>k'. (k', the (map_of ((k, v) # xs) k'))) (map fst xs)
        = map (\<lambda>k'. (k', the (map_of xs k'))) (map fst xs)"
    using nk by (intro map_cong) (auto simp: image_iff)
  with Cons x show ?case by simp
qed

lemma example_resolved_labels:
  "resolved_labels example_assets = [''64bit'', ''arm64'', ''64bit'']"
  by (simp add: resolved_labels_def example_assets_def resolve_asset_def ARCH_MAPPINGS_def
      endswith_def)

text \<open>
  Claim C1, as the specification words it: each asset resolves to at most one label, by the
  first key of the table that is in its name, and only when the name ends with \<open>.zip\<close>;
  and the first URL resolved for a label is kept, a later asset for the same label being
  ignored. The last part fails: line 91 assigns \<open>urls[scoop_arch] = download_url\<close> for
  every asset that resolves, so a later asset replaces the URL. In the example release the
  first and the third asset both resolve to \<open>64bit\<close>, and the URL stored is the third's.
\<close>

theorem first_url_kept_counterexample:
  "urls_for ''64bit'' example_assets =
     [JString ''https://example.org/first.zip'', JString ''https://example.org/second.zip'']
   \<and> find_asset_urls example_release ''0.10.0'' =
       Inr [(''64bit'', JString ''https://example.org/second.zip''),
            (''arm64'', JString ''https://example.org/arm.zip'')]
   \<and> find_asset_urls example_release ''0.10.0'' \<noteq>
       Inr [(''64bit'', JString ''https://example.org/first.zip''),
            (''arm64'', JString ''https://example.org/arm.zip'')]"
  by (simp add: example_find_asset_urls example_urls_for)

text \<open>
  Claim C1, amended: for every release whose assets are objects with a string name and a
  download URL, \<open>find_asset_urls\<close> returns a mapping with one entry per label, the labels
  in the order in which an asset first resolves to them, in which each label holds the URL
  of the last asset that resolves to it (a later match replaces the stored URL and the
  label keeps its position); and an asset resolves to at most one label: none unless its
  name ends with \<open>.zip\<close>, otherwise the label of the first key of the table, in table
  order, that occurs in the name.
\<close>

theorem find_asset_urls_keeps_last_url:
  assumes "dict_get release ''assets'' (JArray []) = Inr (JArray assets)"
    and "\<forall>a\<in>set assets. \<exists>name url. subscript a ''name'' = Inr (JString name)
           \<and> subscript a ''browser_download_url'' = Inr url"
  shows "\<exists>urls. find_asset_urls release version = Inr urls
           \<and> urls = map (\<lambda>label. (label, last (urls_for label assets)))
                      (first_occurrences (resolved_labels assets))
           \<and> map fst urls = first_occurrences (resolved_labels assets)
           \<and> distinct (map fst urls)
           \<and> (\<forall>label. map_of urls label =
                 (if urls_for label assets = [] then None
                  else Some (last (urls_for label assets))))
           \<and> (\<forall>a\<in>set assets. \<forall>name url.
                 subscript a ''name'' = Inr (JString name)
                 \<and> subscript a ''browser_download_url'' = Inr url \<longrightarrow>
                 resolve_asset a =
                   Inr (if endswith name ''.zip'' then
                          (if str_contains ''x86_64-windows'' name then Some (''64bit'', url)
                           else if str_contains ''x86-windows-gnu'' name then Some (''32bit'', url)
                           else if str_contains ''aarch64-windows'' name then Some (''arm64'', url)
                           else None)
                        else None))"
proof -
  from assms(2) have ok: "\<forall>a\<in>set assets. \<exists>r. resolve_asset a = Inr r"
    using resolve_asset_string by blast
  from scan_assets_map_of [OF ok, of "[]"] obtain urls where
    u: "scan_assets assets [] = Inr urls" "distinct (map fst urls)"
       "\<forall>label. map_of urls label =
          (if urls_for label assets = [] then None else Some (last (urls_for label assets)))"
    by auto
  from scan_assets_keys [OF u(1)]
  have keys: "map fst urls = first_occurrences (resolved_labels assets)"
    by simp
  have "the (map_of urls k) = last (urls_for k assets)" if "k \<in> set (map fst urls)" for k
  proof -
    from that have "map_of urls k \<noteq> None"
      by (simp add: map_of_eq_None_iff)
    with u(3) show ?thesis
      by (auto split: if_splits)
  qed
  then have "map (\<lambda>k. (k, the (map_of urls k))) (map fst urls)
             = map (\<lambda>k. (k, last (urls_for k assets))) (map fst urls)"
    by (intro map_cong) auto
  with distinct_alist_eq [OF u(2)] keys
  have exact: "urls = map (\<lambda>label. (label, last (urls_for label assets)))
                      (first_occurrences (resolved_labels assets))"
    by simp
  from assms(1) u(1) have f: "find_asset_urls release version = Inr urls"
    by (simp add: find_asset_urls_def)
  show ?thesis
  proof (intro exI [of _ urls] conjI)
    show "find_asset_urls release version = Inr urls" by (rule f)
    show "urls = map (\<lambda>label. (label, last (urls_for label assets)))
                      (first_occurrences (resolved_labels assets))" by (rule exact)
    show "map fst urls = first_occurrences (resolved_labels assets)" by (rule keys)
    show "distinct (map fst urls)" by (rule u(2))
    show "\<forall>label. map_of urls label =
                 (if urls_for label assets = [] then None
                  else Some (last (urls_for label assets)))" by (rule u(3))
    show "\<forall>a\<in>set assets. \<forall>name url.
                 subscript a ''name'' = Inr (JString name)
                 \<and> subscript a ''browser_download_url'' = Inr url \<longrightarrow>
                 resolve_asset a =
                   Inr (if endswith name ''.zip'' then
                          (if str_contains ''x86_64-windows'' name then Some (''64bit'', url)
                           else if str_contains ''x86-windows-gnu'' name then Some (''32bit'', url)
                           else if str_contains ''aarch64-windows'' name then Some (''arm64'', url)
                           else None)
                        else None)"
      using resolve_asset_string by blast
  qed
qed

theorem find_asset_urls_keeps_last_url_witness:
  "find_asset_urls example_release ''0.10.0'' =
     Inr [(''64bit'', JString ''https://example.org/second.zip''),
          (''arm64'', JString ''https://example.org/arm.zip'')]
   \<and> first_occurrences (resolved_labels example_assets) = [''64bit'', ''arm64'']
   \<and> resolve_asset (example_assets ! 2)
         = Inr (Some (''64bit'', JString ''https://example.org/second.zip''))"
proof -
  have h1: "dict_get example_release ''assets'' (JArray []) = Inr (JArray example_assets)"
    by (simp add: example_release_def)
  have h2: "\<forall>a\<in>set example_assets. \<exists>name url. subscript a ''name'' = Inr (JString name)
              \<and> subscript a ''browser_download_url'' = Inr url"
    by (simp add: example_assets_def)
  have h3: "resolve_asset (example_assets ! 2)
              = Inr (Some (''64bit'', JString ''https://example.org/second.zip''))"
    by (simp add: example_assets_def resolve_asset_def ARCH_MAPPINGS_def endswith_def)
  have h4: "first_occurrences (resolved_labels example_assets) = [''64bit'', ''arm64'']"
    by (simp add: example_resolved_labels)
  from find_asset_urls_keeps_last_url [OF h1 h2, of "''0.10.0''"] obtain urls where
    "find_asset_urls example_release ''0.10.0'' = Inr urls"
    "urls = map (\<lambda>label. (label, last (urls_for label example_assets)))
                      (first_occurrences (resolved_labels example_assets))"
    by blast
  with h3 h4 show ?thesis
    by (simp add: example_urls_for)
qed

section \<open>The output of the Hash Reporter\<close>

lemma newline_not_hexdigit: "CHR 0x0A \<notin> set hexdigits"
  by (simp add: hexdigits_def)

lemma hex_digit_not_newline: "n < 16 \<Longrightarrow> hex_digit n \<noteq> CHR 0x0A"
  using hex_digit_range [of n] newline_not_hexdigit by auto

lemma escape_char_no_newline: "CHR 0x0A \<notin> set (escape_char c)"
proof -
  have "(of_char c :: nat) div 16 < 16"
    by (rule less_mult_imp_div_less) simp
  moreover have "(of_char c :: nat) mod 16 < 16"
    by (rule mod_less_divisor) simp
  ultimately
  have "hex_digit (of_char c div 16) \<noteq> CHR 0x0A" "hex_digit (of_char c mod 16) \<noteq> CHR 0x0A"
    by (simp_all only: hex_digit_not_newline not_False_eq_True)
  then show ?thesis
    unfolding escape_char_def by (simp del: of_char_eq_iff)
qed

lemma dumps_str_no_newline: "CHR 0x0A \<notin> set (dumps_str s)"
  using escape_char_no_newline by (simp add: dumps_str_def)

lemma join_no_newline:
  "CHR 0x0A \<notin> set sep \<Longrightarrow> \<forall>x\<in>set xs. CHR 0x0A \<notin> set x \<Longrightarrow> CHR 0x0A \<notin> set (join sep xs)"
  by (induction sep xs rule: join.induct) simp_all

lemma dumps_dict_no_newline:
  assumes "\<And>v. CHR 0x0A \<notin> set (dumps_value v)"
  shows "CHR 0x0A \<notin> set (dumps_dict dumps_value d)"
proof -
  have "CHR 0x0A \<notin> set (join '', ''
          (map (\<lambda>kv. dumps_str (fst kv) @ '': '' @ dumps_value (snd kv)) d))"
    by (rule join_no_newline) (simp_all add: dumps_str_no_newline assms)
  then show ?thesis
    by (simp add: dumps_dict_def)
qed

lemma json_dumps_no_newline: "CHR 0x0A \<notin> set (json_dumps output)"
  unfolding json_dumps_def
  by (intro dumps_dict_no_newline dumps_str_no_newline)

lemma links_nth:
  "links ! 0 = ''https://github.com/Mustafif/MufiZ/releases/download/next-experimental/mufiz_0.10.0_x86_64-windows.zip''"
  "links ! 1 = ''https://github.com/Mustafif/MufiZ/releases/download/next-experimental/mufiz_0.10.0_x86-windows-gnu.zip''"
  "links ! 2 = ''https://github.com/Mustafif/MufiZ/releases/download/next-experimental/mufiz_0.10.0_aarch64-windows.zip''"
  "length links = 3"
  by (simp_all add: links_def TAG_def VERSION_def)

lemma enumerate_links: "enumerate 0 links = [(0, links ! 0), (1, links ! 1), (2, links ! 2)]"
  by (simp add: links_def)

lemma hashes_main_eq:
  "hashes_main requests_get =
     (case requests_get (links ! 0) of
        None \<Rightarrow> None
      | Some b0 \<Rightarrow>
          (case requests_get (links ! 1) of
             None \<Rightarrow> None
           | Some b1 \<Rightarrow>
               (case requests_get (links ! 2) of
                  None \<Rightarrow> None
                | Some b2 \<Rightarrow>
                    Some (json_dumps
                      [(''64bit'', [(''url'', links ! 0), (''hash'', hexdigest (sha256 b0))]),
                       (''32bit'', [(''url'', links ! 1), (''hash'', hexdigest (sha256 b1))]),
                       (''arm64'', [(''url'', links ! 2), (''hash'', hexdigest (sha256 b2))])]))))"
  unfolding hashes_main_def enumerate_links
  by (simp split: option.splits)

lemma escape_char_hexdigit: "c \<in> set hexdigits \<Longrightarrow> escape_char c = [c]"
  by (auto simp: hexdigits_def escape_char_def)

lemma concat_escape_plain:
  "\<forall>c\<in>set s. escape_char c = [c] \<Longrightarrow> concat (map escape_char s) = s"
  by (induction s) simp_all

lemma dumps_str_plain:
  "\<forall>c\<in>set s. escape_char c = [c] \<Longrightarrow> dumps_str s = CHR 0x22 # s @ [CHR 0x22]"
  by (simp add: dumps_str_def concat_escape_plain)

lemma dumps_str_hexdigest:
  "dumps_str (hexdigest hs) = CHR 0x22 # hexdigest hs @ [CHR 0x22]"
  using hexdigest_chars [of hs] escape_char_hexdigit
  by (intro dumps_str_plain) auto

lemma links_explicit:
  "links =
    [''https://github.com/Mustafif/MufiZ/releases/download/next-experimental/mufiz_0.10.0_x86_64-windows.zip'',
     ''https://github.com/Mustafif/MufiZ/releases/download/next-experimental/mufiz_0.10.0_x86-windows-gnu.zip'',
     ''https://github.com/Mustafif/MufiZ/releases/download/next-experimental/mufiz_0.10.0_aarch64-windows.zip'']"
  by (simp add: links_def TAG_def VERSION_def)

lemma dumps_str_keys:
  "dumps_str ''64bit'' = CHR 0x22 # ''64bit'' @ [CHR 0x22]"
  "dumps_str ''32bit'' = CHR 0x22 # ''32bit'' @ [CHR 0x22]"
  "dumps_str ''arm64'' = CHR 0x22 # ''arm64'' @ [CHR 0x22]"
  "dumps_str ''url'' = CHR 0x22 # ''url'' @ [CHR 0x22]"
  "dumps_str ''hash'' = CHR 0x22 # ''hash'' @ [CHR 0x22]"
  by (simp_all add: dumps_str_def escape_char_def)

lemma links_plain:
  "\<forall>c\<in>set (links ! 0). escape_char c = [c]"
  "\<forall>c\<in>set (links ! 1). escape_char c = [c]"
  "\<forall>c\<in>set (links ! 2). escape_char c = [c]"
  by (simp_all add: links_explicit escape_char_def)

lemma json_dumps_report:
  assumes "\<forall>c\<in>set l0. escape_char c = [c]"
    and "\<forall>c\<in>set l1. escape_char c = [c]"
    and "\<forall>c\<in>set l2. escape_char c = [c]"
  shows "json_dumps
     [(''64bit'', [(''url'', l0), (''hash'', hexdigest h0)]),
      (''32bit'', [(''url'', l1), (''hash'', hexdigest h1)]),
      (''arm64'', [(''url'', l2), (''hash'', hexdigest h2)])] =
   (let q = CHR 0x22 in
    ''{'' @ q # ''64bit'' @ q # '': {'' @ q # ''url'' @ q # '': '' @ q # l0 @ q # '', ''
          @ q # ''hash'' @ q # '': '' @ q # hexdigest h0 @ q # ''}, ''
        @ q # ''32bit'' @ q # '': {'' @ q # ''url'' @ q # '': '' @ q # l1 @ q # '', ''
          @ q # ''hash'' @ q # '': '' @ q # hexdigest h1 @ q # ''}, ''
        @ q # ''arm64'' @ q # '': {'' @ q # ''url'' @ q # '': '' @ q # l2 @ q # '', ''
          @ q # ''hash'' @ q # '': '' @ q # hexdigest h2 @ q # ''}}'')"
  by (simp add: json_dumps_def dumps_dict_def dumps_str_keys dumps_str_hexdigest
      dumps_str_plain [OF assms(1)] dumps_str_plain [OF assms(2)] dumps_str_plain [OF assms(3)]
      Let_def)

text \<open>
  Claim C7: what the Hash Reporter prints is a single-line JSON object with exactly the keys
  \<open>64bit\<close>, \<open>32bit\<close> and \<open>arm64\<close>, in that order, the key being given by the position
  of the URL in the fixed list of three; each value holds the URL, which is not empty, and
  the SHA-256 digest of the whole response body, 64 hexadecimal characters. The script
  prints exactly when none of the three requests raised, and then the text is the one
  written out below, character by character (\<open>q\<close> is the double quote). The digest is
  that of the standard: it meets the definition on the padded message and the two test
  vectors.
\<close>

theorem hash_reporter_output:
  "hashes_main requests_get =
     (case requests_get (links ! 0) of
        None \<Rightarrow> None
      | Some b0 \<Rightarrow>
          (case requests_get (links ! 1) of
             None \<Rightarrow> None
           | Some b1 \<Rightarrow>
               (case requests_get (links ! 2) of
                  None \<Rightarrow> None
                | Some b2 \<Rightarrow>
                    Some (let q = CHR 0x22 in
       ''{'' @ q # ''64bit'' @ q # '': {'' @ q # ''url'' @ q # '': '' @ q # links ! 0 @ q # '', ''
             @ q # ''hash'' @ q # '': '' @ q # hexdigest (sha256 b0) @ q # ''}, ''
           @ q # ''32bit'' @ q # '': {'' @ q # ''url'' @ q # '': '' @ q # links ! 1 @ q # '', ''
             @ q # ''hash'' @ q # '': '' @ q # hexdigest (sha256 b1) @ q # ''}, ''
           @ q # ''arm64'' @ q # '': {'' @ q # ''url'' @ q # '': '' @ q # links ! 2 @ q # '', ''
             @ q # ''hash'' @ q # '': '' @ q # hexdigest (sha256 b2) @ q # ''}}''))))
   \<and> links =
     [''https://github.com/Mustafif/MufiZ/releases/download/next-experimental/mufiz_0.10.0_x86_64-windows.zip'',
      ''https://github.com/Mustafif/MufiZ/releases/download/next-experimental/mufiz_0.10.0_x86-windows-gnu.zip'',
      ''https://github.com/Mustafif/MufiZ/releases/download/next-experimental/mufiz_0.10.0_aarch64-windows.zip'']
   \<and> (hashes_main requests_get = Some text \<longrightarrow> CHR 0x0A \<notin> set text)
   \<and> length (hexdigest (sha256 body)) = 64
   \<and> set (hexdigest (sha256 body)) \<subseteq> set ''0123456789abcdef''
   \<and> hexdigest (sha256 body) = sha256_spec body
   \<and> hexdigest (sha256 [0x61, 0x62, 0x63]) =
       ''ba7816bf8f01cfea414140de5dae2223b00361a396177a9cb410ff61f20015ad''
   \<and> hexdigest (sha256 [
        0x61, 0x62, 0x63, 0x64, 0x62, 0x63, 0x64, 0x65, 0x63, 0x64, 0x65, 0x66, 0x64, 0x65,
        0x66, 0x67, 0x65, 0x66, 0x67, 0x68, 0x66, 0x67, 0x68, 0x69, 0x67, 0x68, 0x69, 0x6a,
        0x68, 0x69, 0x6a, 0x6b, 0x69, 0x6a, 0x6b, 0x6c, 0x6a, 0x6b, 0x6c, 0x6d, 0x6b, 0x6c,
        0x6d, 0x6e, 0x6c, 0x6d, 0x6e, 0x6f, 0x6d, 0x6e, 0x6f, 0x70, 0x6e, 0x6f, 0x70, 0x71]) =
       ''248d6a61d20638b8e5c026930c3e6039a33ce45964ff2167f6ecedd419db06c1''"
proof -
  have "CHR 0x0A \<notin> set text" if "hashes_main requests_get = Some text"
    using that json_dumps_no_newline by (auto simp: hashes_main_def)
  moreover have "hashes_main requests_get =
     (case requests_get (links ! 0) of
        None \<Rightarrow> None
      | Some b0 \<Rightarrow>
          (case requests_get (links ! 1) of
             None \<Rightarrow> None
           | Some b1 \<Rightarrow>
               (case requests_get (links ! 2) of
                  None \<Rightarrow> None
                | Some b2 \<Rightarrow>
                    Some (let q = CHR 0x22 in
       ''{'' @ q # ''64bit'' @ q # '': {'' @ q # ''url'' @ q # '': '' @ q # links ! 0 @ q # '', ''
             @ q # ''hash'' @ q # '': '' @ q # hexdigest (sha256 b0) @ q # ''}, ''
           @ q # ''32bit'' @ q # '': {'' @ q # ''url'' @ q # '': '' @ q # links ! 1 @ q # '', ''
             @ q # ''hash'' @ q # '': '' @ q # hexdigest (sha256 b1) @ q # ''}, ''
           @ q # ''arm64'' @ q # '': {'' @ q # ''url'' @ q # '': '' @ q # links ! 2 @ q # '', ''
             @ q # ''hash'' @ q # '': '' @ q # hexdigest (sha256 b2) @ q # ''}}''))))"
    unfolding hashes_main_eq
    by (simp only: json_dumps_report [OF links_plain])
  moreover have "set (hexdigest (sha256 body)) \<subseteq> set ''0123456789abcdef''"
    using hexdigest_chars [of "sha256 body"] by (simp only: hexdigits_def)
  moreover note links_explicit length_hexdigest [of "sha256 body"] hexdigest_sha256 [of body]
    sha256_abc sha256_two_blocks
  ultimately show ?thesis
    by (intro conjI impI)
qed

theorem hash_reporter_output_witness:
  "hashes_main (\<lambda>link. Some [0x61, 0x62, 0x63]) =
     Some (let q = CHR 0x22 in
       ''{'' @ q # ''64bit'' @ q # '': {'' @ q # ''url'' @ q # '': '' @ q # links ! 0 @ q # '', ''
             @ q # ''hash'' @ q # '': '' @ q # ''ba7816bf8f01cfea414140de5dae2223b00361a396177a9cb410ff61f20015ad'' @ q # ''}, ''
           @ q # ''32bit'' @ q # '': {'' @ q # ''url'' @ q # '': '' @ q # links ! 1 @ q # '', ''
             @ q # ''hash'' @ q # '': '' @ q # ''ba7816bf8f01cfea414140de5dae2223b00361a396177a9cb410ff61f20015ad'' @ q # ''}, ''
           @ q # ''arm64'' @ q # '': {'' @ q # ''url'' @ q # '': '' @ q # links ! 2 @ q # '', ''
             @ q # ''hash'' @ q # '': '' @ q # ''ba7816bf8f01cfea414140de5dae2223b00361a396177a9cb410ff61f20015ad'' @ q # ''}}'')
   \<and> CHR 0x0A \<notin> set (let q = CHR 0x22 in
       ''{'' @ q # ''64bit'' @ q # '': {'' @ q # ''url'' @ q # '': '' @ q # links ! 0 @ q # '', ''
             @ q # ''hash'' @ q # '': '' @ q # ''ba7816bf8f01cfea414140de5dae2223b00361a396177a9cb410ff61f20015ad'' @ q # ''}, ''
           @ q # ''32bit'' @ q # '': {'' @ q # ''url'' @ q # '': '' @ q # links ! 1 @ q # '', ''
             @ q # ''hash'' @ q # '': '' @ q # ''ba7816bf8f01cfea414140de5dae2223b00361a396177a9cb410ff61f20015ad'' @ q # ''}, ''
           @ q # ''arm64'' @ q # '': {'' @ q # ''url'' @ q # '': '' @ q # links ! 2 @ q # '', ''
             @ q # ''hash'' @ q # '': '' @ q # ''ba7816bf8f01cfea414140de5dae2223b00361a396177a9cb410ff61f20015ad'' @ q # ''}}'')"
proof -
  note t = hash_reporter_output [of "\<lambda>link. Some [0x61, 0x62, 0x63]"
      "(let q = CHR 0x22 in
             ''{'' @ q # ''64bit'' @ q # '': {'' @ q # ''url'' @ q # '': '' @ q # links ! 0 @ q # '', ''
                   @ q # ''hash'' @ q # '': '' @ q # ''ba7816bf8f01cfea414140de5dae2223b00361a396177a9cb410ff61f20015ad'' @ q # ''}, ''
                 @ q # ''32bit'' @ q # '': {'' @ q # ''url'' @ q # '': '' @ q # links ! 1 @ q # '', ''
                   @ q # ''hash'' @ q # '': '' @ q # ''ba7816bf8f01cfea414140de5dae2223b00361a396177a9cb410ff61f20015ad'' @ q # ''}, ''
                 @ q # ''arm64'' @ q # '': {'' @ q # ''url'' @ q # '': '' @ q # links ! 2 @ q # '', ''
                   @ q # ''hash'' @ q # '': '' @ q # ''ba7816bf8f01cfea414140de5dae2223b00361a396177a9cb410ff61f20015ad'' @ q # ''}}'')"
      "[0x61, 0x62, 0x63]"]
  from t have c: "hashes_main (\<lambda>link. Some [0x61, 0x62, 0x63]) =
     (case (\<lambda>link. Some [0x61, 0x62, 0x63]) (links ! 0) of
        None \<Rightarrow> None
      | Some b0 \<Rightarrow>
          (case (\<lambda>link. Some [0x61, 0x62, 0x63]) (links ! 1) of
             None \<Rightarrow> None
           | Some b1 \<Rightarrow>
               (case (\<lambda>link. Some [0x61, 0x62, 0x63]) (links ! 2) of
                  None \<Rightarrow> None
                | Some b2 \<Rightarrow>
                    Some (let q = CHR 0x22 in
       ''{'' @ q # ''64bit'' @ q # '': {'' @ q # ''url'' @ q # '': '' @ q # links ! 0 @ q # '', ''
             @ q # ''hash'' @ q # '': '' @ q # hexdigest (sha256 b0) @ q # ''}, ''
           @ q # ''32bit'' @ q # '': {'' @ q # ''url'' @ q # '': '' @ q # links ! 1 @ q # '', ''
             @ q # ''hash'' @ q # '': '' @ q # hexdigest (sha256 b1) @ q # ''}, ''
           @ q # ''arm64'' @ q # '': {'' @ q # ''url'' @ q # '': '' @ q # links ! 2 @ q # '', ''
             @ q # ''hash'' @ q # '': '' @ q # hexdigest (sha256 b2) @ q # ''}}''))))"
    by (rule conjunct1)
  have e: "hashes_main (\<lambda>link. Some [0x61, 0x62, 0x63]) =
     Some (let q = CHR 0x22 in
       ''{'' @ q # ''64bit'' @ q # '': {'' @ q # ''url'' @ q # '': '' @ q # links ! 0 @ q # '', ''
             @ q # ''hash'' @ q # '': '' @ q # ''ba7816bf8f01cfea414140de5dae2223b00361a396177a9cb410ff61f20015ad'' @ q # ''}, ''
           @ q # ''32bit'' @ q # '': {'' @ q # ''url'' @ q # '': '' @ q # links ! 1 @ q # '', ''
             @ q # ''hash'' @ q # '': '' @ q # ''ba7816bf8f01cfea414140de5dae2223b00361a396177a9cb410ff61f20015ad'' @ q # ''}, ''
           @ q # ''arm64'' @ q # '': {'' @ q # ''url'' @ q # '': '' @ q # links ! 2 @ q # '', ''
             @ q # ''hash'' @ q # '': '' @ q # ''ba7816bf8f01cfea414140de5dae2223b00361a396177a9cb410ff61f20015ad'' @ q # ''}}'')"
    unfolding c by (simp add: sha256_abc)
  with t show ?thesis
    by blast
qed

section \<open>The effects of a run\<close>

lemma say_fields [simp]:
  "stdout (say m s) = stdout s @ [m]"
  "requested (say m s) = requested s"
  "disk (say m s) = disk s"
  "writes (say m s) = writes s"
  by (simp_all add: say_def)

lemma http_get_fields [simp]:
  "stdout (http_get url s) = stdout s"
  "requested (http_get url s) = requested s @ [url]"
  "disk (http_get url s) = disk s"
  "writes (http_get url s) = writes s"
  by (simp_all add: http_get_def)

lemma hexdigest_nonempty: "hexdigest hs \<noteq> []"
  using length_hexdigest [of hs] by auto

lemma get_latest_release_file:
  "get_latest_release w s = (r, s') \<Longrightarrow> disk s' = disk s \<and> writes s' = writes s"
  by (auto simp: get_latest_release_def Let_def split: option.splits)

lemma download_and_hash_file:
  "download_and_hash w url s = (r, s') \<Longrightarrow> disk s' = disk s \<and> writes s' = writes s"
  by (auto simp: download_and_hash_def Let_def split: option.splits)

lemma download_and_hash_None:
  "fst (download_and_hash w url s) = None \<longleftrightarrow> asset_chunks w url = None"
  by (simp add: download_and_hash_def Let_def split: option.splits)

lemma hash_assets_file:
  "hash_assets w urls acc s = (r, s') \<Longrightarrow> disk s' = disk s \<and> writes s' = writes s"
proof (induction urls arbitrary: acc s)
  case Nil
  then show ?case by simp
next
  case (Cons p urls)
  obtain arch url where p: "p = (arch, url)" by (cases p)
  obtain h s1 where d: "download_and_hash w url (say (Processing arch) s) = (h, s1)"
    by (cases "download_and_hash w url (say (Processing arch) s)")
  from download_and_hash_file [OF d] have f: "disk s1 = disk s" "writes s1 = writes s"
    by simp_all
  show ?case
  proof (cases h)
    case None
    with Cons.prems p d f show ?thesis by auto
  next
    case (Some hv)
    show ?thesis
    proof (cases "hv = []")
      case True
      with Cons.prems p d f Some show ?thesis by auto
    next
      case False
      with Cons.prems p d Some have
        "hash_assets w urls
           (AList.update arch (JObject [(''url'', url), (''hash'', JString hv)]) acc)
           (say (Hashed arch hv) s1) = (r, s')"
        by simp
      from Cons.IH [OF this] f show ?thesis by simp
    qed
  qed
qed

lemma hash_assets_None_iff:
  "fst (hash_assets w urls acc s) = None \<longleftrightarrow> (\<exists>p\<in>set urls. asset_chunks w (snd p) = None)"
proof (induction urls arbitrary: acc s)
  case Nil
  show ?case by simp
next
  case (Cons p urls)
  obtain arch url where p: "p = (arch, url)" by (cases p)
  show ?case
  proof (cases "asset_chunks w url")
    case None
    with p show ?thesis
      by (simp add: download_and_hash_def Let_def)
  next
    case (Some chunks)
    with p Cons.IH show ?thesis
      by (simp add: download_and_hash_def Let_def hexdigest_nonempty)
  qed
qed

lemma load_manifest_file:
  "load_manifest w s = (r, s') \<Longrightarrow> disk s' = disk s \<and> writes s' = writes s"
  by (auto simp: load_manifest_def split: file_state.splits option.splits)

subsection \<open>Up to the comparison of versions, and the commit\<close>

lemma subscript_Inr_truthy: "subscript j key = Inr v \<Longrightarrow> truthy j"
  by (cases j) (auto split: option.splits)

lemma subscript_Inr_object: "subscript j key = Inr v \<Longrightarrow> \<exists>kvs. j = JObject kvs \<and> map_of kvs key = Some v"
  by (cases j) (auto split: option.splits)

lemma update_manifest_compares:
  assumes "api_response w = Some release"
    and "subscript release ''tag_name'' = Inr (JString tag)"
    and "disk s = Content manifest_text"
    and "json_load w manifest_text = Some (JObject kvs)"
    and "kvs \<noteq> []"
  shows "update_manifest w dry_run s =
     (let version = lstrip ''v'' tag;
          current_version = (case map_of kvs ''version'' of None \<Rightarrow> JString ''unknown'' | Some v \<Rightarrow> v);
          s3 = say (CurrentVersion current_version)
                 (say LoadingManifest
                   (say (LatestVersion version)
                     (http_get (JString latest_release_url) (say FetchingRelease s))))
      in if JString version = current_version then (Inr True, say UpToDate s3)
         else apply_update w dry_run release (JObject kvs) version current_version s3)"
  using assms subscript_Inr_truthy [OF assms(2)]
  by (simp add: update_manifest_def get_latest_release_def load_manifest_def Let_def)

lemma commit_dry_run:
  "commit w True (JObject kvs) version archs s =
     (Inr True,
      say (DryRunCompleted version)
        (say (JsonIndent2 (JObject [(''version'', JString version),
                                    (''architecture'', JObject archs)]))
           (say WouldUpdate (say DryRunMode s))))"
  by (simp add: commit_def)

lemma commit_save:
  "commit w False (JObject kvs) version archs s =
     (case write_fault w of
        None \<Rightarrow>
          (Inr True,
           say (SuccessfullyUpdated version)
             ((say SavingManifest s)
                \<lparr>writes := writes s + 1,
                 disk := Content (json_dump w
                   (JObject (AList.update ''architecture'' (JObject archs)
                      (AList.update ''version'' (JString version) kvs))))\<rparr>))
      | Some d \<Rightarrow>
          (Inr False,
           say FailedToSave
             (say ErrorSavingManifest
                ((say SavingManifest s)\<lparr>writes := writes s + 1, disk := d\<rparr>))))"
  by (simp add: commit_def save_manifest_def Let_def say_def split: option.splits)

lemma commit_file:
  "commit w dry_run m version archs s = (r, s') \<Longrightarrow>
     writes s' \<noteq> writes s \<or> disk s' \<noteq> disk s \<Longrightarrow> \<not> dry_run"
  by (cases m) (auto simp: commit_def split: sum.splits)

lemma update_fresh: "k \<notin> fst ` set al \<Longrightarrow> AList.update k v al = al @ [(k, v)]"
  by (induction al) auto

lemma hash_assets_all:
  assumes "\<forall>p\<in>set urls. asset_chunks w (snd p) \<noteq> None"
    and "distinct (map fst urls)"
    and "fst ` set urls \<inter> fst ` set acc = {}"
  shows "\<exists>s'. hash_assets w urls acc s = (Some (acc @ hashed_archs w urls), s')"
  using assms
proof (induction urls arbitrary: acc s)
  case Nil
  show ?case by (simp add: hashed_archs_def)
next
  case (Cons p urls)
  obtain arch url where p: "p = (arch, url)" by (cases p)
  from Cons.prems p obtain chunks where c: "asset_chunks w url = Some chunks" by auto
  let ?e = "JObject [(''url'', url), (''hash'', JString (hexdigest (sha256 (concat chunks))))]"
  from Cons.prems p have fresh: "arch \<notin> fst ` set acc" by auto
  have upd: "AList.update arch ?e acc = acc @ [(arch, ?e)]"
    using fresh by (rule update_fresh)
  have pre: "\<forall>p\<in>set urls. asset_chunks w (snd p) \<noteq> None" "distinct (map fst urls)"
    "fst ` set urls \<inter> fst ` set (acc @ [(arch, ?e)]) = {}"
    using Cons.prems p by auto
  from Cons.IH [OF pre] show ?case
    using p c upd
    by (simp add: download_and_hash_def Let_def hexdigest_nonempty hash_chunks_new
        hashed_archs_def)
qed

lemma scan_assets_distinct:
  "scan_assets assets acc = Inr urls \<Longrightarrow> distinct (map fst acc) \<Longrightarrow> distinct (map fst urls)"
proof (induction assets arbitrary: acc)
  case Nil
  then show ?case by simp
next
  case (Cons a assets)
  then show ?case
    by (auto split: sum.splits option.splits simp: distinct_update)
qed

lemma find_asset_urls_distinct:
  "find_asset_urls release version = Inr urls \<Longrightarrow> distinct (map fst urls)"
  by (auto simp: find_asset_urls_def split: sum.splits dest: scan_assets_distinct)

lemma map_fst_hashed_archs: "map fst (hashed_archs w urls) = map fst urls"
  by (simp add: hashed_archs_def)

subsection \<open>The manifest file changes only after every asset was hashed\<close>

lemma apply_update_changes:
  assumes "apply_update w dry_run release m version cur s = (r, s')"
    and "writes s' \<noteq> writes s \<or> disk s' \<noteq> disk s"
  shows "\<not> dry_run \<and> (\<exists>urls. find_asset_urls release version = Inr urls
           \<and> (\<forall>p\<in>set urls. asset_chunks w (snd p) \<noteq> None))"
proof (cases "find_asset_urls release version")
  case (Inl e)
  with assms show ?thesis by (auto simp: apply_update_def Let_def)
next
  case (Inr urls)
  define s2 where "s2 = (if length urls \<noteq> 3
                     then say (FoundAssets (map fst urls))
                            (say (WarningExpected3 (length urls))
                               (say (UpdatingFromTo cur version) s))
                     else say (UpdatingFromTo cur version) s)"
  have s2: "disk s2 = disk s" "writes s2 = writes s"
    by (simp_all add: s2_def)
  obtain h s3 where h: "hash_assets w urls [] s2 = (h, s3)"
    by (cases "hash_assets w urls [] s2")
  from hash_assets_file [OF h] s2 have s3: "disk s3 = disk s" "writes s3 = writes s"
    by simp_all
  from assms(1) Inr h have r: "(case h of None \<Rightarrow> (Inr False, s3)
        | Some archs \<Rightarrow> commit w dry_run m version archs s3) = (r, s')"
    by (simp add: apply_update_def Let_def s2_def)
  show ?thesis
  proof (cases h)
    case None
    from None s3 assms(2) r show ?thesis by auto
  next
    case (Some archs)
    from Some r have c: "commit w dry_run m version archs s3 = (r, s')" by simp
    from commit_file [OF c] assms(2) s3 have "\<not> dry_run" by simp
    moreover from h Some hash_assets_None_iff [of w urls "[]" s2]
    have "\<forall>p\<in>set urls. asset_chunks w (snd p) \<noteq> None" by auto
    ultimately show ?thesis using Inr by simp
  qed
qed

lemma update_manifest_changes:
  assumes "update_manifest w dry_run s = (r, s')"
    and "writes s' \<noteq> writes s \<or> disk s' \<noteq> disk s"
  shows "\<not> dry_run \<and> (\<exists>release tag_name version urls.
           api_response w = Some release
           \<and> subscript release ''tag_name'' = Inr tag_name
           \<and> py_lstrip tag_name ''v'' = Inr version
           \<and> find_asset_urls release version = Inr urls
           \<and> (\<forall>p\<in>set urls. asset_chunks w (snd p) \<noteq> None))"
proof (cases "api_response w")
  case None
  with assms show ?thesis
    by (auto simp: update_manifest_def get_latest_release_def Let_def)
next
  case (Some release)
  define s1 where "s1 = http_get (JString latest_release_url) (say FetchingRelease s)"
  have s1: "disk s1 = disk s" "writes s1 = writes s" by (simp_all add: s1_def)
  have g: "get_latest_release w (say FetchingRelease s) = (Some release, s1)"
    using Some by (simp add: get_latest_release_def Let_def s1_def)
  show ?thesis
  proof (cases "truthy release")
    case False
    with assms g s1 show ?thesis by (auto simp: update_manifest_def)
  next
    case True
    show ?thesis
    proof (cases "subscript release ''tag_name''")
      case (Inl e)
      with assms g s1 True show ?thesis by (auto simp: update_manifest_def)
    next
      case tn: (Inr tag_name)
      show ?thesis
      proof (cases "py_lstrip tag_name ''v''")
        case (Inl e)
        with assms g s1 True tn show ?thesis by (auto simp: update_manifest_def)
      next
        case v: (Inr version)
        define s1' where "s1' = say LoadingManifest (say (LatestVersion version) s1)"
        obtain lm s2 where lm: "load_manifest w s1' = (lm, s2)"
          by (cases "load_manifest w s1'")
        from load_manifest_file [OF lm] s1 have s2: "disk s2 = disk s" "writes s2 = writes s"
          by (simp_all add: s1'_def)
        from assms(1) g True tn v lm have r:
          "(case lm of Inl e \<Rightarrow> (Inl e, s2) | Inr None \<Rightarrow> (Inr False, s2)
           | Inr (Some manifest) \<Rightarrow>
               if \<not> truthy manifest then (Inr False, s2)
               else (case dict_get manifest ''version'' (JString ''unknown'') of
                       Inl e \<Rightarrow> (Inl e, s2)
                     | Inr current_version \<Rightarrow>
                         (let s3 = say (CurrentVersion current_version) s2 in
                          if JString version = current_version then (Inr True, say UpToDate s3)
                          else apply_update w dry_run release manifest version
                                 current_version s3))) = (r, s')"
          by (simp add: update_manifest_def s1'_def)
        show ?thesis
        proof (cases lm)
          case (Inl e)
          from Inl s2 assms(2) r show ?thesis by auto
        next
          case (Inr mo)
          show ?thesis
          proof (cases mo)
            case None
            from None Inr s2 assms(2) r show ?thesis by auto
          next
            case (Some manifest)
            show ?thesis
            proof (cases "dict_get manifest ''version'' (JString ''unknown'')")
              case (Inl e)
              from Inl Inr Some s2 assms(2) r show ?thesis by (auto split: if_splits)
            next
              case cv: (Inr current_version)
              show ?thesis
              proof (cases "\<not> truthy manifest \<or> JString version = current_version")
                case True
                from True Inr Some cv s2 assms(2) r show ?thesis
                  by (auto simp: Let_def split: if_splits)
              next
                case False
                from False Inr Some cv r have a: "apply_update w dry_run release manifest version
                    current_version (say (CurrentVersion current_version) s2) = (r, s')"
                  by (simp add: Let_def)
                from apply_update_changes [OF a] assms(2) s2 \<open>api_response w = Some release\<close> tn v
                show ?thesis by auto
              qed
            qed
          qed
        qed
      qed
    qed
  qed
qed

lemma main_changes:
  assumes "writes (snd (main w argv s)) \<noteq> writes s \<or> disk (snd (main w argv s)) \<noteq> disk s"
  shows "\<not> (''--dry-run'' \<in> set argv \<or> ''-n'' \<in> set argv)
         \<and> (\<exists>release tag_name version urls.
           api_response w = Some release
           \<and> subscript release ''tag_name'' = Inr tag_name
           \<and> py_lstrip tag_name ''v'' = Inr version
           \<and> find_asset_urls release version = Inr urls
           \<and> (\<forall>p\<in>set urls. asset_chunks w (snd p) \<noteq> None))"
proof -
  define dry_run where "dry_run = (''--dry-run'' \<in> set argv \<or> ''-n'' \<in> set argv)"
  define s0 where "s0 = (if dry_run then say RunningDryRun s else s)"
  have s0: "disk s0 = disk s" "writes s0 = writes s" by (simp_all add: s0_def)
  obtain r s1 where u: "update_manifest w dry_run s0 = (r, s1)"
    by (cases "update_manifest w dry_run s0")
  have "disk (snd (main w argv s)) = disk s \<and> writes (snd (main w argv s)) = writes s"
    if "disk s = Absent"
    using that by (simp add: main_def)
  with assms have present: "disk s \<noteq> Absent" by auto
  then have "disk (snd (main w argv s)) = disk s1 \<and> writes (snd (main w argv s)) = writes s1"
    using u unfolding main_def Let_def dry_run_def [symmetric] s0_def [symmetric]
    by (auto split: sum.splits bool.splits)
  with assms s0 have "writes s1 \<noteq> writes s0 \<or> disk s1 \<noteq> disk s0" by simp
  from update_manifest_changes [OF u this] show ?thesis
    by (simp add: dry_run_def)
qed

subsection \<open>A run that reaches the downloads\<close>

lemma run_to_hashing:
  assumes "api_response w = Some release"
    and "subscript release ''tag_name'' = Inr (JString tag)"
    and "disk s = Content manifest_text"
    and "json_load w manifest_text = Some (JObject kvs)"
    and "kvs \<noteq> []"
    and "(case map_of kvs ''version'' of None \<Rightarrow> JString ''unknown'' | Some v \<Rightarrow> v)
           \<noteq> JString (lstrip ''v'' tag)"
    and "find_asset_urls release (lstrip ''v'' tag) = Inr urls"
  shows "\<exists>s2. disk s2 = disk s \<and> writes s2 = writes s
           \<and> update_manifest w dry_run s =
               (case hash_assets w urls [] s2 of
                  (None, s3) \<Rightarrow> (Inr False, s3)
                | (Some archs, s3) \<Rightarrow> commit w dry_run (JObject kvs) (lstrip ''v'' tag) archs s3)"
proof -
  define cur where "cur = (case map_of kvs ''version'' of None \<Rightarrow> JString ''unknown'' | Some v \<Rightarrow> v)"
  define s1 where "s1 = say (UpdatingFromTo cur (lstrip ''v'' tag))
      (say (CurrentVersion cur)
        (say LoadingManifest
          (say (LatestVersion (lstrip ''v'' tag))
            (http_get (JString latest_release_url) (say FetchingRelease s)))))"
  define s2 where "s2 = (if length urls \<noteq> 3
                     then say (FoundAssets (map fst urls)) (say (WarningExpected3 (length urls)) s1)
                     else s1)"
  have "disk s2 = disk s" "writes s2 = writes s"
    by (simp_all add: s2_def s1_def)
  moreover have "update_manifest w dry_run s =
      (case hash_assets w urls [] s2 of
         (None, s3) \<Rightarrow> (Inr False, s3)
       | (Some archs, s3) \<Rightarrow> commit w dry_run (JObject kvs) (lstrip ''v'' tag) archs s3)"
    using assms(6,7) unfolding update_manifest_compares [OF assms(1-5)]
    by (simp add: Let_def apply_update_def cur_def s1_def s2_def)
  ultimately show ?thesis by blast
qed

lemma main_run:
  "disk s \<noteq> Absent \<Longrightarrow>
   main w argv s =
     (case update_manifest w (''--dry-run'' \<in> set argv \<or> ''-n'' \<in> set argv)
             (if ''--dry-run'' \<in> set argv \<or> ''-n'' \<in> set argv then say RunningDryRun s else s) of
        (Inl e, s1) \<Rightarrow> (Uncaught e, s1)
      | (Inr True, s1) \<Rightarrow>
          (Exit 0, say (if ''--dry-run'' \<in> set argv \<or> ''-n'' \<in> set argv
                        then DryRunSuccess else UpdateSuccess) s1)
      | (Inr False, s1) \<Rightarrow> (Exit 1, say UpdateFailed s1))"
  by (simp add: main_def Let_def)

subsection \<open>The example world\<close>

lemma example_facts:
  "api_response example_world = Some example_release"
  "write_fault example_world = None"
  "json_load example_world = example_load"
  "asset_chunks example_world url = Some [[1, 2], [3]]"
  "subscript example_release ''tag_name'' = Inr (JString ''v0.10.0'')"
  "lstrip ''v'' ''v0.10.0'' = ''0.10.0''"
  "disk (example_start manifest_text) = Content manifest_text"
  "writes (example_start manifest_text) = 0"
  "requested (example_start manifest_text) = []"
  "stdout (example_start manifest_text) = []"
  by (simp_all add: example_world_def example_release_def example_start_def lstrip_def)

lemma example_loads:
  "example_load ''old'' = Some (JObject
     [(''version'', JString ''0.9.0''),
      (''homepage'', JString ''https://example.org''),
      (''architecture'',
       JObject [(''32bit'', JObject [(''url'', JString ''https://example.org/old.zip''),
                                    (''hash'', JString ''00'')])])])"
  "example_load ''same'' = Some (JObject [(''version'', JString ''0.10.0'')])"
  "example_load ''noversion'' = Some (JObject [(''homepage'', JString ''https://example.org'')])"
  "example_load ''{}'' = Some (JObject [])"
  "example_load ''[1]'' = Some (JArray [JInt 1])"
  by (simp_all add: example_load_def example_manifest_def)

lemma empty_object_manifest_is_rejected:
  "main example_world [''update_mufiz.py''] (example_start ''{}'') =
     (Exit 1, \<lparr>stdout = [FetchingRelease, LatestVersion ''0.10.0'', LoadingManifest, UpdateFailed],
               requested = [JString latest_release_url],
               disk = Content ''{}'', writes = 0\<rparr>)"
  by (simp add: main_def update_manifest_def get_latest_release_def load_manifest_def
      example_facts example_loads example_start_def example_release_def say_def http_get_def)

section \<open>A failed download\<close>

text \<open>
  Claim C3: in every run in which the download or the hashing of one asset fails, the whole
  update aborts with a nonzero exit status and the manifest file is not written: either
  every resolved asset is hashed and the new mapping is committed, or nothing is committed
  and the manifest on disk is unchanged. The first part below is a run that reaches the
  downloads and meets a URL whose download fails: it exits with status 1, the file is as
  before and was never opened for writing. The second part holds for every run: the file
  was touched only if every resolved asset was downloaded and hashed.
\<close>

theorem download_failure_commits_nothing:
  "(api_response w = Some release
     \<and> subscript release ''tag_name'' = Inr (JString tag)
     \<and> disk s = Content manifest_text
     \<and> json_load w manifest_text = Some (JObject kvs) \<and> kvs \<noteq> []
     \<and> (case map_of kvs ''version'' of None \<Rightarrow> JString ''unknown'' | Some v \<Rightarrow> v)
           \<noteq> JString (lstrip ''v'' tag)
     \<and> find_asset_urls release (lstrip ''v'' tag) = Inr urls
     \<and> (\<exists>p\<in>set urls. asset_chunks w (snd p) = None)
     \<longrightarrow> fst (main w argv s) = Exit 1
         \<and> disk (snd (main w argv s)) = disk s
         \<and> writes (snd (main w argv s)) = writes s)
   \<and> ((\<exists>release tag_name version urls.
           api_response w = Some release
           \<and> subscript release ''tag_name'' = Inr tag_name
           \<and> py_lstrip tag_name ''v'' = Inr version
           \<and> find_asset_urls release version = Inr urls
           \<and> (\<forall>p\<in>set urls. asset_chunks w (snd p) \<noteq> None))
        \<or> (disk (snd (main w argv s)) = disk s \<and> writes (snd (main w argv s)) = writes s))"
proof (intro conjI impI)
  assume h: "api_response w = Some release
     \<and> subscript release ''tag_name'' = Inr (JString tag)
     \<and> disk s = Content manifest_text
     \<and> json_load w manifest_text = Some (JObject kvs) \<and> kvs \<noteq> []
     \<and> (case map_of kvs ''version'' of None \<Rightarrow> JString ''unknown'' | Some v \<Rightarrow> v)
           \<noteq> JString (lstrip ''v'' tag)
     \<and> find_asset_urls release (lstrip ''v'' tag) = Inr urls
     \<and> (\<exists>p\<in>set urls. asset_chunks w (snd p) = None)"
  define dry_run where "dry_run = (''--dry-run'' \<in> set argv \<or> ''-n'' \<in> set argv)"
  define s0 where "s0 = (if dry_run then say RunningDryRun s else s)"
  have s0: "disk s0 = Content manifest_text" "writes s0 = writes s"
    using h by (simp_all add: s0_def)
  from h run_to_hashing [of w release tag s0 manifest_text kvs urls dry_run] s0(1)
  obtain s2 where s2: "disk s2 = disk s0" "writes s2 = writes s0"
    and u: "update_manifest w dry_run s0 =
               (case hash_assets w urls [] s2 of
                  (None, s3) \<Rightarrow> (Inr False, s3)
                | (Some archs, s3) \<Rightarrow> commit w dry_run (JObject kvs) (lstrip ''v'' tag) archs s3)"
    by blast
  obtain r s3 where hs: "hash_assets w urls [] s2 = (r, s3)"
    by (cases "hash_assets w urls [] s2")
  from h hash_assets_None_iff [of w urls "[]" s2] hs have "r = None" by simp
  with u hs have um: "update_manifest w dry_run s0 = (Inr False, s3)" by simp
  from hash_assets_file [OF hs] s2 s0 h have s3: "disk s3 = disk s" "writes s3 = writes s"
    by simp_all
  have "disk s \<noteq> Absent" using h by simp
  from main_run [OF this, of w argv] um
  have "main w argv s = (Exit 1, say UpdateFailed s3)"
    by (simp add: dry_run_def s0_def)
  with s3 show "fst (main w argv s) = Exit 1" "disk (snd (main w argv s)) = disk s"
    "writes (snd (main w argv s)) = writes s"
    by simp_all
next
  show "(\<exists>release tag_name version urls.
           api_response w = Some release
           \<and> subscript release ''tag_name'' = Inr tag_name
           \<and> py_lstrip tag_name ''v'' = Inr version
           \<and> find_asset_urls release version = Inr urls
           \<and> (\<forall>p\<in>set urls. asset_chunks w (snd p) \<noteq> None))
        \<or> (disk (snd (main w argv s)) = disk s \<and> writes (snd (main w argv s)) = writes s)"
    using main_changes [of w argv s] by blast
qed

theorem download_failure_commits_nothing_witness:
  "fst (main (example_world\<lparr>asset_chunks :=
               (\<lambda>url. if url = JString ''https://example.org/arm.zip'' then None
                      else Some [[1, 2], [3]])\<rparr>)
          [''update_mufiz.py''] (example_start ''old'')) = Exit 1
   \<and> disk (snd (main (example_world\<lparr>asset_chunks :=
               (\<lambda>url. if url = JString ''https://example.org/arm.zip'' then None
                      else Some [[1, 2], [3]])\<rparr>)
          [''update_mufiz.py''] (example_start ''old''))) = Content ''old''
   \<and> writes (snd (main (example_world\<lparr>asset_chunks :=
               (\<lambda>url. if url = JString ''https://example.org/arm.zip'' then None
                      else Some [[1, 2], [3]])\<rparr>)
          [''update_mufiz.py''] (example_start ''old''))) = 0"
  using download_failure_commits_nothing [where w = "example_world\<lparr>asset_chunks :=
               (\<lambda>url. if url = JString ''https://example.org/arm.zip'' then None
                      else Some [[1, 2], [3]])\<rparr>"
      and release = example_release and tag = "''v0.10.0''"
      and s = "example_start ''old''" and manifest_text = "''old''"
      and kvs = "[(''version'', JString ''0.9.0''),
      (''homepage'', JString ''https://example.org''),
      (''architecture'',
       JObject [(''32bit'', JObject [(''url'', JString ''https://example.org/old.zip''),
                                    (''hash'', JString ''00'')])])]"
      and urls = "[(''64bit'', JString ''https://example.org/second.zip''),
          (''arm64'', JString ''https://example.org/arm.zip'')]"
      and argv = "[''update_mufiz.py'']"]
  by (simp add: example_facts example_loads example_find_asset_urls)

section \<open>A manifest that is up to date\<close>

text \<open>
  Claim C4: when the \<open>version\<close> field of the loaded manifest equals the version derived
  from the tag of the fetched release, the updater reports that the manifest is already up
  to date, exits with status 0 and leaves the manifest file unchanged, byte for byte; no
  asset is resolved, downloaded or hashed. The only request is the one to the releases API,
  and the lines printed are exactly those below.
\<close>

theorem up_to_date_manifest_is_untouched:
  assumes "api_response w = Some release"
    and "subscript release ''tag_name'' = Inr (JString tag)"
    and "disk s = Content manifest_text"
    and "json_load w manifest_text = Some manifest"
    and "subscript manifest ''version'' = Inr (JString (lstrip ''v'' tag))"
  shows "fst (main w argv s) = Exit 0
     \<and> stdout (snd (main w argv s)) =
         stdout s
         @ (if ''--dry-run'' \<in> set argv \<or> ''-n'' \<in> set argv then [RunningDryRun] else [])
         @ [FetchingRelease, LatestVersion (lstrip ''v'' tag), LoadingManifest,
            CurrentVersion (JString (lstrip ''v'' tag)), UpToDate,
            if ''--dry-run'' \<in> set argv \<or> ''-n'' \<in> set argv then DryRunSuccess else UpdateSuccess]
     \<and> disk (snd (main w argv s)) = Content manifest_text
     \<and> writes (snd (main w argv s)) = writes s
     \<and> requested (snd (main w argv s)) = requested s @ [JString latest_release_url]"
proof -
  from subscript_Inr_object [OF assms(5)] obtain kvs where
    m: "manifest = JObject kvs" "map_of kvs ''version'' = Some (JString (lstrip ''v'' tag))"
    by blast
  then have ne: "kvs \<noteq> []" by auto
  define dry_run where "dry_run = (''--dry-run'' \<in> set argv \<or> ''-n'' \<in> set argv)"
  define s0 where "s0 = (if dry_run then say RunningDryRun s else s)"
  have s0: "disk s0 = Content manifest_text" using assms(3) by (simp add: s0_def)
  have l: "json_load w manifest_text = Some (JObject kvs)" using assms(4) m by simp
  have u: "update_manifest w dry_run s0 =
      (Inr True, say UpToDate (say (CurrentVersion (JString (lstrip ''v'' tag)))
         (say LoadingManifest (say (LatestVersion (lstrip ''v'' tag))
            (http_get (JString latest_release_url) (say FetchingRelease s0))))))"
    unfolding update_manifest_compares [OF assms(1,2) s0 l ne]
    using m(2) by (simp add: Let_def)
  have "disk s \<noteq> Absent" using assms(3) by simp
  from main_run [OF this, of w argv] u have
    "main w argv s = (Exit 0, say (if dry_run then DryRunSuccess else UpdateSuccess)
        (say UpToDate (say (CurrentVersion (JString (lstrip ''v'' tag)))
         (say LoadingManifest (say (LatestVersion (lstrip ''v'' tag))
            (http_get (JString latest_release_url) (say FetchingRelease s0)))))))"
    by (simp add: dry_run_def s0_def)
  then show ?thesis
    using assms(3) by (simp add: dry_run_def s0_def)
qed

theorem up_to_date_manifest_is_untouched_witness:
  "fst (main example_world [''update_mufiz.py''] (example_start ''same'')) = Exit 0
   \<and> stdout (snd (main example_world [''update_mufiz.py''] (example_start ''same''))) =
       [FetchingRelease, LatestVersion ''0.10.0'', LoadingManifest,
        CurrentVersion (JString ''0.10.0''), UpToDate, UpdateSuccess]
   \<and> disk (snd (main example_world [''update_mufiz.py''] (example_start ''same''))) = Content ''same''
   \<and> writes (snd (main example_world [''update_mufiz.py''] (example_start ''same''))) = 0
   \<and> requested (snd (main example_world [''update_mufiz.py''] (example_start ''same'')))
       = [JString latest_release_url]"
  using up_to_date_manifest_is_untouched [where w = example_world and release = example_release and tag = "''v0.10.0''"
      and s = "example_start ''same''" and manifest_text = "''same''"
      and manifest = "JObject [(''version'', JString ''0.10.0'')]"
      and argv = "[''update_mufiz.py'']"]
  by (simp add: example_facts example_loads)

section \<open>Dry runs\<close>

text \<open>
  Claim C5: with \<open>--dry-run\<close> or \<open>-n\<close> on the command line the manifest file is never
  written, whatever the outcome; when the update succeeds, the version and the architecture
  mapping that would be committed are printed as formatted JSON and the process exits with
  status 0.
\<close>

theorem dry_run_never_writes:
  assumes "''--dry-run'' \<in> set argv \<or> ''-n'' \<in> set argv"
  shows "disk (snd (main w argv s)) = disk s
     \<and> writes (snd (main w argv s)) = writes s
     \<and> (api_response w = Some release
         \<and> subscript release ''tag_name'' = Inr (JString tag)
         \<and> disk s = Content manifest_text
         \<and> json_load w manifest_text = Some (JObject kvs) \<and> kvs \<noteq> []
         \<and> (case map_of kvs ''version'' of None \<Rightarrow> JString ''unknown'' | Some v \<Rightarrow> v)
               \<noteq> JString (lstrip ''v'' tag)
         \<and> find_asset_urls release (lstrip ''v'' tag) = Inr urls
         \<and> (\<forall>p\<in>set urls. asset_chunks w (snd p) \<noteq> None)
         \<longrightarrow> fst (main w argv s) = Exit 0
             \<and> (\<exists>before. stdout (snd (main w argv s)) =
                   before @ [DryRunMode, WouldUpdate,
                     JsonIndent2 (JObject [(''version'', JString (lstrip ''v'' tag)),
                                           (''architecture'', JObject (hashed_archs w urls))]),
                     DryRunCompleted (lstrip ''v'' tag), DryRunSuccess]))"
proof (intro conjI impI)
  from main_changes [of w argv s] assms
  show "disk (snd (main w argv s)) = disk s" "writes (snd (main w argv s)) = writes s"
    by blast+
next
  assume h: "api_response w = Some release
         \<and> subscript release ''tag_name'' = Inr (JString tag)
         \<and> disk s = Content manifest_text
         \<and> json_load w manifest_text = Some (JObject kvs) \<and> kvs \<noteq> []
         \<and> (case map_of kvs ''version'' of None \<Rightarrow> JString ''unknown'' | Some v \<Rightarrow> v)
               \<noteq> JString (lstrip ''v'' tag)
         \<and> find_asset_urls release (lstrip ''v'' tag) = Inr urls
         \<and> (\<forall>p\<in>set urls. asset_chunks w (snd p) \<noteq> None)"
  define s0 where "s0 = say RunningDryRun s"
  have s0: "disk s0 = Content manifest_text" using h by (simp add: s0_def)
  from h run_to_hashing [of w release tag s0 manifest_text kvs urls True] s0
  obtain s2 where
    u: "update_manifest w True s0 =
               (case hash_assets w urls [] s2 of
                  (None, s3) \<Rightarrow> (Inr False, s3)
                | (Some archs, s3) \<Rightarrow> commit w True (JObject kvs) (lstrip ''v'' tag) archs s3)"
    by blast
  from h have d: "distinct (map fst urls)" by (auto dest: find_asset_urls_distinct)
  from h d hash_assets_all [of urls w "[]" s2] obtain s3 where
    hs: "hash_assets w urls [] s2 = (Some (hashed_archs w urls), s3)"
    by auto
  from u hs have um: "update_manifest w True s0 =
      (Inr True,
       say (DryRunCompleted (lstrip ''v'' tag))
        (say (JsonIndent2 (JObject [(''version'', JString (lstrip ''v'' tag)),
                                    (''architecture'', JObject (hashed_archs w urls))]))
           (say WouldUpdate (say DryRunMode s3))))"
    by (simp add: commit_dry_run)
  have "disk s \<noteq> Absent" using h by simp
  from main_run [OF this, of w argv] um assms have
    m: "main w argv s = (Exit 0, say DryRunSuccess
       (say (DryRunCompleted (lstrip ''v'' tag))
        (say (JsonIndent2 (JObject [(''version'', JString (lstrip ''v'' tag)),
                                    (''architecture'', JObject (hashed_archs w urls))]))
           (say WouldUpdate (say DryRunMode s3)))))"
    by (simp add: s0_def)
  then show "fst (main w argv s) = Exit 0" by simp
  from m show "\<exists>before. stdout (snd (main w argv s)) =
                   before @ [DryRunMode, WouldUpdate,
                     JsonIndent2 (JObject [(''version'', JString (lstrip ''v'' tag)),
                                           (''architecture'', JObject (hashed_archs w urls))]),
                     DryRunCompleted (lstrip ''v'' tag), DryRunSuccess]"
    by simp
qed

theorem dry_run_never_writes_witness:
  "disk (snd (main example_world [''update_mufiz.py'', ''--dry-run''] (example_start ''old'')))
     = Content ''old''
   \<and> writes (snd (main example_world [''update_mufiz.py'', ''--dry-run''] (example_start ''old''))) = 0
   \<and> fst (main example_world [''update_mufiz.py'', ''--dry-run''] (example_start ''old'')) = Exit 0
   \<and> JsonIndent2 (JObject [(''version'', JString ''0.10.0''),
         (''architecture'', JObject (hashed_archs example_world
            [(''64bit'', JString ''https://example.org/second.zip''),
             (''arm64'', JString ''https://example.org/arm.zip'')]))])
       \<in> set (stdout (snd (main example_world [''update_mufiz.py'', ''--dry-run'']
                  (example_start ''old''))))"
proof -
  have dry: "''--dry-run'' \<in> set [''update_mufiz.py'', ''--dry-run'']
             \<or> ''-n'' \<in> set [''update_mufiz.py'', ''--dry-run'']"
    by simp
  note t = dry_run_never_writes [OF dry, where w = example_world and release = example_release
      and tag = "''v0.10.0''" and s = "example_start ''old''" and manifest_text = "''old''"
      and kvs = "[(''version'', JString ''0.9.0''),
      (''homepage'', JString ''https://example.org''),
      (''architecture'',
       JObject [(''32bit'', JObject [(''url'', JString ''https://example.org/old.zip''),
                                    (''hash'', JString ''00'')])])]"
      and urls = "[(''64bit'', JString ''https://example.org/second.zip''),
          (''arm64'', JString ''https://example.org/arm.zip'')]"]
  then show ?thesis
    by (auto simp: example_facts example_loads example_find_asset_urls)
qed

section \<open>What a successful update commits\<close>

text \<open>
  Claim C6: after a successful update that is not a dry run, the manifest written is the
  loaded manifest with exactly two keys changed: \<open>version\<close> is the derived version and
  \<open>architecture\<close> is replaced as a whole by the new mapping from label to URL and hash
  (a label that the new release does not have is gone); every other key keeps its value.
\<close>

theorem update_replaces_version_and_architecture:
  assumes "api_response w = Some release"
    and "subscript release ''tag_name'' = Inr (JString tag)"
    and "disk s = Content manifest_text"
    and "json_load w manifest_text = Some (JObject kvs)"
    and "kvs \<noteq> []"
    and "(case map_of kvs ''version'' of None \<Rightarrow> JString ''unknown'' | Some v \<Rightarrow> v)
           \<noteq> JString (lstrip ''v'' tag)"
    and "find_asset_urls release (lstrip ''v'' tag) = Inr urls"
    and "\<forall>p\<in>set urls. asset_chunks w (snd p) \<noteq> None"
    and "\<not> (''--dry-run'' \<in> set argv \<or> ''-n'' \<in> set argv)"
    and "write_fault w = None"
  shows "\<exists>committed.
       fst (main w argv s) = Exit 0
     \<and> disk (snd (main w argv s)) = Content (json_dump w (JObject committed))
     \<and> writes (snd (main w argv s)) = writes s + 1
     \<and> committed = AList.update ''architecture'' (JObject (hashed_archs w urls))
                     (AList.update ''version'' (JString (lstrip ''v'' tag)) kvs)
     \<and> map_of committed ''version'' = Some (JString (lstrip ''v'' tag))
     \<and> map_of committed ''architecture'' = Some (JObject (hashed_archs w urls))
     \<and> (\<forall>key. key \<noteq> ''version'' \<and> key \<noteq> ''architecture'' \<longrightarrow>
            map_of committed key = map_of kvs key)
     \<and> map fst (hashed_archs w urls) = map fst urls"
proof -
  from run_to_hashing [OF assms(1-7), of False]
  obtain s2 where s2: "disk s2 = disk s" "writes s2 = writes s"
    and u: "update_manifest w False s =
               (case hash_assets w urls [] s2 of
                  (None, s3) \<Rightarrow> (Inr False, s3)
                | (Some archs, s3) \<Rightarrow> commit w False (JObject kvs) (lstrip ''v'' tag) archs s3)"
    by blast
  from assms(7) have d: "distinct (map fst urls)" by (rule find_asset_urls_distinct)
  from assms(8) d hash_assets_all [of urls w "[]" s2] obtain s3 where
    hs: "hash_assets w urls [] s2 = (Some (hashed_archs w urls), s3)"
    by auto
  from hash_assets_file [OF hs] s2 have s3: "disk s3 = disk s" "writes s3 = writes s"
    by simp_all
  define committed where "committed = AList.update ''architecture'' (JObject (hashed_archs w urls))
                     (AList.update ''version'' (JString (lstrip ''v'' tag)) kvs)"
  from u hs assms(10) have um: "update_manifest w False s =
      (Inr True, say (SuccessfullyUpdated (lstrip ''v'' tag))
             ((say SavingManifest s3)
                \<lparr>writes := writes s3 + 1,
                 disk := Content (json_dump w (JObject committed))\<rparr>))"
    by (simp add: commit_save committed_def)
  have "disk s \<noteq> Absent" using assms(3) by simp
  from main_run [OF this, of w argv] um assms(9) have
    "main w argv s = (Exit 0, say UpdateSuccess (say (SuccessfullyUpdated (lstrip ''v'' tag))
             ((say SavingManifest s3)
                \<lparr>writes := writes s3 + 1,
                 disk := Content (json_dump w (JObject committed))\<rparr>)))"
    by simp
  then have f1: "fst (main w argv s) = Exit 0"
    and f2: "disk (snd (main w argv s)) = Content (json_dump w (JObject committed))"
    and f3: "writes (snd (main w argv s)) = writes s + 1"
    using s3 by simp_all
  have f4: "map_of committed ''version'' = Some (JString (lstrip ''v'' tag))"
    unfolding committed_def update_conv' by simp
  have f5: "map_of committed ''architecture'' = Some (JObject (hashed_archs w urls))"
    unfolding committed_def update_conv' by simp
  have f6: "map_of committed key = map_of kvs key"
    if "key \<noteq> ''version'' \<and> key \<noteq> ''architecture''" for key
    unfolding committed_def update_conv' using that by simp
  have f7: "map fst (hashed_archs w urls) = map fst urls"
    by (rule map_fst_hashed_archs)
  show ?thesis
  proof (intro exI [of _ committed] conjI allI impI)
    show "fst (main w argv s) = Exit 0" by (rule f1)
    show "disk (snd (main w argv s)) = Content (json_dump w (JObject committed))" by (rule f2)
    show "writes (snd (main w argv s)) = writes s + 1" by (rule f3)
    show "committed = AList.update ''architecture'' (JObject (hashed_archs w urls))
                     (AList.update ''version'' (JString (lstrip ''v'' tag)) kvs)"
      by (rule committed_def)
    show "map_of committed ''version'' = Some (JString (lstrip ''v'' tag))" by (rule f4)
    show "map_of committed ''architecture'' = Some (JObject (hashed_archs w urls))" by (rule f5)
    show "map_of committed key = map_of kvs key"
      if "key \<noteq> ''version'' \<and> key \<noteq> ''architecture''" for key
      using that by (rule f6)
    show "map fst (hashed_archs w urls) = map fst urls" by (rule f7)
  qed
qed

theorem update_replaces_version_and_architecture_witness:
  "fst (main example_world [''update_mufiz.py''] (example_start ''old'')) = Exit 0
   \<and> disk (snd (main example_world [''update_mufiz.py''] (example_start ''old''))) =
       Content (json_dump example_world (JObject
         [(''version'', JString ''0.10.0''),
          (''homepage'', JString ''https://example.org''),
          (''architecture'', JObject (hashed_archs example_world
            [(''64bit'', JString ''https://example.org/second.zip''),
             (''arm64'', JString ''https://example.org/arm.zip'')]))]))
   \<and> writes (snd (main example_world [''update_mufiz.py''] (example_start ''old''))) = 1"
proof -
  have h: "api_response example_world = Some example_release"
    "subscript example_release ''tag_name'' = Inr (JString ''v0.10.0'')"
    "disk (example_start ''old'') = Content ''old''"
    "json_load example_world ''old'' = Some (JObject
     [(''version'', JString ''0.9.0''),
      (''homepage'', JString ''https://example.org''),
      (''architecture'',
       JObject [(''32bit'', JObject [(''url'', JString ''https://example.org/old.zip''),
                                    (''hash'', JString ''00'')])])])"
    "[(''version'', JString ''0.9.0''),
      (''homepage'', JString ''https://example.org''),
      (''architecture'',
       JObject [(''32bit'', JObject [(''url'', JString ''https://example.org/old.zip''),
                                    (''hash'', JString ''00'')])])] \<noteq> []"
    "(case map_of [(''version'', JString ''0.9.0''),
      (''homepage'', JString ''https://example.org''),
      (''architecture'',
       JObject [(''32bit'', JObject [(''url'', JString ''https://example.org/old.zip''),
                                    (''hash'', JString ''00'')])])] ''version'' of
        None \<Rightarrow> JString ''unknown'' | Some v \<Rightarrow> v) \<noteq> JString (lstrip ''v'' ''v0.10.0'')"
    "find_asset_urls example_release (lstrip ''v'' ''v0.10.0'') =
       Inr [(''64bit'', JString ''https://example.org/second.zip''),
            (''arm64'', JString ''https://example.org/arm.zip'')]"
    "\<forall>p\<in>set [(''64bit'', JString ''https://example.org/second.zip''),
            (''arm64'', JString ''https://example.org/arm.zip'')].
        asset_chunks example_world (snd p) \<noteq> None"
    "\<not> (''--dry-run'' \<in> set [''update_mufiz.py''] \<or> ''-n'' \<in> set [''update_mufiz.py''])"
    "write_fault example_world = None"
    by (simp_all add: example_facts example_loads example_find_asset_urls)
  from update_replaces_version_and_architecture [OF h] show ?thesis
    by (auto simp: example_facts)
qed

section \<open>A manifest without a version\<close>

text \<open>
  Claim C10, as the specification words it: for every loaded manifest that parses as JSON
  but lacks a \<open>version\<close> key the updater does not fail, and takes the current version to
  be \<open>unknown\<close>. Two manifests that parse and have no \<open>version\<close> key end the run with
  status 1 before any current version is printed. The JSON array \<open>[1]\<close>: the updater calls
  \<open>manifest.get\<close>, a method of dictionaries, and the AttributeError is not caught. The
  empty object \<open>{}\<close>: it is false as a truth value, so the test \<open>if not manifest\<close> of
  line 108 returns \<open>False\<close> as it does when the file could not be loaded.
\<close>

theorem manifest_without_version_fails_counterexample:
  "json_load example_world ''[1]'' = Some (JArray [JInt 1])
   \<and> subscript (JArray [JInt 1]) ''version'' = Inl TypeError
   \<and> fst (main example_world [''update_mufiz.py''] (example_start ''[1]'')) = Uncaught AttributeError
   \<and> CurrentVersion (JString ''unknown'')
       \<notin> set (stdout (snd (main example_world [''update_mufiz.py''] (example_start ''[1]''))))
   \<and> json_load example_world ''{}'' = Some (JObject [])
   \<and> subscript (JObject []) ''version'' = Inl KeyError
   \<and> fst (main example_world [''update_mufiz.py''] (example_start ''{}'')) = Exit 1
   \<and> CurrentVersion (JString ''unknown'')
       \<notin> set (stdout (snd (main example_world [''update_mufiz.py''] (example_start ''{}''))))"
  by (simp add: main_def update_manifest_def get_latest_release_def load_manifest_def
      example_facts example_loads example_start_def example_release_def say_def http_get_def)

text \<open>
  Claim C10, amended: for every loaded manifest that is a JSON object with at least one key
  and no \<open>version\<close> key, the current version is taken to be \<open>unknown\<close>, and whenever
  the derived version differs from \<open>unknown\<close> the update proceeds as for an ordinary
  version mismatch: the same steps (\<open>apply_update\<close>, lines 118 to 160) run on the same
  release and manifest, with \<open>unknown\<close> in the place of the current version.
\<close>

theorem manifest_without_version_is_unknown:
  assumes "api_response w = Some release"
    and "subscript release ''tag_name'' = Inr (JString tag)"
    and "disk s = Content manifest_text"
    and "json_load w manifest_text = Some (JObject kvs)"
    and "kvs \<noteq> []"
  shows "(map_of kvs ''version'' = None \<and> lstrip ''v'' tag \<noteq> ''unknown'' \<longrightarrow>
           update_manifest w dry_run s =
             apply_update w dry_run release (JObject kvs) (lstrip ''v'' tag) (JString ''unknown'')
               (say (CurrentVersion (JString ''unknown''))
                 (say LoadingManifest
                   (say (LatestVersion (lstrip ''v'' tag))
                     (http_get (JString latest_release_url) (say FetchingRelease s))))))
       \<and> (map_of kvs ''version'' = Some current \<and> current \<noteq> JString (lstrip ''v'' tag) \<longrightarrow>
           update_manifest w dry_run s =
             apply_update w dry_run release (JObject kvs) (lstrip ''v'' tag) current
               (say (CurrentVersion current)
                 (say LoadingManifest
                   (say (LatestVersion (lstrip ''v'' tag))
                     (http_get (JString latest_release_url) (say FetchingRelease s))))))"
  unfolding update_manifest_compares [OF assms]
  by (simp add: Let_def)

theorem manifest_without_version_is_unknown_witness:
  "update_manifest example_world False (example_start ''noversion'') =
     apply_update example_world False example_release
       (JObject [(''homepage'', JString ''https://example.org'')]) ''0.10.0'' (JString ''unknown'')
       (say (CurrentVersion (JString ''unknown''))
         (say LoadingManifest
           (say (LatestVersion ''0.10.0'')
             (http_get (JString latest_release_url)
               (say FetchingRelease (example_start ''noversion''))))))
   \<and> update_manifest example_world False (example_start ''old'') =
     apply_update example_world False example_release example_manifest ''0.10.0'' (JString ''0.9.0'')
       (say (CurrentVersion (JString ''0.9.0''))
         (say LoadingManifest
           (say (LatestVersion ''0.10.0'')
             (http_get (JString latest_release_url)
               (say FetchingRelease (example_start ''old''))))))"
proof -
  have a: "json_load example_world ''noversion''
             = Some (JObject [(''homepage'', JString ''https://example.org'')])"
    "[(''homepage'', JString ''https://example.org'')] \<noteq> []"
    by (simp_all add: example_facts example_loads)
  have b: "json_load example_world ''old'' = Some (JObject
     [(''version'', JString ''0.9.0''),
      (''homepage'', JString ''https://example.org''),
      (''architecture'',
       JObject [(''32bit'', JObject [(''url'', JString ''https://example.org/old.zip''),
                                    (''hash'', JString ''00'')])])])"
    "[(''version'', JString ''0.9.0''),
      (''homepage'', JString ''https://example.org''),
      (''architecture'',
       JObject [(''32bit'', JObject [(''url'', JString ''https://example.org/old.zip''),
                                    (''hash'', JString ''00'')])])] \<noteq> []"
    by (simp_all add: example_facts example_loads)
  from manifest_without_version_is_unknown [OF example_facts(1) example_facts(5) example_facts(7) a,
        where current = JNull and dry_run = False]
    manifest_without_version_is_unknown [OF example_facts(1) example_facts(5) example_facts(7) b,
        where current = "JString ''0.9.0''" and dry_run = False]
  show ?thesis
    by (simp add: example_facts example_manifest_def)
qed

end
